theory Spec2Isabelle
  imports Main "HOL-Library.Word"
begin

unbundle bit_operations_syntax

section \<open>Basic types of the abstraction layer\<close>

text \<open>
  The C sources use the fixed-width integer types \<open>int32\<close>, \<open>uint32\<close> and \<open>uint64\<close>.
  They are modelled as machine words: arithmetic wraps, \<open>sint\<close> reads a word as
  two's complement and \<open>uint\<close>/\<open>unat\<close> read it as unsigned.  The platform type
  \<open>int\<close> is 32 bits wide on every supported target, so \<open>INT_MAX\<close> is \<open>2^31 - 1\<close>.
\<close>

type_synonym int32 = "32 word"
type_synonym uint32 = "32 word"
type_synonym uint64 = "64 word"
type_synonym uint16 = "16 word"
type_synonym uint8 = "8 word"
type_synonym osal_id_t = "32 word"

text \<open>
  Every API function returns an \<open>int32\<close> status code.  The numeric values of the codes
  are declared in a public header that is not among the sources at hand; the code only
  ever compares them for equality, so the status is modelled as an enumeration with one
  constructor per code name.
\<close>

datatype os_status =
    OS_SUCCESS
  | OS_ERROR
  | OS_INVALID_POINTER
  | OS_ERR_INVALID_ID
  | OS_ERR_NAME_TOO_LONG
  | OS_ERR_NAME_NOT_FOUND
  | OS_ERR_NAME_TAKEN
  | OS_ERR_NO_FREE_IDS
  | OS_ERR_INCORRECT_OBJ_STATE
  | OS_ERR_OBJECT_IN_USE
  | OS_SEM_FAILURE
  | OS_SEM_TIMEOUT
  | OS_QUEUE_EMPTY
  | OS_QUEUE_FULL
  | OS_QUEUE_TIMEOUT
  | OS_QUEUE_INVALID_SIZE
  | OS_TIMER_ERR_INVALID_ARGS
  | OS_TIMER_ERR_TIMER_ID
  | OS_TIMER_ERR_UNAVAILABLE
  | OS_FS_ERR_PATH_TOO_LONG
  | OS_FS_ERR_PATH_INVALID
  | OS_FS_ERR_NAME_TOO_LONG
  | OS_FS_ERR_DEVICE_NOT_FREE
  | OS_FS_ERR_DRIVE_NOT_CREATED
  | OS_MODULE_LOAD_ERROR

definition INT_MAX :: int where
  "INT_MAX = 2147483647"

subsection \<open>Compile-time configuration\<close>

text \<open>
  The limits of \<open>osconfig.h\<close> are chosen by the user of the library and the file is
  not among the sources, so they are a parameter of the model.  \<open>OS_FS_DEV_NAME_LEN\<close>
  is the size of the \<open>device_name\<close> buffer of a file system record; the
  \<open>virtual_mountpt\<close> buffer has \<open>OS_MAX_PATH_LEN\<close> bytes.
\<close>

record osconfig =
  OS_MAX_API_NAME :: nat
  OS_MAX_PATH_LEN :: nat
  OS_MAX_FILE_NAME :: nat
  OS_MAX_LOCAL_PATH_LEN :: nat
  OS_FS_DEV_NAME_LEN :: nat

definition example_config :: osconfig where
  "example_config =
     \<lparr> OS_MAX_API_NAME = 20, OS_MAX_PATH_LEN = 64, OS_MAX_FILE_NAME = 20,
       OS_MAX_LOCAL_PATH_LEN = 128, OS_FS_DEV_NAME_LEN = 32 \<rparr>"

subsection \<open>Object identifiers (os-shared-idmap.h)\<close>

text \<open>
  The object type numbers, the shift and the mask are declared in a public header that is
  not among the sources.  The values below are those of the reference configuration; the
  theorems depend only on the type numbers being distinct and non-zero.
\<close>

definition OS_OBJECT_TYPE_SHIFT :: nat where "OS_OBJECT_TYPE_SHIFT = 16"
definition OS_OBJECT_INDEX_MASK :: uint32 where "OS_OBJECT_INDEX_MASK = 0xFFFF"

definition OS_OBJECT_TYPE_UNDEFINED :: uint32 where "OS_OBJECT_TYPE_UNDEFINED = 0"
definition OS_OBJECT_TYPE_OS_TASK :: uint32 where "OS_OBJECT_TYPE_OS_TASK = 1"
definition OS_OBJECT_TYPE_OS_QUEUE :: uint32 where "OS_OBJECT_TYPE_OS_QUEUE = 2"
definition OS_OBJECT_TYPE_OS_COUNTSEM :: uint32 where "OS_OBJECT_TYPE_OS_COUNTSEM = 3"
definition OS_OBJECT_TYPE_OS_BINSEM :: uint32 where "OS_OBJECT_TYPE_OS_BINSEM = 4"
definition OS_OBJECT_TYPE_OS_MUTEX :: uint32 where "OS_OBJECT_TYPE_OS_MUTEX = 5"
definition OS_OBJECT_TYPE_OS_STREAM :: uint32 where "OS_OBJECT_TYPE_OS_STREAM = 6"
definition OS_OBJECT_TYPE_OS_DIR :: uint32 where "OS_OBJECT_TYPE_OS_DIR = 7"
definition OS_OBJECT_TYPE_OS_TIMEBASE :: uint32 where "OS_OBJECT_TYPE_OS_TIMEBASE = 8"
definition OS_OBJECT_TYPE_OS_TIMECB :: uint32 where "OS_OBJECT_TYPE_OS_TIMECB = 9"
definition OS_OBJECT_TYPE_OS_MODULE :: uint32 where "OS_OBJECT_TYPE_OS_MODULE = 10"
definition OS_OBJECT_TYPE_OS_FILESYS :: uint32 where "OS_OBJECT_TYPE_OS_FILESYS = 11"
definition OS_OBJECT_TYPE_OS_CONSOLE :: uint32 where "OS_OBJECT_TYPE_OS_CONSOLE = 12"
definition OS_OBJECT_TYPE_USER :: uint32 where "OS_OBJECT_TYPE_USER = 16"

definition OS_OBJECT_ID_UNDEFINED :: osal_id_t where "OS_OBJECT_ID_UNDEFINED = 0"
definition OS_OBJECT_ID_RESERVED :: osal_id_t where "OS_OBJECT_ID_RESERVED = 0xFFFFFFFF"
definition OS_OBJECT_EXCL_REQ_FLAG :: uint16 where "OS_OBJECT_EXCL_REQ_FLAG = 0x0001"

definition OS_ObjectIdToSerialNumber_Impl :: "osal_id_t \<Rightarrow> uint32" where
  "OS_ObjectIdToSerialNumber_Impl object_id = object_id AND OS_OBJECT_INDEX_MASK"

definition OS_ObjectIdToType_Impl :: "osal_id_t \<Rightarrow> uint32" where
  "OS_ObjectIdToType_Impl object_id = drop_bit OS_OBJECT_TYPE_SHIFT object_id"

definition OS_ObjectIdCompose_Impl :: "uint32 \<Rightarrow> uint32 \<Rightarrow> osal_id_t" where
  "OS_ObjectIdCompose_Impl idtype idserial = push_bit OS_OBJECT_TYPE_SHIFT idtype OR idserial"

definition OS_ObjectIdEqual :: "osal_id_t \<Rightarrow> osal_id_t \<Rightarrow> bool" where
  "OS_ObjectIdEqual object_id1 object_id2 = (object_id1 = object_id2)"

text \<open>
  \<open>struct OS_common_record\<close>.  \<open>name_entry\<close> points into the name buffer of the
  internal record of the same slot; it is modelled by the name it points to (the empty
  string for a cleared entry).
\<close>

record OS_common_record_t =
  name_entry :: string
  active_id :: osal_id_t
  creator :: osal_id_t
  refcount :: uint16
  flags :: uint16

datatype OS_lock_mode_t =
    OS_LOCK_MODE_NONE
  | OS_LOCK_MODE_GLOBAL
  | OS_LOCK_MODE_EXCLUSIVE
  | OS_LOCK_MODE_REFCOUNT

subsection \<open>Internal records of the shared layer\<close>

text \<open>
  The internal record types are declared in headers that are not among the sources; the
  fields below are the ones the functions under study read and write, with the types of
  the variables they are assigned from.  Character arrays hold C strings and are modelled
  by the string they contain.  Function pointers are modelled by an optional opaque
  address, \<open>None\<close> being \<open>NULL\<close>.  Isabelle records share one name space for their
  fields, so the fields of the property structures and of the file system record that
  would clash carry the structure's name as a prefix.
\<close>

record OS_queue_internal_record_t =
  queue_name :: string
  max_size :: uint32
  max_depth :: uint32

record OS_bin_sem_internal_record_t =
  obj_name :: string

record OS_timebase_internal_record_t =
  timebase_name :: string
  external_sync :: "nat option"
  accuracy_usec :: uint32
  first_cb :: osal_id_t
  freerun_time :: uint32
  nominal_start_time :: uint32
  nominal_interval_time :: uint32

record OS_timecb_internal_record_t =
  next_ref :: uint32
  backlog_resets :: uint32
  wait_time :: int32
  interval_time :: int32
  callback_ptr :: "nat option"
  callback_arg :: nat

record OS_filesys_internal_record_t =
  device_name :: string
  volume_name :: string
  system_mountpt :: string
  virtual_mountpt :: string
  filesys_flags :: uint32

definition OS_FILESYS_FLAG_IS_READY :: uint32 where "OS_FILESYS_FLAG_IS_READY = 0x1"
definition OS_FILESYS_FLAG_IS_FIXED :: uint32 where "OS_FILESYS_FLAG_IS_FIXED = 0x2"
definition OS_FILESYS_FLAG_IS_MOUNTED_SYSTEM :: uint32 where "OS_FILESYS_FLAG_IS_MOUNTED_SYSTEM = 0x10"
definition OS_FILESYS_FLAG_IS_MOUNTED_VIRTUAL :: uint32 where "OS_FILESYS_FLAG_IS_MOUNTED_VIRTUAL = 0x20"

subsection \<open>Property structures of the public API\<close>

record OS_queue_prop_t =
  queue_prop_name :: string
  queue_prop_creator :: osal_id_t

record OS_bin_sem_prop_t =
  bin_prop_name :: string
  bin_prop_creator :: osal_id_t
  bin_prop_value :: int32

record OS_timebase_prop_t =
  timebase_prop_name :: string
  timebase_prop_creator :: osal_id_t
  timebase_prop_nominal_interval_time :: uint32
  timebase_prop_freerun_time :: uint32
  timebase_prop_accuracy :: uint32

text \<open>The value \<open>memset(p, 0, sizeof(*p))\<close> leaves in a structure.\<close>

definition zero_queue_prop :: OS_queue_prop_t where
  "zero_queue_prop = \<lparr> queue_prop_name = [], queue_prop_creator = 0 \<rparr>"

definition zero_bin_sem_prop :: OS_bin_sem_prop_t where
  "zero_bin_sem_prop = \<lparr> bin_prop_name = [], bin_prop_creator = 0, bin_prop_value = 0 \<rparr>"

definition zero_timebase_prop :: OS_timebase_prop_t where
  "zero_timebase_prop =
     \<lparr> timebase_prop_name = [], timebase_prop_creator = 0,
       timebase_prop_nominal_interval_time = 0, timebase_prop_freerun_time = 0,
       timebase_prop_accuracy = 0 \<rparr>"

definition zero_queue_record :: OS_queue_internal_record_t where
  "zero_queue_record = \<lparr> queue_name = [], max_size = 0, max_depth = 0 \<rparr>"

definition zero_bin_sem_record :: OS_bin_sem_internal_record_t where
  "zero_bin_sem_record = \<lparr> obj_name = [] \<rparr>"

definition zero_timebase_record :: OS_timebase_internal_record_t where
  "zero_timebase_record =
     \<lparr> timebase_name = [], external_sync = None, accuracy_usec = 0, first_cb = 0,
       freerun_time = 0, nominal_start_time = 0, nominal_interval_time = 0 \<rparr>"

definition zero_filesys_record :: OS_filesys_internal_record_t where
  "zero_filesys_record =
     \<lparr> device_name = [], volume_name = [], system_mountpt = [], virtual_mountpt = [],
       filesys_flags = 0 \<rparr>"

text \<open>
  \<open>strncpy(dst, src, n)\<close> into a zero-filled buffer of more than \<open>n\<close> bytes leaves
  the first \<open>n\<close> characters of \<open>src\<close> as the string in \<open>dst\<close>.
\<close>

definition strncpy_zeroed :: "string \<Rightarrow> nat \<Rightarrow> string" where
  "strncpy_zeroed src n = take n src"

section \<open>Process-wide shared state (osapi-common.c)\<close>

text \<open>
  \<open>OS_SharedGlobalVars\<close> as initialised in osapi-common.c.  The structure type itself
  is declared in a header that is not among the sources; the two tick globals are signed
  32-bit integers there.
\<close>

record OS_SharedGlobalVars_t =
  Initialized :: bool
  PrintfEnabled :: bool
  ShutdownFlag :: uint32
  MicroSecPerTick :: int32
  TicksPerSecond :: int32
  EventHandler :: "nat option"
  DebugLevel :: uint8

definition OS_SharedGlobalVars_init :: OS_SharedGlobalVars_t where
  "OS_SharedGlobalVars_init =
     \<lparr> Initialized = False, PrintfEnabled = False, ShutdownFlag = 0,
       MicroSecPerTick = 0, TicksPerSecond = 0, EventHandler = None, DebugLevel = 1 \<rparr>"

text \<open>
  The global variables of the shared layer that the functions under study touch.  The
  \<open>OS_global_*_table\<close> arrays hold the common records of one object type each;
  \<open>platform\<close> stands for everything else: the state of the platform adapter, of the
  kernel, and of the shared-layer modules that are not among the sources.  The type locks
  are not part of the state: the model is sequential.
\<close>

record 'p osal =
  OS_SharedGlobalVars :: OS_SharedGlobalVars_t
  OS_global_queue_table :: "OS_common_record_t list"
  OS_queue_table :: "OS_queue_internal_record_t list"
  OS_global_bin_sem_table :: "OS_common_record_t list"
  OS_bin_sem_table :: "OS_bin_sem_internal_record_t list"
  OS_global_timebase_table :: "OS_common_record_t list"
  OS_timebase_table :: "OS_timebase_internal_record_t list"
  OS_global_timecb_table :: "OS_common_record_t list"
  OS_timecb_table :: "OS_timecb_internal_record_t list"
  OS_global_filesys_table :: "OS_common_record_t list"
  OS_filesys_table :: "OS_filesys_internal_record_t list"
  platform :: 'p

section \<open>Object identifier lookups (osapi-idmap.c)\<close>

text \<open>
  Modelled from the spec: the file osapi-idmap.c, which implements the identifier manager
  declared in os-shared-idmap.h, is not among the sources.  The lookups below follow the
  specification of the identifier manager: the serial number of a handle carries the
  slot index in its low part (the index is the serial number modulo the capacity of the
  table), a slot is active when its \<open>active_id\<close> is a handle of the table's type, a
  lookup by id checks the type, the range and that the slot holds exactly that handle,
  a search returns the first active slot the match function accepts and fails with
  \<open>OS_ERR_NAME_NOT_FOUND\<close>, and the lock mode decides what happens after a match:
  \<open>EXCLUSIVE\<close> requires a reference count of zero (otherwise it raises the
  exclusive-request flag and, nobody else running in a sequential model, gives up with
  \<open>OS_ERR_OBJECT_IN_USE\<close> after its retries), \<open>REFCOUNT\<close> increments the count.
  A record pointer is modelled by the index of the record in its table.
\<close>

definition OS_ObjectIdToArrayIndex :: "uint32 \<Rightarrow> osal_id_t \<Rightarrow> nat \<Rightarrow> os_status \<times> nat" where
  "OS_ObjectIdToArrayIndex idtype object_id max_id =
     (if OS_ObjectIdToType_Impl object_id \<noteq> idtype \<or> max_id = 0
      then (OS_ERR_INVALID_ID, 0)
      else (OS_SUCCESS, unat (OS_ObjectIdToSerialNumber_Impl object_id) mod max_id))"

definition slot_active :: "uint32 \<Rightarrow> OS_common_record_t \<Rightarrow> bool" where
  "slot_active idtype obj = (OS_ObjectIdToType_Impl (active_id obj) = idtype)"

definition OS_ObjectIdConvertLock ::
  "OS_lock_mode_t \<Rightarrow> nat \<Rightarrow> OS_common_record_t list \<Rightarrow> os_status \<times> OS_common_record_t list" where
  "OS_ObjectIdConvertLock lock_mode idx tbl =
     (case lock_mode of
        OS_LOCK_MODE_NONE \<Rightarrow> (OS_SUCCESS, tbl)
      | OS_LOCK_MODE_GLOBAL \<Rightarrow> (OS_SUCCESS, tbl)
      | OS_LOCK_MODE_EXCLUSIVE \<Rightarrow>
          (if refcount (tbl ! idx) = 0 then (OS_SUCCESS, tbl)
           else (OS_ERR_OBJECT_IN_USE,
                 tbl[idx := (tbl ! idx)\<lparr>flags := flags (tbl ! idx) OR OS_OBJECT_EXCL_REQ_FLAG\<rparr>]))
      | OS_LOCK_MODE_REFCOUNT \<Rightarrow>
          (OS_SUCCESS, tbl[idx := (tbl ! idx)\<lparr>refcount := refcount (tbl ! idx) + 1\<rparr>]))"

definition OS_ObjectIdGetById ::
  "OS_lock_mode_t \<Rightarrow> uint32 \<Rightarrow> osal_id_t \<Rightarrow> OS_common_record_t list \<Rightarrow>
   os_status \<times> nat \<times> OS_common_record_t list" where
  "OS_ObjectIdGetById lock_mode idtype object_id tbl =
     (let (rc, array_index) = OS_ObjectIdToArrayIndex idtype object_id (length tbl)
      in if rc \<noteq> OS_SUCCESS then (OS_ERR_INVALID_ID, array_index, tbl)
         else if active_id (tbl ! array_index) \<noteq> object_id then (OS_ERR_INVALID_ID, array_index, tbl)
         else (let (rc', tbl') = OS_ObjectIdConvertLock lock_mode array_index tbl
               in (rc', array_index, tbl')))"

definition OS_ObjectIdSearch ::
  "uint32 \<Rightarrow> (nat \<Rightarrow> OS_common_record_t \<Rightarrow> bool) \<Rightarrow> OS_common_record_t list \<Rightarrow> nat option" where
  "OS_ObjectIdSearch idtype MatchFunc tbl =
     find (\<lambda>i. slot_active idtype (tbl ! i) \<and> MatchFunc i (tbl ! i)) [0..<length tbl]"

definition OS_ObjectIdGetBySearch ::
  "OS_lock_mode_t \<Rightarrow> uint32 \<Rightarrow> (nat \<Rightarrow> OS_common_record_t \<Rightarrow> bool) \<Rightarrow>
   OS_common_record_t list \<Rightarrow> os_status \<times> nat \<times> OS_common_record_t list" where
  "OS_ObjectIdGetBySearch lock_mode idtype MatchFunc tbl =
     (case OS_ObjectIdSearch idtype MatchFunc tbl of
        None \<Rightarrow> (OS_ERR_NAME_NOT_FOUND, 0, tbl)
      | Some i \<Rightarrow>
          (let (rc, tbl') = OS_ObjectIdConvertLock lock_mode i tbl in (rc, i, tbl')))"

definition OS_ObjectNameMatch :: "string \<Rightarrow> nat \<Rightarrow> OS_common_record_t \<Rightarrow> bool" where
  "OS_ObjectNameMatch ref local_id obj = (name_entry obj = ref)"

definition OS_ObjectIdGetByName ::
  "OS_lock_mode_t \<Rightarrow> uint32 \<Rightarrow> string \<Rightarrow> OS_common_record_t list \<Rightarrow>
   os_status \<times> nat \<times> OS_common_record_t list" where
  "OS_ObjectIdGetByName lock_mode idtype name tbl =
     OS_ObjectIdGetBySearch lock_mode idtype (OS_ObjectNameMatch name) tbl"

definition OS_ObjectIdFindByName ::
  "uint32 \<Rightarrow> string \<Rightarrow> OS_common_record_t list \<Rightarrow> os_status \<times> osal_id_t option" where
  "OS_ObjectIdFindByName idtype name tbl =
     (case OS_ObjectIdSearch idtype (OS_ObjectNameMatch name) tbl of
        None \<Rightarrow> (OS_ERR_NAME_NOT_FOUND, None)
      | Some i \<Rightarrow> (OS_SUCCESS, Some (active_id (tbl ! i))))"

section \<open>Milliseconds to ticks (osapi-timebase.c, OS_Milli2Ticks)\<close>

text \<open>
  \<open>num_of_ticks = (((uint64)milli_seconds * OS_SharedGlobalVars.TicksPerSecond) + 999) / 1000\<close>.
  The signed global is converted to \<open>uint64\<close> by sign extension (\<open>scast\<close>); the
  product, the sum and the division are those of 64-bit unsigned words.
\<close>

definition num_of_ticks :: "OS_SharedGlobalVars_t \<Rightarrow> uint32 \<Rightarrow> uint64" where
  "num_of_ticks g milli_seconds =
     ((ucast milli_seconds :: uint64) * (scast (TicksPerSecond g) :: uint64) + 999) div 1000"

text \<open>
  The function returns the status and the value stored through \<open>ticks\<close>
  (a platform \<open>int\<close>).  The comparison \<open>num_of_ticks <= INT_MAX\<close> is unsigned.
\<close>

definition OS_Milli2Ticks :: "OS_SharedGlobalVars_t \<Rightarrow> uint32 \<Rightarrow> os_status \<times> int32" where
  "OS_Milli2Ticks g milli_seconds =
     (let n = num_of_ticks g milli_seconds
      in if n \<le> 2147483647 then (OS_SUCCESS, ucast n) else (OS_ERROR, 0))"

subsection \<open>VxWorks binary semaphore timed wait (os-impl-binsem.c)\<close>

text \<open>
  \<open>OS_VxWorks_GenericSemTake\<close> lives in a file that is not among the sources; it is the
  parameter \<open>GenericSemTake\<close>, which receives the native semaphore id and the tick count
  and transforms the kernel state \<open>'k\<close>.  The table \<open>OS_impl_bin_sem_table\<close> is the
  list of native ids; the slot index comes from the shared layer, which only passes
  indices of live slots.
\<close>

definition OS_BinSemTimedWait_Impl ::
  "(nat \<Rightarrow> int32 \<Rightarrow> 'k \<Rightarrow> os_status \<times> 'k) \<Rightarrow> OS_SharedGlobalVars_t \<Rightarrow> nat list \<Rightarrow>
   nat \<Rightarrow> uint32 \<Rightarrow> 'k \<Rightarrow> os_status \<times> 'k" where
  "OS_BinSemTimedWait_Impl GenericSemTake g OS_impl_bin_sem_table sem_id msecs k =
     (let (status, ticks) = OS_Milli2Ticks g msecs
      in if status = OS_SUCCESS then GenericSemTake (OS_impl_bin_sem_table ! sem_id) ticks k
         else (status, k))"

section \<open>Message queues (osapi-queue.c)\<close>

text \<open>
  Pointer arguments are modelled by an option: \<open>None\<close> is \<open>NULL\<close>, \<open>Some v\<close> is a
  pointer to an object that currently holds \<open>v\<close>; a function returns the contents of
  the objects it may write.  The platform adapter's \<open>OS_QueueGet_Impl\<close> is the parameter
  \<open>QueueGet_Impl\<close>: from the slot, the buffer, its size, the timeout and the global state
  it yields a status, the new buffer contents, the value it stores through
  \<open>size_copied\<close>, and the new platform state.
\<close>

definition OS_QueueGet ::
  "(nat \<Rightarrow> uint8 list \<Rightarrow> uint32 \<Rightarrow> int32 \<Rightarrow> 'p osal \<Rightarrow> os_status \<times> uint8 list \<times> uint32 \<times> 'p) \<Rightarrow>
   osal_id_t \<Rightarrow> uint8 list option \<Rightarrow> uint32 \<Rightarrow> uint32 option \<Rightarrow> int32 \<Rightarrow> 'p osal \<Rightarrow>
   os_status \<times> uint8 list option \<times> uint32 option \<times> 'p osal" where
  "OS_QueueGet QueueGet_Impl queue_id data size' size_copied timeout w =
     (case (data, size_copied) of
        (Some buf, Some sc) \<Rightarrow>
          (let (return_code, local_id, tbl) =
                 OS_ObjectIdGetById OS_LOCK_MODE_NONE OS_OBJECT_TYPE_OS_QUEUE queue_id
                   (OS_global_queue_table w);
               w1 = w\<lparr>OS_global_queue_table := tbl\<rparr>
           in if return_code = OS_SUCCESS then
                (if size' < max_size (OS_queue_table w1 ! local_id)
                 then (OS_QUEUE_INVALID_SIZE, Some buf, Some 0, w1)
                 else (let (rc, buf', sc', p') = QueueGet_Impl local_id buf size' timeout w1
                       in (rc, Some buf', Some sc', w1\<lparr>platform := p'\<rparr>)))
              else (return_code, Some buf, Some sc, w1))
      | _ \<Rightarrow> (OS_INVALID_POINTER, data, size_copied, w))"

definition OS_QueueGetInfo ::
  "osconfig \<Rightarrow> osal_id_t \<Rightarrow> OS_queue_prop_t option \<Rightarrow> 'p osal \<Rightarrow>
   os_status \<times> OS_queue_prop_t option \<times> 'p osal" where
  "OS_QueueGetInfo cfg queue_id queue_prop w =
     (case queue_prop of
        None \<Rightarrow> (OS_INVALID_POINTER, None, w)
      | Some _ \<Rightarrow>
          (let prop0 = zero_queue_prop;
               (return_code, local_id, tbl) =
                 OS_ObjectIdGetById OS_LOCK_MODE_GLOBAL OS_OBJECT_TYPE_OS_QUEUE queue_id
                   (OS_global_queue_table w);
               w1 = w\<lparr>OS_global_queue_table := tbl\<rparr>
           in if return_code = OS_SUCCESS then
                (let record = tbl ! local_id;
                     prop1 = prop0\<lparr>queue_prop_name :=
                                     strncpy_zeroed (name_entry record) (OS_MAX_API_NAME cfg - 1)\<rparr>;
                     prop2 = prop1\<lparr>queue_prop_creator := creator record\<rparr>
                 in (return_code, Some prop2, w1))
              else (return_code, Some prop0, w1)))"

section \<open>Binary semaphores (osapi-binsem.c)\<close>

text \<open>
  \<open>OS_BinSemGetInfo_Impl\<close> belongs to the platform adapter: from the slot, the
  structure filled so far and the global state it yields a status and the structure.
\<close>

definition OS_BinSemGetInfo ::
  "osconfig \<Rightarrow> (nat \<Rightarrow> OS_bin_sem_prop_t \<Rightarrow> 'p osal \<Rightarrow> os_status \<times> OS_bin_sem_prop_t) \<Rightarrow>
   osal_id_t \<Rightarrow> OS_bin_sem_prop_t option \<Rightarrow> 'p osal \<Rightarrow>
   os_status \<times> OS_bin_sem_prop_t option \<times> 'p osal" where
  "OS_BinSemGetInfo cfg BinSemGetInfo_Impl sem_id bin_prop w =
     (case bin_prop of
        None \<Rightarrow> (OS_INVALID_POINTER, None, w)
      | Some _ \<Rightarrow>
          (let prop0 = zero_bin_sem_prop;
               (return_code, local_id, tbl) =
                 OS_ObjectIdGetById OS_LOCK_MODE_GLOBAL OS_OBJECT_TYPE_OS_BINSEM sem_id
                   (OS_global_bin_sem_table w);
               w1 = w\<lparr>OS_global_bin_sem_table := tbl\<rparr>
           in if return_code = OS_SUCCESS then
                (let record = tbl ! local_id;
                     prop1 = prop0\<lparr>bin_prop_name :=
                                     strncpy_zeroed (name_entry record) (OS_MAX_API_NAME cfg - 1)\<rparr>;
                     prop2 = prop1\<lparr>bin_prop_creator := creator record\<rparr>;
                     (rc, prop3) = BinSemGetInfo_Impl local_id prop2 w1
                 in (rc, Some prop3, w1))
              else (return_code, Some prop0, w1)))"

text \<open>The VxWorks adapter (os-impl-binsem.c) has nothing to add and reports success.\<close>

definition OS_BinSemGetInfo_Impl_vxworks ::
  "nat \<Rightarrow> OS_bin_sem_prop_t \<Rightarrow> 'p osal \<Rightarrow> os_status \<times> OS_bin_sem_prop_t" where
  "OS_BinSemGetInfo_Impl_vxworks sem_id bin_prop w = (OS_SUCCESS, bin_prop)"

section \<open>Time base API (osapi-timebase.c)\<close>

text \<open>
  \<open>self_id\<close> is what the platform adapter's \<open>OS_TaskGetId_Impl()\<close> reports for the
  calling task.  The allocation and finalisation routines of the identifier manager
  (\<open>OS_ObjectIdAllocateNew\<close>, \<open>OS_ObjectIdFinalizeNew\<close>, \<open>OS_ObjectIdFinalizeDelete\<close>)
  are in the file that is not among the sources and no property studied here depends on
  how they pick slots and serial numbers; they are parameters that transform the global
  state.  \<open>AllocateNew\<close> yields the slot index, which also locates the common record.
  The adapter functions \<open>*_Impl\<close> are parameters that read the global state and yield
  a status and the new platform state.
\<close>

definition OS_TimeBaseCreate ::
  "osconfig \<Rightarrow>
   (uint32 \<Rightarrow> string \<Rightarrow> 'p osal \<Rightarrow> os_status \<times> nat \<times> 'p osal) \<Rightarrow>
   (nat \<Rightarrow> 'p osal \<Rightarrow> os_status \<times> 'p) \<Rightarrow>
   (os_status \<Rightarrow> nat \<Rightarrow> 'p osal \<Rightarrow> os_status \<times> osal_id_t \<times> 'p osal) \<Rightarrow>
   osal_id_t \<Rightarrow> osal_id_t option \<Rightarrow> string option \<Rightarrow> nat option \<Rightarrow> 'p osal \<Rightarrow>
   os_status \<times> osal_id_t option \<times> 'p osal" where
  "OS_TimeBaseCreate cfg AllocateNew TimeBaseCreate_Impl FinalizeNew self_id timer_id
     timebase_name' external_sync' w =
     (case (timer_id, timebase_name') of
        (Some _, Some name) \<Rightarrow>
          (if length name \<ge> OS_MAX_API_NAME cfg then (OS_ERR_NAME_TOO_LONG, timer_id, w)
           else if OS_ObjectIdToType_Impl self_id = OS_OBJECT_TYPE_OS_TIMEBASE
           then (OS_ERR_INCORRECT_OBJ_STATE, timer_id, w)
           else
             (let (return_code, local_id, w1) = AllocateNew OS_OBJECT_TYPE_OS_TIMEBASE name w
              in if return_code = OS_SUCCESS then
                   (let rec0 = zero_timebase_record
                          \<lparr>timebase_name := strncpy_zeroed name (OS_MAX_API_NAME cfg - 1)\<rparr>;
                        gtbl = (OS_global_timebase_table w1)
                          [local_id := (OS_global_timebase_table w1 ! local_id)
                             \<lparr>name_entry := timebase_name rec0\<rparr>];
                        rec1 = rec0\<lparr>external_sync := external_sync'\<rparr>;
                        rec2 = (if external_sync' = None
                                then rec1\<lparr>accuracy_usec := MicroSecPerTick (OS_SharedGlobalVars w1)\<rparr>
                                else rec1\<lparr>accuracy_usec := 0\<rparr>);
                        w2 = w1\<lparr>OS_global_timebase_table := gtbl,
                                OS_timebase_table := (OS_timebase_table w1)[local_id := rec2]\<rparr>;
                        (rc, p') = TimeBaseCreate_Impl local_id w2;
                        (rc', outid, w3) = FinalizeNew rc local_id (w2\<lparr>platform := p'\<rparr>)
                    in (rc', Some outid, w3))
                 else (return_code, timer_id, w1)))
      | _ \<Rightarrow> (OS_INVALID_POINTER, timer_id, w))"

definition OS_TimeBaseSet ::
  "(nat \<Rightarrow> uint32 \<Rightarrow> uint32 \<Rightarrow> 'p osal \<Rightarrow> os_status \<times> 'p) \<Rightarrow>
   osal_id_t \<Rightarrow> osal_id_t \<Rightarrow> uint32 \<Rightarrow> uint32 \<Rightarrow> 'p osal \<Rightarrow> os_status \<times> 'p osal" where
  "OS_TimeBaseSet TimeBaseSet_Impl self_id timer_id start_time interval_time' w =
     (if interval_time' \<ge> 1000000000 \<or> start_time \<ge> 1000000000
      then (OS_TIMER_ERR_INVALID_ARGS, w)
      else if OS_ObjectIdToType_Impl self_id = OS_OBJECT_TYPE_OS_TIMEBASE
      then (OS_ERR_INCORRECT_OBJ_STATE, w)
      else
        (let (return_code, local_id, tbl) =
               OS_ObjectIdGetById OS_LOCK_MODE_GLOBAL OS_OBJECT_TYPE_OS_TIMEBASE timer_id
                 (OS_global_timebase_table w);
             w1 = w\<lparr>OS_global_timebase_table := tbl\<rparr>
         in if return_code = OS_SUCCESS then
              (let (rc, p') = TimeBaseSet_Impl local_id start_time interval_time' w1;
                   w2 = w1\<lparr>platform := p'\<rparr>
               in if rc = OS_SUCCESS
                  then (rc, w2\<lparr>OS_timebase_table := (OS_timebase_table w2)
                          [local_id := (OS_timebase_table w2 ! local_id)
                             \<lparr>nominal_start_time := start_time,
                              nominal_interval_time := interval_time'\<rparr>]\<rparr>)
                  else (rc, w2))
            else (return_code, w1)))"

definition OS_TimeBaseDelete ::
  "(nat \<Rightarrow> 'p osal \<Rightarrow> os_status \<times> 'p) \<Rightarrow>
   (os_status \<Rightarrow> nat \<Rightarrow> 'p osal \<Rightarrow> os_status \<times> 'p osal) \<Rightarrow>
   osal_id_t \<Rightarrow> osal_id_t \<Rightarrow> 'p osal \<Rightarrow> os_status \<times> 'p osal" where
  "OS_TimeBaseDelete TimeBaseDelete_Impl FinalizeDelete self_id timer_id w =
     (if OS_ObjectIdToType_Impl self_id = OS_OBJECT_TYPE_OS_TIMEBASE
      then (OS_ERR_INCORRECT_OBJ_STATE, w)
      else
        (let (return_code, local_id, tbl) =
               OS_ObjectIdGetById OS_LOCK_MODE_EXCLUSIVE OS_OBJECT_TYPE_OS_TIMEBASE timer_id
                 (OS_global_timebase_table w);
             w1 = w\<lparr>OS_global_timebase_table := tbl\<rparr>
         in if return_code = OS_SUCCESS then
              (let (rc, p') = TimeBaseDelete_Impl local_id w1
               in FinalizeDelete rc local_id (w1\<lparr>platform := p'\<rparr>))
            else (return_code, w1)))"

definition OS_TimeBaseGetIdByName ::
  "osal_id_t \<Rightarrow> osal_id_t option \<Rightarrow> string option \<Rightarrow> 'p osal \<Rightarrow>
   os_status \<times> osal_id_t option \<times> 'p osal" where
  "OS_TimeBaseGetIdByName self_id timer_id timebase_name' w =
     (case (timer_id, timebase_name') of
        (Some _, Some name) \<Rightarrow>
          (if OS_ObjectIdToType_Impl self_id = OS_OBJECT_TYPE_OS_TIMEBASE
           then (OS_ERR_INCORRECT_OBJ_STATE, timer_id, w)
           else
             (case OS_ObjectIdFindByName OS_OBJECT_TYPE_OS_TIMEBASE name
                     (OS_global_timebase_table w) of
                (return_code, Some found) \<Rightarrow> (return_code, Some found, w)
              | (return_code, None) \<Rightarrow> (return_code, timer_id, w)))
      | _ \<Rightarrow> (OS_INVALID_POINTER, timer_id, w))"

definition OS_TimeBaseGetInfo ::
  "osconfig \<Rightarrow> (nat \<Rightarrow> OS_timebase_prop_t \<Rightarrow> 'p osal \<Rightarrow> os_status \<times> OS_timebase_prop_t) \<Rightarrow>
   osal_id_t \<Rightarrow> osal_id_t \<Rightarrow> OS_timebase_prop_t option \<Rightarrow> 'p osal \<Rightarrow>
   os_status \<times> OS_timebase_prop_t option \<times> 'p osal" where
  "OS_TimeBaseGetInfo cfg TimeBaseGetInfo_Impl self_id timebase_id timebase_prop w =
     (case timebase_prop of
        None \<Rightarrow> (OS_INVALID_POINTER, None, w)
      | Some _ \<Rightarrow>
          (if OS_ObjectIdToType_Impl self_id = OS_OBJECT_TYPE_OS_TIMEBASE
           then (OS_ERR_INCORRECT_OBJ_STATE, timebase_prop, w)
           else
             (let prop0 = zero_timebase_prop;
                  (return_code, local_id, tbl) =
                    OS_ObjectIdGetById OS_LOCK_MODE_GLOBAL OS_OBJECT_TYPE_OS_TIMEBASE timebase_id
                      (OS_global_timebase_table w);
                  w1 = w\<lparr>OS_global_timebase_table := tbl\<rparr>
              in if return_code = OS_SUCCESS then
                   (let record = tbl ! local_id;
                        prop1 = prop0
                          \<lparr>timebase_prop_name :=
                              strncpy_zeroed (name_entry record) (OS_MAX_API_NAME cfg - 1),
                           timebase_prop_creator := creator record,
                           timebase_prop_nominal_interval_time :=
                              nominal_interval_time (OS_timebase_table w1 ! local_id),
                           timebase_prop_freerun_time :=
                              freerun_time (OS_timebase_table w1 ! local_id),
                           timebase_prop_accuracy :=
                              accuracy_usec (OS_timebase_table w1 ! local_id)\<rparr>;
                        (rc, prop2) = TimeBaseGetInfo_Impl local_id prop1 w1
                    in (rc, Some prop2, w1))
                 else (return_code, Some prop0, w1))))"

text \<open>
  \<open>OS_TimeBaseGetFreeRun\<close> dereferences \<open>freerun_val\<close> without a check, so the
  argument is the current contents of the caller's variable.
\<close>

definition OS_TimeBaseGetFreeRun ::
  "osal_id_t \<Rightarrow> uint32 \<Rightarrow> 'p osal \<Rightarrow> os_status \<times> uint32 \<times> 'p osal" where
  "OS_TimeBaseGetFreeRun timebase_id freerun_val w =
     (let (return_code, local_id, tbl) =
            OS_ObjectIdGetById OS_LOCK_MODE_NONE OS_OBJECT_TYPE_OS_TIMEBASE timebase_id
              (OS_global_timebase_table w);
          w1 = w\<lparr>OS_global_timebase_table := tbl\<rparr>
      in if return_code = OS_SUCCESS
         then (return_code, freerun_time (OS_timebase_table w1 ! local_id), w1)
         else (return_code, freerun_val, w1))"

section \<open>Time base servicing thread (osapi-timebase.c, OS_TimeBase_CallbackThread)\<close>

text \<open>
  An application callback is foreign code; the model records each invocation as a triple
  of the function address, the object id and the argument it is called with.  Signed
  comparisons read the words with \<open>sint\<close>; signed addition and negation wrap, which is
  what the supported targets do where C leaves the overflow undefined.
\<close>

type_synonym callback_call = "nat \<times> osal_id_t \<times> nat"

text \<open>
  The loop \<open>while (timecb->wait_time <= 0) { ... }\<close> for one callback record.
  \<open>saved_wait_time\<close> is the wait time read before the tick was subtracted.
\<close>

function timecb_while ::
  "osal_id_t \<Rightarrow> int32 \<Rightarrow> OS_timecb_internal_record_t \<times> callback_call list \<Rightarrow>
   OS_timecb_internal_record_t \<times> callback_call list" where
  "timecb_while curr_cb_public_id saved_wait_time (timecb, calls) =
     (if sint (wait_time timecb) \<le> 0 then
        (let timecb1 = timecb\<lparr>wait_time := wait_time timecb + interval_time timecb\<rparr>;
             timecb2 = (if sint (wait_time timecb1) < sint (- interval_time timecb1)
                        then timecb1\<lparr>backlog_resets := backlog_resets timecb1 + 1,
                                     wait_time := - interval_time timecb1\<rparr>
                        else timecb1);
             calls2 = (case callback_ptr timecb2 of
                         Some f \<Rightarrow> (if 0 < sint saved_wait_time
                                    then calls @ [(f, curr_cb_public_id, callback_arg timecb2)]
                                    else calls)
                       | None \<Rightarrow> calls)
         in if sint (interval_time timecb2) \<le> 0 then (timecb2, calls2)
            else timecb_while curr_cb_public_id saved_wait_time (timecb2, calls2))
      else (timecb, calls))"
  by pat_completeness auto
termination
proof (relation "measure (\<lambda>(p, s, cb, c). nat (1 - sint (wait_time cb)))", goal_cases)
  case 1
  show ?case by simp
next
  case (2 p s cb c cb1 cb2 c2)
  let ?w = "wait_time cb" and ?i = "interval_time cb"
  have i_eq: "interval_time cb2 = ?i" and i1: "interval_time cb1 = ?i"
    using 2 by (auto split: if_splits)
  have ipos: "0 < sint ?i" using 2 i_eq by simp
  have wle: "sint ?w \<le> 0" using 2 by simp
  have ilt: "sint ?i < 2 ^ 31" using sint_lt[of ?i] by simp
  have wge: "- (2 ^ 31) \<le> sint ?w" using sint_ge[of ?w] by simp
  have add: "sint (?w + ?i) = sint ?w + sint ?i"
    using ipos wle ilt wge by (simp add: sint_word_ariths signed_take_bit_int_eq_self)
  have neg: "sint (- ?i) = - sint ?i"
    using ipos ilt by (simp add: sint_word_ariths signed_take_bit_int_eq_self)
  have "sint ?w < sint (wait_time cb2)"
    using 2(2,3) add neg ipos by (auto split: if_splits)
  with wle show ?case by simp
qed

declare timecb_while.simps [simp del]

text \<open>
  The body of the \<open>do ... while\<close> loop for the record in slot \<open>curr_cb_local_id\<close>:
  the tick is subtracted from the wait time (an unsigned subtraction whose result is
  stored back into the signed field) and the inner loop runs.
\<close>

definition timecb_tick ::
  "uint32 \<Rightarrow> osal_id_t \<Rightarrow> OS_timecb_internal_record_t \<times> callback_call list \<Rightarrow>
   OS_timecb_internal_record_t \<times> callback_call list" where
  "timecb_tick tick_time curr_cb_public_id = (\<lambda>(timecb, calls).
     (let saved_wait_time = wait_time timecb;
          timecb1 = timecb\<lparr>wait_time := wait_time timecb - tick_time\<rparr>
      in timecb_while curr_cb_public_id saved_wait_time (timecb1, calls)))"

text \<open>
  The walk over the ring of callback records.  The C loop has no bound of its own: it
  ends when \<open>next_ref\<close> leads back to the slot it started from.  A walk that never
  comes back, or that leaves the tables, has no result (\<open>None\<close>).
\<close>

partial_function (option) timecb_ring_walk ::
  "uint32 \<Rightarrow> uint32 \<Rightarrow> uint32 \<Rightarrow> 'p osal \<times> callback_call list \<Rightarrow>
   ('p osal \<times> callback_call list) option" where
  "timecb_ring_walk tick_time timer_id curr_cb_local_id st =
     (let w = fst st; calls = snd st; i = unat curr_cb_local_id
      in if i < length (OS_timecb_table w) \<and> i < length (OS_global_timecb_table w) then
           (let curr_cb_public_id = active_id (OS_global_timecb_table w ! i);
                (timecb, calls') = timecb_tick tick_time curr_cb_public_id
                                     (OS_timecb_table w ! i, calls);
                w' = w\<lparr>OS_timecb_table := (OS_timecb_table w)[i := timecb]\<rparr>
            in if next_ref timecb \<noteq> timer_id
               then timecb_ring_walk tick_time timer_id (next_ref timecb) (w', calls')
               else Some (w', calls'))
         else None)"

text \<open>The update of the free-running counter (\<open>timebase->freerun_time += tick_time\<close>).\<close>

definition tick_freerun :: "nat \<Rightarrow> uint32 \<Rightarrow> 'p osal \<Rightarrow> 'p osal" where
  "tick_freerun local_id tick_time w =
     w\<lparr>OS_timebase_table := (OS_timebase_table w)
          [local_id := (OS_timebase_table w ! local_id)
             \<lparr>freerun_time := freerun_time (OS_timebase_table w ! local_id) + tick_time\<rparr>]\<rparr>"

text \<open>
  One pass of the thread's main loop after the sync function has returned \<open>tick_time\<close>,
  from taking the time base lock to releasing it.  The result is \<open>None\<close> when the ring
  walk has none; otherwise the flag tells whether the thread goes on (\<open>True\<close>) or has
  found its time base deleted and leaves the loop (\<open>False\<close>).
\<close>

definition OS_TimeBase_tick ::
  "osal_id_t \<Rightarrow> nat \<Rightarrow> uint32 \<Rightarrow> 'p osal \<times> callback_call list \<Rightarrow>
   (bool \<times> 'p osal \<times> callback_call list) option" where
  "OS_TimeBase_tick timebase_id local_id tick_time = (\<lambda>(w, calls).
     if \<not> OS_ObjectIdEqual timebase_id (active_id (OS_global_timebase_table w ! local_id))
     then Some (False, w, calls)
     else
       (let w1 = tick_freerun local_id tick_time w;
            (rc, timer_id) = OS_ObjectIdToArrayIndex OS_OBJECT_TYPE_OS_TIMECB
                               (first_cb (OS_timebase_table w1 ! local_id))
                               (length (OS_global_timecb_table w1))
        in if rc = OS_SUCCESS then
             (case timecb_ring_walk tick_time (of_nat timer_id) (of_nat timer_id) (w1, calls) of
                None \<Rightarrow> None
              | Some (w2, calls2) \<Rightarrow> Some (True, w2, calls2))
           else Some (True, w1, calls)))"

text \<open>
  The main loop, run on the successive values the sync function returns.  The platform
  adapter's \<open>OS_TaskDelay_Impl\<close> is the parameter \<open>TaskDelay_Impl\<close>.
  \<open>OS_TIMEBASE_SPIN_LIMIT\<close> is 4.
\<close>

definition OS_TIMEBASE_SPIN_LIMIT :: uint32 where "OS_TIMEBASE_SPIN_LIMIT = 4"

fun CallbackThread_loop ::
  "(uint32 \<Rightarrow> 'p \<Rightarrow> 'p) \<Rightarrow> osal_id_t \<Rightarrow> nat \<Rightarrow> uint32 list \<Rightarrow> uint32 \<Rightarrow>
   'p osal \<times> callback_call list \<Rightarrow> ('p osal \<times> callback_call list) option" where
  "CallbackThread_loop TaskDelay_Impl timebase_id local_id [] spin_cycles st = Some st"
| "CallbackThread_loop TaskDelay_Impl timebase_id local_id (tick_time # ticks) spin_cycles st =
     (let (spin_cycles', st1) =
            (if tick_time \<noteq> 0 then (0, st)
             else if spin_cycles < OS_TIMEBASE_SPIN_LIMIT then (spin_cycles + 1, st)
             else (if spin_cycles = OS_TIMEBASE_SPIN_LIMIT then spin_cycles + 1 else spin_cycles,
                   ((fst st)\<lparr>platform := TaskDelay_Impl 10 (platform (fst st))\<rparr>, snd st)))
      in case OS_TimeBase_tick timebase_id local_id tick_time st1 of
           None \<Rightarrow> None
         | Some (False, st2) \<Rightarrow> Some st2
         | Some (True, st2) \<Rightarrow>
             CallbackThread_loop TaskDelay_Impl timebase_id local_id ticks spin_cycles' st2)"

definition OS_TimeBase_CallbackThread ::
  "(uint32 \<Rightarrow> 'p \<Rightarrow> 'p) \<Rightarrow> uint32 list \<Rightarrow> osal_id_t \<Rightarrow> 'p osal \<Rightarrow>
   ('p osal \<times> callback_call list) option" where
  "OS_TimeBase_CallbackThread TaskDelay_Impl ticks timebase_id w =
     (let (rc, local_id, tbl) =
            OS_ObjectIdGetById OS_LOCK_MODE_GLOBAL OS_OBJECT_TYPE_OS_TIMEBASE timebase_id
              (OS_global_timebase_table w);
          w1 = w\<lparr>OS_global_timebase_table := tbl\<rparr>
      in if rc \<noteq> OS_SUCCESS then Some (w1, [])
         else CallbackThread_loop TaskDelay_Impl timebase_id local_id ticks 0 (w1, []))"

text \<open>
  Auxiliary notions for stating what the thread does to one callback record.
  \<open>callback_fires\<close> is what one iteration of the inner loop adds to the recorded
  calls, by \<open>if (saved_wait_time > 0 && timecb->callback_ptr != NULL)\<close>.
  \<open>timecb_ticks\<close> runs the body of the \<open>do ... while\<close> loop for one record on
  the successive tick values of successive passes of the main loop.
  \<open>timebase_has_single_timer\<close> says that the time base in slot \<open>local_id\<close> is
  the one the thread serves and that its ring of callback records consists of the one
  record in slot \<open>timer_id\<close>.
\<close>

definition callback_fires ::
  "osal_id_t \<Rightarrow> int32 \<Rightarrow> OS_timecb_internal_record_t \<Rightarrow> callback_call list" where
  "callback_fires curr_cb_public_id saved_wait_time timecb =
     (case callback_ptr timecb of
        Some f \<Rightarrow> (if 0 < sint saved_wait_time then [(f, curr_cb_public_id, callback_arg timecb)] else [])
      | None \<Rightarrow> [])"

definition timecb_ticks ::
  "uint32 list \<Rightarrow> osal_id_t \<Rightarrow> OS_timecb_internal_record_t \<times> callback_call list \<Rightarrow>
   OS_timecb_internal_record_t \<times> callback_call list" where
  "timecb_ticks ticks curr_cb_public_id st = foldl (\<lambda>st t. timecb_tick t curr_cb_public_id st) st ticks"


section \<open>File systems (osapi-filesys.c)\<close>

text \<open>
  Strings are C strings without their terminator.  \<open>strrchr s c\<close> is the position of
  the last occurrence of \<open>c\<close> in \<open>s\<close>, if any.  A caller's output buffer is the list
  of the bytes it holds; \<open>memcpy_at\<close> overwrites a stretch of it, and the string a
  buffer contains ends before its first zero byte.  The buffer handed to
  \<open>OS_TranslatePath\<close> has at least \<open>OS_MAX_LOCAL_PATH_LEN\<close> bytes.
\<close>

fun strrchr :: "string \<Rightarrow> char \<Rightarrow> nat option" where
  "strrchr [] c = None"
| "strrchr (x # xs) c =
     (case strrchr xs c of
        Some i \<Rightarrow> Some (Suc i)
      | None \<Rightarrow> (if x = c then Some 0 else None))"

definition memcpy_at :: "string \<Rightarrow> nat \<Rightarrow> string \<Rightarrow> string" where
  "memcpy_at buf pos src = take pos buf @ src @ drop (pos + length src) buf"

definition c_string :: "string \<Rightarrow> string" where
  "c_string buf = takeWhile (\<lambda>c. c \<noteq> CHR 0x00) buf"

text \<open>
  \<open>OS_FileSys_FindVirtMountPoint\<close>: the match function of the searches by virtual mount
  point.  \<open>strncmp(target, rec->virtual_mountpt, mplen) == 0\<close> holds exactly when the
  first \<open>mplen\<close> characters of \<open>target\<close> are the mount point; \<open>target[mplen]\<close> is then
  the next character of \<open>target\<close>, or its terminator.
\<close>

definition OS_FileSys_FindVirtMountPoint ::
  "OS_filesys_internal_record_t list \<Rightarrow> string \<Rightarrow> nat \<Rightarrow> OS_common_record_t \<Rightarrow> bool" where
  "OS_FileSys_FindVirtMountPoint filesys_table target local_id obj =
     (let rec = filesys_table ! local_id
      in if filesys_flags rec AND OS_FILESYS_FLAG_IS_MOUNTED_VIRTUAL = 0 then False
         else
           (let mplen = length (virtual_mountpt rec)
            in mplen > 0 \<and> take mplen target = virtual_mountpt rec \<and>
               (case drop mplen target of [] \<Rightarrow> True | c # _ \<Rightarrow> c = CHR ''/'')))"

text \<open>
  \<open>OS_mount\<close>.  The adapter's \<open>OS_FileSysMountVolume_Impl\<close> is a parameter.  The return
  value of \<open>OS_ObjectIdToArrayIndex\<close> is ignored by the code; its index is used.
\<close>

definition OS_mount ::
  "osconfig \<Rightarrow> (nat \<Rightarrow> 'p osal \<Rightarrow> os_status \<times> 'p) \<Rightarrow> string option \<Rightarrow> string option \<Rightarrow>
   'p osal \<Rightarrow> os_status \<times> 'p osal" where
  "OS_mount cfg FileSysMountVolume_Impl devname mountpoint w =
     (case (devname, mountpoint) of
        (Some dev, Some mp) \<Rightarrow>
          (if length dev \<ge> OS_FS_DEV_NAME_LEN cfg \<or> length mp \<ge> OS_MAX_PATH_LEN cfg
           then (OS_FS_ERR_PATH_TOO_LONG, w)
           else
             (let (return_code, global, tbl) =
                    OS_ObjectIdGetByName OS_LOCK_MODE_EXCLUSIVE OS_OBJECT_TYPE_OS_FILESYS dev
                      (OS_global_filesys_table w);
                  w1 = w\<lparr>OS_global_filesys_table := tbl\<rparr>;
                  (return_code1, w4) =
                    (if return_code = OS_SUCCESS then
                       (let local_id = snd (OS_ObjectIdToArrayIndex OS_OBJECT_TYPE_OS_FILESYS
                                              (active_id (tbl ! global)) (length tbl));
                            local = OS_filesys_table w1 ! local_id;
                            (rc, w2) =
                              (if filesys_flags local AND NOT OS_FILESYS_FLAG_IS_FIXED
                                    \<noteq> OS_FILESYS_FLAG_IS_READY
                               then (OS_ERR_INCORRECT_OBJ_STATE, w1)
                               else if system_mountpt local = []
                               then (OS_FS_ERR_PATH_INVALID, w1)
                               else (let (rc', p') = FileSysMountVolume_Impl local_id w1
                                     in (rc', w1\<lparr>platform := p'\<rparr>)))
                        in if rc = OS_SUCCESS then
                             (rc, w2\<lparr>OS_filesys_table := (OS_filesys_table w2)
                                    [local_id := (OS_filesys_table w2 ! local_id)
                                       \<lparr>virtual_mountpt := mp,
                                        filesys_flags :=
                                          filesys_flags (OS_filesys_table w2 ! local_id)
                                            OR (OS_FILESYS_FLAG_IS_MOUNTED_SYSTEM
                                                OR OS_FILESYS_FLAG_IS_MOUNTED_VIRTUAL)\<rparr>]\<rparr>)
                           else (rc, w2))
                     else (return_code, w1))
              in (if return_code1 \<noteq> OS_SUCCESS then OS_ERR_NAME_NOT_FOUND else return_code1, w4)))
      | _ \<Rightarrow> (OS_INVALID_POINTER, w))"

definition OS_unmount ::
  "osconfig \<Rightarrow> (nat \<Rightarrow> 'p osal \<Rightarrow> os_status \<times> 'p) \<Rightarrow> string option \<Rightarrow>
   'p osal \<Rightarrow> os_status \<times> 'p osal" where
  "OS_unmount cfg FileSysUnmountVolume_Impl mountpoint w =
     (case mountpoint of
        Some mp \<Rightarrow>
          (if length mp \<ge> OS_MAX_PATH_LEN cfg
           then (OS_FS_ERR_PATH_TOO_LONG, w)
           else
             (let (return_code, global, tbl) =
                    OS_ObjectIdGetBySearch OS_LOCK_MODE_EXCLUSIVE OS_OBJECT_TYPE_OS_FILESYS
                      (OS_FileSys_FindVirtMountPoint (OS_filesys_table w) mp)
                      (OS_global_filesys_table w);
                  w1 = w\<lparr>OS_global_filesys_table := tbl\<rparr>;
                  (return_code1, w4) =
                    (if return_code = OS_SUCCESS then
                       (let local_id = snd (OS_ObjectIdToArrayIndex OS_OBJECT_TYPE_OS_FILESYS
                                              (active_id (tbl ! global)) (length tbl));
                            local = OS_filesys_table w1 ! local_id;
                            (rc, w2) =
                              (if filesys_flags local AND NOT OS_FILESYS_FLAG_IS_FIXED
                                    \<noteq> (OS_FILESYS_FLAG_IS_READY OR OS_FILESYS_FLAG_IS_MOUNTED_SYSTEM
                                        OR OS_FILESYS_FLAG_IS_MOUNTED_VIRTUAL)
                               then (OS_ERR_INCORRECT_OBJ_STATE, w1)
                               else (let (rc', p') = FileSysUnmountVolume_Impl local_id w1
                                     in (rc', w1\<lparr>platform := p'\<rparr>)))
                        in if rc = OS_SUCCESS then
                             (rc, w2\<lparr>OS_filesys_table := (OS_filesys_table w2)
                                    [local_id := (OS_filesys_table w2 ! local_id)
                                       \<lparr>filesys_flags :=
                                          filesys_flags (OS_filesys_table w2 ! local_id)
                                            AND NOT (OS_FILESYS_FLAG_IS_MOUNTED_SYSTEM
                                                     OR OS_FILESYS_FLAG_IS_MOUNTED_VIRTUAL)\<rparr>]\<rparr>)
                           else (rc, w2))
                     else (return_code, w1))
              in (if return_code1 \<noteq> OS_SUCCESS then OS_ERR_NAME_NOT_FOUND else return_code1, w4)))
      | None \<Rightarrow> (OS_INVALID_POINTER, w))"

text \<open>\<open>OS_TranslatePath\<close>, returning the status, the bytes of \<open>LocalPath\<close> and the state.\<close>

definition OS_TranslatePath ::
  "osconfig \<Rightarrow> string option \<Rightarrow> string option \<Rightarrow> 'p osal \<Rightarrow>
   os_status \<times> string option \<times> 'p osal" where
  "OS_TranslatePath cfg VirtualPath LocalPath w =
     (case (VirtualPath, LocalPath) of
        (Some vp, Some lp) \<Rightarrow>
          (let VirtPathLen = length vp
           in if VirtPathLen \<ge> OS_MAX_PATH_LEN cfg then (OS_FS_ERR_PATH_TOO_LONG, LocalPath, w)
              else
                (case strrchr vp CHR ''/'' of
                   None \<Rightarrow> (OS_FS_ERR_PATH_INVALID, LocalPath, w)
                 | Some slash \<Rightarrow>
                     (let name_ptr = drop (slash + 1) vp
                      in if length name_ptr \<ge> OS_MAX_FILE_NAME cfg
                         then (OS_FS_ERR_NAME_TOO_LONG, LocalPath, w)
                         else if (case vp of [] \<Rightarrow> True | c # _ \<Rightarrow> c \<noteq> CHR ''/'')
                         then (OS_FS_ERR_PATH_INVALID, LocalPath, w)
                         else
                           (let (return_code, global, tbl) =
                                  OS_ObjectIdGetBySearch OS_LOCK_MODE_GLOBAL OS_OBJECT_TYPE_OS_FILESYS
                                    (OS_FileSys_FindVirtMountPoint (OS_filesys_table w) vp)
                                    (OS_global_filesys_table w);
                                w1 = w\<lparr>OS_global_filesys_table := tbl\<rparr>;
                                (return_code1, SysMountPointLen, VirtPathBegin, lp1) =
                                  (if return_code \<noteq> OS_SUCCESS
                                   then (OS_FS_ERR_PATH_INVALID, 0, VirtPathLen, lp)
                                   else
                                     (let local_id =
                                            snd (OS_ObjectIdToArrayIndex OS_OBJECT_TYPE_OS_FILESYS
                                                   (active_id (tbl ! global)) (length tbl));
                                          local = OS_filesys_table w1 ! local_id
                                      in if filesys_flags local AND OS_FILESYS_FLAG_IS_MOUNTED_SYSTEM \<noteq> 0
                                         then
                                           (let sl = length (system_mountpt local)
                                            in (return_code, sl, length (virtual_mountpt local),
                                                if sl < OS_MAX_LOCAL_PATH_LEN cfg
                                                then memcpy_at lp 0 (system_mountpt local)
                                                else lp))
                                         else (OS_ERR_INCORRECT_OBJ_STATE, 0, VirtPathLen, lp)))
                            in if return_code1 = OS_SUCCESS then
                                 (if VirtPathLen < VirtPathBegin
                                  then (OS_FS_ERR_PATH_INVALID, Some lp1, w1)
                                  else
                                    (let VirtPathLen' = VirtPathLen - VirtPathBegin
                                     in if SysMountPointLen + VirtPathLen' < OS_MAX_LOCAL_PATH_LEN cfg
                                        then (return_code1,
                                              Some (memcpy_at
                                                      (memcpy_at lp1 SysMountPointLen
                                                         (take VirtPathLen' (drop VirtPathBegin vp)))
                                                      (SysMountPointLen + VirtPathLen') [CHR 0x00]),
                                              w1)
                                        else (OS_FS_ERR_PATH_TOO_LONG, Some lp1, w1)))
                               else (return_code1, Some lp1, w1)))))
      | _ \<Rightarrow> (OS_INVALID_POINTER, LocalPath, w))"

section \<open>Initialisation and teardown (osapi-common.c)\<close>

subsection \<open>Per-module initialisation\<close>

text \<open>
  The four \<open>*API_Init\<close> routines among the sources clear their internal table
  (\<open>memset(table, 0, sizeof(table))\<close>) and report success.
\<close>

definition OS_QueueAPI_Init :: "'p osal \<Rightarrow> os_status \<times> 'p osal" where
  "OS_QueueAPI_Init w =
     (OS_SUCCESS, w\<lparr>OS_queue_table := replicate (length (OS_queue_table w)) zero_queue_record\<rparr>)"

definition OS_BinSemAPI_Init :: "'p osal \<Rightarrow> os_status \<times> 'p osal" where
  "OS_BinSemAPI_Init w =
     (OS_SUCCESS,
      w\<lparr>OS_bin_sem_table := replicate (length (OS_bin_sem_table w)) zero_bin_sem_record\<rparr>)"

definition OS_TimeBaseAPI_Init :: "'p osal \<Rightarrow> os_status \<times> 'p osal" where
  "OS_TimeBaseAPI_Init w =
     (OS_SUCCESS,
      w\<lparr>OS_timebase_table := replicate (length (OS_timebase_table w)) zero_timebase_record\<rparr>)"

definition OS_FileSysAPI_Init :: "'p osal \<Rightarrow> os_status \<times> 'p osal" where
  "OS_FileSysAPI_Init w =
     (OS_SUCCESS,
      w\<lparr>OS_filesys_table := replicate (length (OS_filesys_table w)) zero_filesys_record\<rparr>)"

text \<open>
  The other routines \<open>OS_API_Init\<close> calls are not among the sources: the initialisation
  of the identifier manager, the platform adapter's per-type initialisation, the
  initialisation of the remaining shared-layer modules and of the network and socket
  layers.  Each is a parameter that transforms the global state and yields a status.
\<close>

record 'p init_env =
  OS_ObjectIdInit :: "'p osal \<Rightarrow> os_status \<times> 'p osal"
  OS_API_Impl_Init :: "uint32 \<Rightarrow> 'p osal \<Rightarrow> os_status \<times> 'p osal"
  OS_TaskAPI_Init :: "'p osal \<Rightarrow> os_status \<times> 'p osal"
  OS_CountSemAPI_Init :: "'p osal \<Rightarrow> os_status \<times> 'p osal"
  OS_MutexAPI_Init :: "'p osal \<Rightarrow> os_status \<times> 'p osal"
  OS_ModuleAPI_Init :: "'p osal \<Rightarrow> os_status \<times> 'p osal"
  OS_TimerCbAPI_Init :: "'p osal \<Rightarrow> os_status \<times> 'p osal"
  OS_FileAPI_Init :: "'p osal \<Rightarrow> os_status \<times> 'p osal"
  OS_DirAPI_Init :: "'p osal \<Rightarrow> os_status \<times> 'p osal"
  OS_ConsoleAPI_Init :: "'p osal \<Rightarrow> os_status \<times> 'p osal"
  OS_NetworkAPI_Init :: "'p osal \<Rightarrow> os_status \<times> 'p osal"
  OS_SocketAPI_Init :: "'p osal \<Rightarrow> os_status \<times> 'p osal"

text \<open>The \<open>switch (idtype)\<close> of \<open>OS_API_Init\<close>; the default case keeps the status.\<close>

definition API_Init_switch ::
  "'p init_env \<Rightarrow> uint32 \<Rightarrow> os_status \<times> 'p osal \<Rightarrow> os_status \<times> 'p osal" where
  "API_Init_switch env idtype = (\<lambda>(return_code, w).
     if idtype = OS_OBJECT_TYPE_OS_TASK then OS_TaskAPI_Init env w
     else if idtype = OS_OBJECT_TYPE_OS_QUEUE then OS_QueueAPI_Init w
     else if idtype = OS_OBJECT_TYPE_OS_BINSEM then OS_BinSemAPI_Init w
     else if idtype = OS_OBJECT_TYPE_OS_COUNTSEM then OS_CountSemAPI_Init env w
     else if idtype = OS_OBJECT_TYPE_OS_MUTEX then OS_MutexAPI_Init env w
     else if idtype = OS_OBJECT_TYPE_OS_MODULE then OS_ModuleAPI_Init env w
     else if idtype = OS_OBJECT_TYPE_OS_TIMEBASE then OS_TimeBaseAPI_Init w
     else if idtype = OS_OBJECT_TYPE_OS_TIMECB then OS_TimerCbAPI_Init env w
     else if idtype = OS_OBJECT_TYPE_OS_STREAM then OS_FileAPI_Init env w
     else if idtype = OS_OBJECT_TYPE_OS_DIR then OS_DirAPI_Init env w
     else if idtype = OS_OBJECT_TYPE_OS_FILESYS then OS_FileSysAPI_Init w
     else if idtype = OS_OBJECT_TYPE_OS_CONSOLE then OS_ConsoleAPI_Init env w
     else (return_code, w))"

text \<open>The loop \<open>for (idtype = 0; idtype < OS_OBJECT_TYPE_USER; ++idtype)\<close>.\<close>

function API_Init_loop ::
  "'p init_env \<Rightarrow> uint32 \<Rightarrow> os_status \<times> 'p osal \<Rightarrow> os_status \<times> 'p osal" where
  "API_Init_loop env idtype (return_code, w) =
     (if idtype < OS_OBJECT_TYPE_USER then
        (let (rc1, w1) = OS_API_Impl_Init env idtype w
         in if rc1 \<noteq> OS_SUCCESS then (rc1, w1)
            else
              (let (rc2, w2) = API_Init_switch env idtype (rc1, w1)
               in if rc2 \<noteq> OS_SUCCESS then (rc2, w2)
                  else API_Init_loop env (idtype + 1) (rc2, w2)))
      else (return_code, w))"
  by pat_completeness auto
termination
proof (relation "measure (\<lambda>(env, idtype, st). 16 - unat idtype)", goal_cases)
  case 1
  show ?case by simp
next
  case (2 env idtype return_code w x rc1 w1 y rc2 w2)
  have lt: "unat idtype < 16"
    using 2(1) by (simp add: OS_OBJECT_TYPE_USER_def word_less_nat_alt)
  then have "unat idtype + unat (1 :: uint32) < 2 ^ LENGTH(32)" by simp
  then have "unat (idtype + 1) = unat idtype + unat (1 :: uint32)"
    by (simp only: unat_add_lem)
  with lt show ?case by simp
qed

declare API_Init_loop.simps [simp del]

text \<open>
  \<open>OS_API_Init\<close>.  \<open>OS_DEBUG\<close> only prints, so the final comparison of the product of
  the tick globals with 1000000 leaves no trace in the state.
\<close>

definition OS_API_Init :: "'p init_env \<Rightarrow> 'p osal \<Rightarrow> os_status \<times> 'p osal" where
  "OS_API_Init env w =
     (if Initialized (OS_SharedGlobalVars w) \<noteq> False then (OS_ERROR, w)
      else
        (let w0 = w\<lparr>OS_SharedGlobalVars := (OS_SharedGlobalVars w)\<lparr>Initialized := True\<rparr>\<rparr>;
             (return_code, w1) = OS_ObjectIdInit env w0
         in if return_code \<noteq> OS_SUCCESS then (return_code, w1)
            else
              (let (rc2, w2) = API_Init_loop env 0 (return_code, w1);
                   (rc3, w3) = (if rc2 = OS_SUCCESS then OS_NetworkAPI_Init env w2 else (rc2, w2));
                   (rc4, w4) = (if rc3 = OS_SUCCESS then OS_SocketAPI_Init env w3 else (rc3, w3));
                   rc5 = (if rc4 = OS_SUCCESS \<and>
                             (MicroSecPerTick (OS_SharedGlobalVars w4) = 0 \<or>
                              TicksPerSecond (OS_SharedGlobalVars w4) = 0)
                          then OS_ERROR else rc4)
               in (rc5, w4))))"

subsection \<open>Deleting all objects\<close>

text \<open>
  The delete routines \<open>OS_CleanUpObject\<close> dispatches to; the status each returns is
  discarded by the caller, so each is a state transformer.  \<open>OS_IdentifyObject\<close> yields
  the type field of the id.
\<close>

record 'p delete_env =
  OS_TaskDelete :: "osal_id_t \<Rightarrow> 'p osal \<Rightarrow> 'p osal"
  OS_QueueDelete :: "osal_id_t \<Rightarrow> 'p osal \<Rightarrow> 'p osal"
  OS_BinSemDelete :: "osal_id_t \<Rightarrow> 'p osal \<Rightarrow> 'p osal"
  OS_CountSemDelete :: "osal_id_t \<Rightarrow> 'p osal \<Rightarrow> 'p osal"
  OS_MutSemDelete :: "osal_id_t \<Rightarrow> 'p osal \<Rightarrow> 'p osal"
  OS_ModuleUnload :: "osal_id_t \<Rightarrow> 'p osal \<Rightarrow> 'p osal"
  OS_TimeBaseDelete' :: "osal_id_t \<Rightarrow> 'p osal \<Rightarrow> 'p osal"
  OS_TimerDelete :: "osal_id_t \<Rightarrow> 'p osal \<Rightarrow> 'p osal"
  OS_close :: "osal_id_t \<Rightarrow> 'p osal \<Rightarrow> 'p osal"
  OS_DirectoryClose :: "osal_id_t \<Rightarrow> 'p osal \<Rightarrow> 'p osal"

definition OS_IdentifyObject :: "osal_id_t \<Rightarrow> uint32" where
  "OS_IdentifyObject object_id = OS_ObjectIdToType_Impl object_id"

definition OS_CleanUpObject ::
  "'p delete_env \<Rightarrow> osal_id_t \<Rightarrow> uint32 \<times> 'p osal \<Rightarrow> uint32 \<times> 'p osal" where
  "OS_CleanUpObject del object_id = (\<lambda>(ObjectCount, w).
     (ObjectCount + 1,
      (let t = OS_IdentifyObject object_id
       in if t = OS_OBJECT_TYPE_OS_TASK then OS_TaskDelete del object_id w
          else if t = OS_OBJECT_TYPE_OS_QUEUE then OS_QueueDelete del object_id w
          else if t = OS_OBJECT_TYPE_OS_BINSEM then OS_BinSemDelete del object_id w
          else if t = OS_OBJECT_TYPE_OS_COUNTSEM then OS_CountSemDelete del object_id w
          else if t = OS_OBJECT_TYPE_OS_MUTEX then OS_MutSemDelete del object_id w
          else if t = OS_OBJECT_TYPE_OS_MODULE then OS_ModuleUnload del object_id w
          else if t = OS_OBJECT_TYPE_OS_TIMEBASE then OS_TimeBaseDelete' del object_id w
          else if t = OS_OBJECT_TYPE_OS_TIMECB then OS_TimerDelete del object_id w
          else if t = OS_OBJECT_TYPE_OS_STREAM then OS_close del object_id w
          else if t = OS_OBJECT_TYPE_OS_DIR then OS_DirectoryClose del object_id w
          else w)))"

text \<open>
  \<open>OS_ForEachObject\<close> (in the file that is not among the sources) and \<open>OS_TaskDelay\<close>
  are parameters: \<open>ForEachObject\<close> runs the callback it is given over the live objects,
  threading the callback's argument (the object count) and the global state.

  The main loop of \<open>OS_DeleteAllObjects\<close>, from a given \<open>TryCount\<close>; it yields the
  final \<open>ObjectCount\<close>, \<open>TryCount\<close> and state.
\<close>

function DeleteAllObjects_loop ::
  "((osal_id_t \<Rightarrow> uint32 \<times> 'p osal \<Rightarrow> uint32 \<times> 'p osal) \<Rightarrow> uint32 \<times> 'p osal \<Rightarrow> uint32 \<times> 'p osal) \<Rightarrow>
   'p delete_env \<Rightarrow> (uint32 \<Rightarrow> 'p osal \<Rightarrow> 'p osal) \<Rightarrow> uint32 \<Rightarrow> 'p osal \<Rightarrow>
   uint32 \<times> uint32 \<times> 'p osal" where
  "DeleteAllObjects_loop ForEachObject del TaskDelay TryCount w =
     (let TryCount1 = TryCount + 1;
          (ObjectCount, w1) = ForEachObject (OS_CleanUpObject del) (0, w)
      in if ObjectCount = 0 \<or> TryCount1 > 4 then (ObjectCount, TryCount1, w1)
         else DeleteAllObjects_loop ForEachObject del TaskDelay TryCount1 (TaskDelay 5 w1))"
  by pat_completeness auto
termination
proof (relation "measure (\<lambda>(f, d, t, TryCount, w). 5 - unat (TryCount + 1))", goal_cases)
  case 1
  show ?case by simp
next
  case (2 f d t TryCount w c x oc w1)
  have le: "unat (TryCount + 1) \<le> 4"
    using 2 by (simp add: word_le_nat_alt not_less)
  then have "unat (TryCount + 1) + unat (1 :: uint32) < 2 ^ LENGTH(32)" by simp
  then have "unat (TryCount + 1 + 1) = unat (TryCount + 1) + unat (1 :: uint32)"
    by (simp only: unat_add_lem)
  with le 2 show ?case by simp
qed

declare DeleteAllObjects_loop.simps [simp del]

text \<open>The trailing loop \<open>while (ObjectCount > 0 && TryCount < 5);\<close> with its empty body.\<close>

partial_function (option) DeleteAllObjects_spin :: "uint32 \<Rightarrow> uint32 \<Rightarrow> unit option" where
  "DeleteAllObjects_spin ObjectCount TryCount =
     (if ObjectCount > 0 \<and> TryCount < 5 then DeleteAllObjects_spin ObjectCount TryCount
      else Some ())"

definition OS_DeleteAllObjects ::
  "((osal_id_t \<Rightarrow> uint32 \<times> 'p osal \<Rightarrow> uint32 \<times> 'p osal) \<Rightarrow> uint32 \<times> 'p osal \<Rightarrow> uint32 \<times> 'p osal) \<Rightarrow>
   'p delete_env \<Rightarrow> (uint32 \<Rightarrow> 'p osal \<Rightarrow> 'p osal) \<Rightarrow> 'p osal \<Rightarrow> 'p osal option" where
  "OS_DeleteAllObjects ForEachObject del TaskDelay w =
     (let (ObjectCount, TryCount, w1) = DeleteAllObjects_loop ForEachObject del TaskDelay 0 w
      in case DeleteAllObjects_spin ObjectCount TryCount of
           None \<Rightarrow> None
         | Some _ \<Rightarrow> Some w1)"

text \<open>
  One for-each pass of the main loop, \<open>ObjectCount = 0; OS_ForEachObject(0,
  OS_CleanUpObject, &ObjectCount)\<close>, yielding the number of objects the pass visited
  and the state it leaves; and a pass followed by the \<open>OS_TaskDelay(5)\<close> that
  precedes the next one.  Iterating the latter \<open>k\<close> times gives the state in which
  pass number \<open>k + 1\<close> starts.
\<close>

definition DeleteAllObjects_pass ::
  "((osal_id_t \<Rightarrow> uint32 \<times> 'p osal \<Rightarrow> uint32 \<times> 'p osal) \<Rightarrow> uint32 \<times> 'p osal \<Rightarrow> uint32 \<times> 'p osal) \<Rightarrow>
   'p delete_env \<Rightarrow> 'p osal \<Rightarrow> uint32 \<times> 'p osal" where
  "DeleteAllObjects_pass ForEachObject del w = ForEachObject (OS_CleanUpObject del) (0, w)"

definition DeleteAllObjects_retry ::
  "((osal_id_t \<Rightarrow> uint32 \<times> 'p osal \<Rightarrow> uint32 \<times> 'p osal) \<Rightarrow> uint32 \<times> 'p osal \<Rightarrow> uint32 \<times> 'p osal) \<Rightarrow>
   'p delete_env \<Rightarrow> (uint32 \<Rightarrow> 'p osal \<Rightarrow> 'p osal) \<Rightarrow> 'p osal \<Rightarrow> 'p osal" where
  "DeleteAllObjects_retry ForEachObject del TaskDelay w =
     TaskDelay 5 (snd (DeleteAllObjects_pass ForEachObject del w))"

section \<open>Example states\<close>

text \<open>
  Small concrete states on which the theorems below are exercised: every table has two
  slots, slot 0 is free and slot 1 may hold an object.  The handle of an object of type
  \<open>t\<close> in slot 1 is \<open>t * 2^16 + 1\<close>.
\<close>

definition free_common :: OS_common_record_t where
  "free_common = \<lparr> name_entry = [], active_id = 0, creator = 0, refcount = 0, flags = 0 \<rparr>"

definition example_common :: "string \<Rightarrow> osal_id_t \<Rightarrow> OS_common_record_t" where
  "example_common name object_id =
     \<lparr> name_entry = name, active_id = object_id, creator = 0x10001, refcount = 0, flags = 0 \<rparr>"

definition zero_timecb_record :: OS_timecb_internal_record_t where
  "zero_timecb_record =
     \<lparr> next_ref = 0, backlog_resets = 0, wait_time = 0, interval_time = 0,
       callback_ptr = None, callback_arg = 0 \<rparr>"

definition empty_world :: "'p \<Rightarrow> 'p osal" where
  "empty_world p =
     \<lparr> OS_SharedGlobalVars = OS_SharedGlobalVars_init,
       OS_global_queue_table = [free_common, free_common],
       OS_queue_table = [zero_queue_record, zero_queue_record],
       OS_global_bin_sem_table = [free_common, free_common],
       OS_bin_sem_table = [zero_bin_sem_record, zero_bin_sem_record],
       OS_global_timebase_table = [free_common, free_common],
       OS_timebase_table = [zero_timebase_record, zero_timebase_record],
       OS_global_timecb_table = [free_common, free_common],
       OS_timecb_table = [zero_timecb_record, zero_timecb_record],
       OS_global_filesys_table = [free_common, free_common],
       OS_filesys_table = [zero_filesys_record, zero_filesys_record],
       platform = p \<rparr>"

text \<open>
  A queue \<open>q\<close> of depth 4 and message size 8 in slot 1; the platform state is the list
  of queued messages and the example adapter hands out the first one.
\<close>

definition example_queue_world :: "uint8 list list \<Rightarrow> uint8 list list osal" where
  "example_queue_world msgs =
     (empty_world msgs)
       \<lparr> OS_global_queue_table := [free_common, example_common ''q'' 0x20001],
         OS_queue_table := [zero_queue_record,
                            \<lparr> queue_name = ''q'', max_size = 8, max_depth = 4 \<rparr>] \<rparr>"

definition example_QueueGet_Impl ::
  "nat \<Rightarrow> uint8 list \<Rightarrow> uint32 \<Rightarrow> int32 \<Rightarrow> uint8 list list osal \<Rightarrow>
   os_status \<times> uint8 list \<times> uint32 \<times> uint8 list list" where
  "example_QueueGet_Impl local_id buf size' timeout w =
     (case platform w of
        [] \<Rightarrow> (OS_QUEUE_EMPTY, buf, 0, [])
      | m # ms \<Rightarrow> (OS_SUCCESS, m, of_nat (length m), ms))"

text \<open>
  A time base \<open>tb\<close> in slot 1 (handle \<open>0x80001\<close>), and an adapter whose
  \<open>OS_TimeBaseGetInfo_Impl\<close> has nothing to add.
\<close>

definition example_timebase_world :: "nat osal" where
  "example_timebase_world =
     (empty_world 0)
       \<lparr> OS_global_timebase_table := [free_common, example_common ''tb'' 0x80001],
         OS_timebase_table := [zero_timebase_record,
                               zero_timebase_record
                                 \<lparr> timebase_name := ''tb'', accuracy_usec := 1000,
                                   freerun_time := 5000, nominal_interval_time := 1000 \<rparr>] \<rparr>"

definition example_TimeBaseGetInfo_Impl ::
  "nat \<Rightarrow> OS_timebase_prop_t \<Rightarrow> nat osal \<Rightarrow> os_status \<times> OS_timebase_prop_t" where
  "example_TimeBaseGetInfo_Impl local_id timebase_prop w = (OS_SUCCESS, timebase_prop)"

definition stale_timebase_prop :: OS_timebase_prop_t where
  "stale_timebase_prop =
     \<lparr> timebase_prop_name = ''old'', timebase_prop_creator = 7,
       timebase_prop_nominal_interval_time = 1, timebase_prop_freerun_time = 2,
       timebase_prop_accuracy = 3 \<rparr>"

section \<open>Conditions on the parameters\<close>

text \<open>
  The routines \<open>OS_API_Init\<close> calls run after the \<open>Initialized\<close> flag has been set.
  None of those among the sources writes the flag; \<open>env_keeps_Initialized\<close> says the
  same of the ones that are parameters.
\<close>

definition keeps_Initialized :: "('p osal \<Rightarrow> os_status \<times> 'p osal) \<Rightarrow> bool" where
  "keeps_Initialized f =
     (\<forall>w. Initialized (OS_SharedGlobalVars (snd (f w))) = Initialized (OS_SharedGlobalVars w))"

definition env_keeps_Initialized :: "'p init_env \<Rightarrow> bool" where
  "env_keeps_Initialized env =
     (keeps_Initialized (OS_ObjectIdInit env) \<and>
      (\<forall>idtype. keeps_Initialized (OS_API_Impl_Init env idtype)) \<and>
      keeps_Initialized (OS_TaskAPI_Init env) \<and>
      keeps_Initialized (OS_CountSemAPI_Init env) \<and>
      keeps_Initialized (OS_MutexAPI_Init env) \<and>
      keeps_Initialized (OS_ModuleAPI_Init env) \<and>
      keeps_Initialized (OS_TimerCbAPI_Init env) \<and>
      keeps_Initialized (OS_FileAPI_Init env) \<and>
      keeps_Initialized (OS_DirAPI_Init env) \<and>
      keeps_Initialized (OS_ConsoleAPI_Init env) \<and>
      keeps_Initialized (OS_NetworkAPI_Init env) \<and>
      keeps_Initialized (OS_SocketAPI_Init env))"

text \<open>
  An example platform: its per-type initialisation sets the tick globals (10000
  microseconds per tick, 100 ticks per second) and counts its calls in the platform
  state; every other routine succeeds without doing anything.
\<close>

definition example_init_env :: "nat init_env" where
  "example_init_env =
     \<lparr> OS_ObjectIdInit = (\<lambda>w. (OS_SUCCESS, w)),
       OS_API_Impl_Init = (\<lambda>idtype w.
          (OS_SUCCESS,
           w\<lparr>OS_SharedGlobalVars :=
                (OS_SharedGlobalVars w)\<lparr>MicroSecPerTick := 10000, TicksPerSecond := 100\<rparr>,
             platform := Suc (platform w)\<rparr>)),
       OS_TaskAPI_Init = (\<lambda>w. (OS_SUCCESS, w)),
       OS_CountSemAPI_Init = (\<lambda>w. (OS_SUCCESS, w)),
       OS_MutexAPI_Init = (\<lambda>w. (OS_SUCCESS, w)),
       OS_ModuleAPI_Init = (\<lambda>w. (OS_SUCCESS, w)),
       OS_TimerCbAPI_Init = (\<lambda>w. (OS_SUCCESS, w)),
       OS_FileAPI_Init = (\<lambda>w. (OS_SUCCESS, w)),
       OS_DirAPI_Init = (\<lambda>w. (OS_SUCCESS, w)),
       OS_ConsoleAPI_Init = (\<lambda>w. (OS_SUCCESS, w)),
       OS_NetworkAPI_Init = (\<lambda>w. (OS_SUCCESS, w)),
       OS_SocketAPI_Init = (\<lambda>w. (OS_SUCCESS, w)) \<rparr>"

text \<open>
  An example for \<open>OS_DeleteAllObjects\<close>: the platform state counts the for-each
  passes, there are two live objects (a queue and a time base), and the delete routines
  never manage to delete anything.
\<close>

definition example_ForEachObject ::
  "(osal_id_t \<Rightarrow> uint32 \<times> nat osal \<Rightarrow> uint32 \<times> nat osal) \<Rightarrow> uint32 \<times> nat osal \<Rightarrow> uint32 \<times> nat osal" where
  "example_ForEachObject callback = (\<lambda>(arg, w).
     foldl (\<lambda>st object_id. callback object_id st) (arg, w\<lparr>platform := Suc (platform w)\<rparr>)
       [0x20001, 0x80001])"

definition example_delete_env :: "nat delete_env" where
  "example_delete_env =
     \<lparr> OS_TaskDelete = (\<lambda>object_id w. w), OS_QueueDelete = (\<lambda>object_id w. w),
       OS_BinSemDelete = (\<lambda>object_id w. w), OS_CountSemDelete = (\<lambda>object_id w. w),
       OS_MutSemDelete = (\<lambda>object_id w. w), OS_ModuleUnload = (\<lambda>object_id w. w),
       OS_TimeBaseDelete' = (\<lambda>object_id w. w), OS_TimerDelete = (\<lambda>object_id w. w),
       OS_close = (\<lambda>object_id w. w), OS_DirectoryClose = (\<lambda>object_id w. w) \<rparr>"

text \<open>
  A file system on device \<open>ram0\<close> in slot 1 (handle \<open>0xB0001\<close>), made ready by
  \<open>mkfs\<close> with the system mount point \<open>/ram0\<close>; then the same after
  \<open>mount("ram0", "/cf")\<close>.  The example adapter counts its calls in the platform state.
\<close>

definition example_filesys_world :: "nat osal" where
  "example_filesys_world =
     (empty_world 0)
       \<lparr> OS_global_filesys_table := [free_common, example_common ''ram0'' 0xB0001],
         OS_filesys_table := [zero_filesys_record,
                              \<lparr> device_name = ''ram0'', volume_name = ''RAM0'',
                                system_mountpt = ''/ram0'', virtual_mountpt = [],
                                filesys_flags = 0x1 \<rparr>] \<rparr>"

definition example_mounted_world :: "nat osal" where
  "example_mounted_world =
     (empty_world 1)
       \<lparr> OS_global_filesys_table := [free_common, example_common ''ram0'' 0xB0001],
         OS_filesys_table := [zero_filesys_record,
                              \<lparr> device_name = ''ram0'', volume_name = ''RAM0'',
                                system_mountpt = ''/ram0'', virtual_mountpt = ''/cf'',
                                filesys_flags = 0x31 \<rparr>] \<rparr>"

definition example_Volume_Impl :: "nat \<Rightarrow> nat osal \<Rightarrow> os_status \<times> nat" where
  "example_Volume_Impl local_id w = (OS_SUCCESS, Suc (platform w))"

text \<open>The time base \<open>tb\<close> of the example above with a given free-running count.\<close>

definition example_timebase_at :: "uint32 \<Rightarrow> nat osal" where
  "example_timebase_at r =
     example_timebase_world
       \<lparr> OS_timebase_table := [zero_timebase_record,
                               zero_timebase_record
                                 \<lparr> timebase_name := ''tb'', accuracy_usec := 1000,
                                   freerun_time := r, nominal_interval_time := 1000 \<rparr>] \<rparr>"

text \<open>
  The time base \<open>tb\<close> with one timer callback in slot 1 (handle \<open>0x90001\<close>),
  whose ring is that one record; the callback is the function at address 7 with
  argument 42.  The parameters are the free-running count, the backlog resets, the wait
  time and the interval time.
\<close>

definition example_timecb :: "uint32 \<Rightarrow> int32 \<Rightarrow> int32 \<Rightarrow> OS_timecb_internal_record_t" where
  "example_timecb backlog wait interval =
     \<lparr> next_ref = 1, backlog_resets = backlog, wait_time = wait, interval_time = interval,
       callback_ptr = Some 7, callback_arg = 42 \<rparr>"

definition example_timer_world :: "uint32 \<Rightarrow> uint32 \<Rightarrow> int32 \<Rightarrow> int32 \<Rightarrow> nat osal" where
  "example_timer_world freerun backlog wait interval =
     (empty_world 0)
       \<lparr> OS_global_timebase_table := [free_common, example_common ''tb'' 0x80001],
         OS_timebase_table := [zero_timebase_record,
                               zero_timebase_record
                                 \<lparr> timebase_name := ''tb'', accuracy_usec := 1000,
                                   first_cb := 0x90001, freerun_time := freerun,
                                   nominal_interval_time := 1000 \<rparr>],
         OS_global_timecb_table := [free_common, example_common ''cb'' 0x90001],
         OS_timecb_table := [zero_timecb_record, example_timecb backlog wait interval] \<rparr>"

section \<open>Word arithmetic helpers\<close>


lemma sint_add_no_ovf:
  "- (2 ^ 31) \<le> sint (a :: 32 word) + sint b \<Longrightarrow> sint a + sint b < 2 ^ 31 \<Longrightarrow>
   sint (a + b) = sint a + sint b"
  by (simp add: sint_word_ariths signed_take_bit_int_eq_self)


lemma sint_neg_no_ovf:
  "sint (a :: 32 word) \<noteq> - (2 ^ 31) \<Longrightarrow> sint (- a) = - sint a"
  using sint_ge[of a] sint_lt[of a]
  by (simp add: sint_word_ariths signed_take_bit_int_eq_self)

lemma uint_ucast_32_64: "uint (ucast (w :: 32 word) :: 64 word) = uint w"
proof -
  have "uint w < 2 ^ 32" using uint_lt2p[of w] by simp
  then have "uint w < 2 ^ 64" by simp
  then show ?thesis
    by (simp add: unsigned_ucast_eq take_bit_int_eq_self)
qed

lemma uint_scast_32_64:
  assumes "0 \<le> sint (w :: 32 word)"
  shows "uint (scast w :: 64 word) = sint w"
proof -
  have "sint w < 2 ^ 31" using sint_lt[of w] by simp
  then have lt: "sint w < 2 ^ 64" by simp
  have "(scast w :: 64 word) = word_of_int (sint w)" by (rule scast_eq)
  then have "uint (scast w :: 64 word) = sint w mod 2 ^ 64"
    by (simp only: uint_word_of_int) simp
  with assms lt show ?thesis by simp
qed

lemma sint_word_of_int_small:
  "0 \<le> n \<Longrightarrow> n \<le> INT_MAX \<Longrightarrow> sint (word_of_int n :: 32 word) = n"
  by (simp add: INT_MAX_def sint_sbintrunc' signed_take_bit_int_eq_self)

lemma ceil_div_1000:
  "(a::int) \<le> 1000 * ((a + 999) div 1000) \<and> 1000 * ((a + 999) div 1000) < a + 1000"
proof -
  have "0 \<le> (a + 999) mod 1000" and "(a + 999) mod 1000 < 1000" by simp_all
  moreover have "1000 * ((a + 999) div 1000) + (a + 999) mod 1000 = a + 999"
    by (rule mult_div_mod_eq)
  ultimately show ?thesis by linarith
qed

section \<open>Facts about the identifier lookups\<close>

lemma OS_ObjectIdGetById_table_NONE [simp]:
  "snd (snd (OS_ObjectIdGetById OS_LOCK_MODE_NONE idtype object_id tbl)) = tbl"
  by (simp add: OS_ObjectIdGetById_def OS_ObjectIdConvertLock_def Let_def split: prod.splits)

lemma OS_ObjectIdGetById_table_GLOBAL [simp]:
  "snd (snd (OS_ObjectIdGetById OS_LOCK_MODE_GLOBAL idtype object_id tbl)) = tbl"
  by (simp add: OS_ObjectIdGetById_def OS_ObjectIdConvertLock_def Let_def split: prod.splits)

lemma OS_ObjectIdGetById_status_GLOBAL:
  "fst (OS_ObjectIdGetById OS_LOCK_MODE_GLOBAL idtype object_id tbl) = OS_SUCCESS \<or>
   fst (OS_ObjectIdGetById OS_LOCK_MODE_GLOBAL idtype object_id tbl) = OS_ERR_INVALID_ID"
  by (simp add: OS_ObjectIdGetById_def OS_ObjectIdConvertLock_def Let_def split: prod.splits)

lemma OS_ObjectIdGetById_GLOBAL_cases:
  obtains (ok) local_id where
      "OS_ObjectIdGetById OS_LOCK_MODE_GLOBAL idtype object_id tbl = (OS_SUCCESS, local_id, tbl)"
    | (invalid) local_id where
      "OS_ObjectIdGetById OS_LOCK_MODE_GLOBAL idtype object_id tbl = (OS_ERR_INVALID_ID, local_id, tbl)"
proof -
  obtain rc local_id tbl' where
    g: "OS_ObjectIdGetById OS_LOCK_MODE_GLOBAL idtype object_id tbl = (rc, local_id, tbl')"
    by (cases "OS_ObjectIdGetById OS_LOCK_MODE_GLOBAL idtype object_id tbl") auto
  have "tbl' = tbl"
    using OS_ObjectIdGetById_table_GLOBAL[of idtype object_id tbl] g by simp
  moreover have "rc = OS_SUCCESS \<or> rc = OS_ERR_INVALID_ID"
    using OS_ObjectIdGetById_status_GLOBAL[of idtype object_id tbl] g by simp
  ultimately show ?thesis using g ok invalid by blast
qed

text \<open>Unfolding rules for evaluating lookups on the example states.\<close>

lemmas example_eval =
  OS_ObjectIdGetById_def OS_ObjectIdToArrayIndex_def OS_ObjectIdToType_Impl_def
  OS_ObjectIdToSerialNumber_Impl_def OS_OBJECT_TYPE_SHIFT_def OS_OBJECT_INDEX_MASK_def
  OS_ObjectIdConvertLock_def example_common_def free_common_def empty_world_def

lemma example_contexts:
  "OS_ObjectIdToType_Impl 0x10001 \<noteq> OS_OBJECT_TYPE_OS_TIMEBASE"
  "OS_ObjectIdToType_Impl 0x80001 = OS_OBJECT_TYPE_OS_TIMEBASE"
  by (simp_all add: OS_ObjectIdToType_Impl_def OS_OBJECT_TYPE_SHIFT_def
      OS_OBJECT_TYPE_OS_TIMEBASE_def)

lemma OS_ObjectIdSearch_Some:
  "OS_ObjectIdSearch idtype MatchFunc tbl = Some i \<Longrightarrow>
   i < length tbl \<and> slot_active idtype (tbl ! i) \<and> MatchFunc i (tbl ! i)"
  unfolding OS_ObjectIdSearch_def
  by (auto simp add: find_Some_iff)

lemma OS_ObjectIdConvertLock_EXCLUSIVE_ok:
  "fst (OS_ObjectIdConvertLock OS_LOCK_MODE_EXCLUSIVE i tbl) = OS_SUCCESS \<Longrightarrow>
   snd (OS_ObjectIdConvertLock OS_LOCK_MODE_EXCLUSIVE i tbl) = tbl"
  by (simp add: OS_ObjectIdConvertLock_def split: if_splits)

lemma OS_ObjectIdGetBySearch_EXCLUSIVE_ok:
  assumes "fst (OS_ObjectIdGetBySearch OS_LOCK_MODE_EXCLUSIVE idtype MatchFunc tbl) = OS_SUCCESS"
  shows "snd (snd (OS_ObjectIdGetBySearch OS_LOCK_MODE_EXCLUSIVE idtype MatchFunc tbl)) = tbl \<and>
         fst (snd (OS_ObjectIdGetBySearch OS_LOCK_MODE_EXCLUSIVE idtype MatchFunc tbl)) < length tbl \<and>
         slot_active idtype
           (tbl ! fst (snd (OS_ObjectIdGetBySearch OS_LOCK_MODE_EXCLUSIVE idtype MatchFunc tbl))) \<and>
         MatchFunc (fst (snd (OS_ObjectIdGetBySearch OS_LOCK_MODE_EXCLUSIVE idtype MatchFunc tbl)))
           (tbl ! fst (snd (OS_ObjectIdGetBySearch OS_LOCK_MODE_EXCLUSIVE idtype MatchFunc tbl)))"
proof (cases "OS_ObjectIdSearch idtype MatchFunc tbl")
  case None
  then show ?thesis using assms by (simp add: OS_ObjectIdGetBySearch_def)
next
  case (Some i)
  have ok: "fst (OS_ObjectIdConvertLock OS_LOCK_MODE_EXCLUSIVE i tbl) = OS_SUCCESS"
    using assms Some by (simp add: OS_ObjectIdGetBySearch_def split_beta)
  show ?thesis
    using OS_ObjectIdSearch_Some[OF Some] OS_ObjectIdConvertLock_EXCLUSIVE_ok[OF ok] Some
    by (simp add: OS_ObjectIdGetBySearch_def split_beta)
qed

lemma OS_ObjectIdToArrayIndex_active:
  "slot_active idtype obj \<Longrightarrow> 0 < n \<Longrightarrow>
   fst (OS_ObjectIdToArrayIndex idtype (active_id obj) n) = OS_SUCCESS \<and>
   snd (OS_ObjectIdToArrayIndex idtype (active_id obj) n) < n"
  by (simp add: OS_ObjectIdToArrayIndex_def slot_active_def)


lemma OS_ObjectIdSearch_None_GetBySearch:
  "OS_ObjectIdSearch idtype MatchFunc tbl = None \<Longrightarrow>
   OS_ObjectIdGetBySearch lock_mode idtype MatchFunc tbl = (OS_ERR_NAME_NOT_FOUND, 0, tbl)"
  by (simp add: OS_ObjectIdGetBySearch_def)

lemma mod_two_slots: "n mod Suc (Suc 0) = n mod 2"
  by (simp add: numeral_2_eq_2)

lemmas filesys_eval =
  OS_ObjectIdGetByName_def OS_ObjectIdGetBySearch_def OS_ObjectIdSearch_def
  OS_ObjectNameMatch_def OS_FileSys_FindVirtMountPoint_def slot_active_def example_eval
  OS_OBJECT_TYPE_OS_FILESYS_def mod_two_slots
  OS_FILESYS_FLAG_IS_READY_def OS_FILESYS_FLAG_IS_FIXED_def
  OS_FILESYS_FLAG_IS_MOUNTED_SYSTEM_def OS_FILESYS_FLAG_IS_MOUNTED_VIRTUAL_def
  example_Volume_Impl_def example_config_def zero_filesys_record_def

lemma OS_ObjectIdGetById_ok:
  assumes "OS_ObjectIdGetById lock_mode idtype object_id tbl = (OS_SUCCESS, local_id, tbl')"
  shows "local_id < length tbl \<and> active_id (tbl ! local_id) = object_id \<and>
         local_id = snd (OS_ObjectIdToArrayIndex idtype object_id (length tbl)) \<and>
         fst (OS_ObjectIdToArrayIndex idtype object_id (length tbl)) = OS_SUCCESS"
proof -
  from assms have a: "fst (OS_ObjectIdToArrayIndex idtype object_id (length tbl)) = OS_SUCCESS"
    "local_id = snd (OS_ObjectIdToArrayIndex idtype object_id (length tbl))"
    "active_id (tbl ! local_id) = object_id"
    by (auto simp add: OS_ObjectIdGetById_def Let_def split_beta split: if_splits)
  from a(1) have n: "0 < length tbl"
    by (auto simp add: OS_ObjectIdToArrayIndex_def split: if_splits)
  from a(1,2) have "local_id = unat (OS_ObjectIdToSerialNumber_Impl object_id) mod length tbl"
    by (auto simp add: OS_ObjectIdToArrayIndex_def split: if_splits)
  then have "local_id < length tbl" using n by simp
  then show ?thesis using a by simp
qed

lemma OS_ObjectIdGetById_NONE_iff:
  "OS_ObjectIdGetById OS_LOCK_MODE_NONE idtype object_id tbl =
     (if fst (OS_ObjectIdToArrayIndex idtype object_id (length tbl)) = OS_SUCCESS \<and>
         active_id (tbl ! snd (OS_ObjectIdToArrayIndex idtype object_id (length tbl))) = object_id
      then (OS_SUCCESS, snd (OS_ObjectIdToArrayIndex idtype object_id (length tbl)), tbl)
      else (OS_ERR_INVALID_ID, snd (OS_ObjectIdToArrayIndex idtype object_id (length tbl)), tbl))"
  by (simp add: OS_ObjectIdGetById_def OS_ObjectIdConvertLock_def Let_def split_beta)

lemma OS_ObjectIdGetById_GLOBAL_iff:
  "OS_ObjectIdGetById OS_LOCK_MODE_GLOBAL idtype object_id tbl =
     OS_ObjectIdGetById OS_LOCK_MODE_NONE idtype object_id tbl"
  by (simp add: OS_ObjectIdGetById_def OS_ObjectIdConvertLock_def Let_def split_beta)

section \<open>Timer callbacks\<close>

lemma callback_fires_update [simp]:
  "callback_fires p s (cb\<lparr>wait_time := x\<rparr>) = callback_fires p s cb"
  "callback_fires p s (cb\<lparr>backlog_resets := y\<rparr>) = callback_fires p s cb"
  by (simp_all add: callback_fires_def split: option.splits)

lemma timecb_while_positive:
  "0 < sint (wait_time cb) \<Longrightarrow> timecb_while p s (cb, calls) = (cb, calls)"
  by (subst timecb_while.simps) simp

lemma timecb_while_step:
  assumes "sint (wait_time cb) \<le> 0"
  shows "timecb_while p s (cb, calls) =
     (let cb1 = cb\<lparr>wait_time := wait_time cb + interval_time cb\<rparr>;
          cb2 = (if sint (wait_time cb1) < sint (- interval_time cb)
                 then cb1\<lparr>backlog_resets := backlog_resets cb + 1, wait_time := - interval_time cb\<rparr>
                 else cb1)
      in if sint (interval_time cb) \<le> 0 then (cb2, calls @ callback_fires p s cb)
         else timecb_while p s (cb2, calls @ callback_fires p s cb))"
  using assms
  by (subst timecb_while.simps)
     (auto simp add: Let_def callback_fires_def split: option.splits)

lemma sint_interval_bounds:
  fixes i :: int32
  assumes "0 < sint i"
  shows "sint (- i) = - sint i" "sint i < 2 ^ 31"
proof -
  show "sint i < 2 ^ 31" using sint_lt[of i] by simp
  have "sint i \<noteq> - (2 ^ 31)" using assms by simp
  then show "sint (- i) = - sint i" by (rule sint_neg_no_ovf)
qed

lemma sint_add_interval:
  fixes w i :: int32
  assumes "sint w \<le> 0" "0 < sint i"
  shows "sint (w + i) = sint w + sint i"
proof -
  have "- (2 ^ 31) \<le> sint w" using sint_ge[of w] by simp
  moreover have "sint i < 2 ^ 31" using sint_lt[of i] by simp
  ultimately show ?thesis using assms by (intro sint_add_no_ovf) simp_all
qed

lemma timecb_while_once:
  assumes i: "0 < sint (interval_time cb)"
      and w: "sint (wait_time cb) \<le> 0" "- sint (interval_time cb) < sint (wait_time cb)"
  shows "timecb_while p s (cb, calls) =
           (cb\<lparr>wait_time := wait_time cb + interval_time cb\<rparr>, calls @ callback_fires p s cb)"
proof -
  have a: "sint (wait_time cb + interval_time cb) = sint (wait_time cb) + sint (interval_time cb)"
    using w(1) i by (rule sint_add_interval)
  have n: "sint (- interval_time cb) = - sint (interval_time cb)"
    using i by (rule sint_interval_bounds)
  have pos: "0 < sint (wait_time (cb\<lparr>wait_time := wait_time cb + interval_time cb\<rparr>))"
    using a w(2) by simp
  show ?thesis
    using i w a n timecb_while_positive[OF pos]
    by (simp add: timecb_while_step[OF w(1)] Let_def)
qed

lemma timecb_while_twice:
  assumes i: "0 < sint (interval_time cb)"
      and w: "sint (wait_time cb) \<le> - sint (interval_time cb)"
             "- 2 * sint (interval_time cb) < sint (wait_time cb)"
  shows "timecb_while p s (cb, calls) =
           (cb\<lparr>wait_time := wait_time cb + interval_time cb + interval_time cb\<rparr>,
            calls @ callback_fires p s cb @ callback_fires p s cb)"
proof -
  have w0: "sint (wait_time cb) \<le> 0" using w(1) i by simp
  have a: "sint (wait_time cb + interval_time cb) = sint (wait_time cb) + sint (interval_time cb)"
    using w0 i by (rule sint_add_interval)
  have n: "sint (- interval_time cb) = - sint (interval_time cb)"
    using i by (rule sint_interval_bounds)
  let ?cb1 = "cb\<lparr>wait_time := wait_time cb + interval_time cb\<rparr>"
  have one: "timecb_while p s (cb, calls) = timecb_while p s (?cb1, calls @ callback_fires p s cb)"
    using i w a n by (simp add: timecb_while_step[OF w0] Let_def)
  have "timecb_while p s (?cb1, calls @ callback_fires p s cb) =
          (?cb1\<lparr>wait_time := wait_time ?cb1 + interval_time ?cb1\<rparr>,
           (calls @ callback_fires p s cb) @ callback_fires p s ?cb1)"
    using i w a by (intro timecb_while_once) simp_all
  then show ?thesis using one by simp
qed

lemma timecb_while_thrice:
  assumes i: "0 < sint (interval_time cb)"
      and w: "sint (wait_time cb) \<le> - 2 * sint (interval_time cb)"
  shows "timecb_while p s (cb, calls) =
           (cb\<lparr>backlog_resets := (if sint (wait_time cb) < - 2 * sint (interval_time cb)
                                  then backlog_resets cb + 1 else backlog_resets cb),
               wait_time := interval_time cb\<rparr>,
            calls @ callback_fires p s cb @ callback_fires p s cb @ callback_fires p s cb)"
proof -
  have w0: "sint (wait_time cb) \<le> 0" using w i by simp
  have a: "sint (wait_time cb + interval_time cb) = sint (wait_time cb) + sint (interval_time cb)"
    using w0 i by (rule sint_add_interval)
  have n: "sint (- interval_time cb) = - sint (interval_time cb)"
    using i by (rule sint_interval_bounds)
  define cb2 where "cb2 =
     cb\<lparr>backlog_resets := (if sint (wait_time cb) < - 2 * sint (interval_time cb)
                           then backlog_resets cb + 1 else backlog_resets cb),
        wait_time := - interval_time cb\<rparr>"
  have eqw: "sint (wait_time cb) = - 2 * sint (interval_time cb) \<Longrightarrow>
             wait_time cb + interval_time cb = - interval_time cb"
  proof -
    assume e: "sint (wait_time cb) = - 2 * sint (interval_time cb)"
    have "sint (wait_time cb + interval_time cb) = sint (- interval_time cb)"
      using a n e by simp
    then show ?thesis by (simp only: signed_word_eqI)
  qed
  have one: "timecb_while p s (cb, calls) = timecb_while p s (cb2, calls @ callback_fires p s cb)"
  proof (cases "sint (wait_time cb) < - 2 * sint (interval_time cb)")
    case True
    then show ?thesis
      using i a n by (simp add: timecb_while_step[OF w0] Let_def cb2_def)
  next
    case False
    then have e: "sint (wait_time cb) = - 2 * sint (interval_time cb)" using w by simp
    have "cb\<lparr>wait_time := wait_time cb + interval_time cb\<rparr> = cb2"
      using e eqw[OF e] by (simp add: cb2_def)
    moreover have "sint (wait_time cb2) = - sint (interval_time cb)"
      using n by (simp add: cb2_def)
    ultimately show ?thesis
      using i a n e by (simp add: timecb_while_step[OF w0] Let_def)
  qed
  have "timecb_while p s (cb2, calls @ callback_fires p s cb) =
          (cb2\<lparr>wait_time := wait_time cb2 + interval_time cb2 + interval_time cb2\<rparr>,
           (calls @ callback_fires p s cb) @ callback_fires p s cb2 @ callback_fires p s cb2)"
    using i n by (intro timecb_while_twice) (simp_all add: cb2_def)
  then show ?thesis using one by (simp add: cb2_def)
qed



lemma timecb_while_oneshot:
  assumes "interval_time cb = 0" "sint (wait_time cb) \<le> 0"
  shows "timecb_while p s (cb, calls) =
           ((if sint (wait_time cb) < 0
             then cb\<lparr>backlog_resets := backlog_resets cb + 1, wait_time := 0\<rparr>
             else cb), calls @ callback_fires p s cb)"
  using assms by (simp add: timecb_while_step Let_def)












lemma timecb_ticks_Nil [simp]: "timecb_ticks [] p st = st"
  by (simp add: timecb_ticks_def)













lemma example_sint:
  "sint (1000 - 5000 :: int32) = - 4000" "sint (1000 :: int32) = 1000"
  "sint (0 - 0xFFFFFFFF :: int32) = 1"
  by simp_all


lemma example_timecb_sel [simp]:
  "next_ref (example_timecb b wt it) = 1" "wait_time (example_timecb b wt it) = wt"
  "interval_time (example_timecb b wt it) = it" "backlog_resets (example_timecb b wt it) = b"
  "callback_ptr (example_timecb b wt it) = Some 7" "callback_arg (example_timecb b wt it) = 42"
  "(example_timecb b wt it)\<lparr>wait_time := x\<rparr> = example_timecb b x it"
  "(example_timecb b wt it)\<lparr>backlog_resets := y\<rparr> = example_timecb y wt it"
  by (simp_all add: example_timecb_def)

lemma example_timer_tick:
  assumes "timecb_tick t 0x90001 (example_timecb b wt it, calls) = (example_timecb b' wt' it, calls')"
  shows "OS_TimeBase_tick 0x80001 (Suc 0) t (example_timer_world r b wt it, calls) =
           Some (True, example_timer_world (r + t) b' wt' it, calls')"
proof -
  define w1 where "w1 = tick_freerun (Suc 0) t (example_timer_world r b wt it)"
  have idx: "OS_ObjectIdToArrayIndex OS_OBJECT_TYPE_OS_TIMECB
               (first_cb (OS_timebase_table w1 ! Suc 0)) (length (OS_global_timecb_table w1)) =
             (OS_SUCCESS, Suc 0)"
    by (simp add: w1_def tick_freerun_def example_timer_world_def example_eval
        OS_OBJECT_TYPE_OS_TIMECB_def mod_two_slots)
  have tbl: "OS_timecb_table w1 = [zero_timecb_record, example_timecb b wt it]"
    "OS_global_timecb_table w1 = [free_common, example_common ''cb'' 0x90001]"
    by (simp_all add: w1_def tick_freerun_def example_timer_world_def empty_world_def)
  have fin: "w1\<lparr>OS_timecb_table := [zero_timecb_record, example_timecb b' wt' it]\<rparr> =
             example_timer_world (r + t) b' wt' it"
    by (simp add: w1_def tick_freerun_def example_timer_world_def empty_world_def)
  have walk: "timecb_ring_walk t 1 1 (w1, calls) = Some (example_timer_world (r + t) b' wt' it, calls')"
    by (subst timecb_ring_walk.simps)
       (simp add: tbl assms Let_def example_common_def fin)
  have eq: "OS_ObjectIdEqual 0x80001
              (active_id (OS_global_timebase_table (example_timer_world r b wt it) ! Suc 0))"
    by (simp add: OS_ObjectIdEqual_def example_timer_world_def example_common_def)
  show ?thesis
    using eq idx walk
    by (simp add: OS_TimeBase_tick_def w1_def[symmetric] Let_def)
qed


lemma example_fires:
  "0 < sint s \<Longrightarrow> callback_fires p s (example_timecb b wt it) = [(7, p, 42)]"
  "sint s \<le> 0 \<Longrightarrow> callback_fires p s (example_timecb b wt it) = []"
  by (simp_all add: callback_fires_def)

lemma example_timecb_ticks:
  "timecb_tick 5000 0x90001 (example_timecb 0 1000 1000, []) =
     (example_timecb 1 1000 1000, [(7, 0x90001, 42), (7, 0x90001, 42), (7, 0x90001, 42)])"
  "timecb_tick 10 0x90001 (example_timecb 0 5 0, []) = (example_timecb 1 0 0, [(7, 0x90001, 42)])"
  "timecb_tick 0xFFFFFFFF 0x90001 (example_timecb 1 0 0, [(7, 0x90001, 42)]) =
     (example_timecb 1 1 0, [(7, 0x90001, 42)])"
  "timecb_tick 1 0x90001 (example_timecb 1 1 0, [(7, 0x90001, 42)]) =
     (example_timecb 1 0 0, [(7, 0x90001, 42), (7, 0x90001, 42)])"
proof -
  show "timecb_tick 5000 0x90001 (example_timecb 0 1000 1000, []) =
     (example_timecb 1 1000 1000, [(7, 0x90001, 42), (7, 0x90001, 42), (7, 0x90001, 42)])"
    by (simp add: timecb_tick_def Let_def timecb_while_thrice example_fires)
  show "timecb_tick 10 0x90001 (example_timecb 0 5 0, []) = (example_timecb 1 0 0, [(7, 0x90001, 42)])"
    by (simp add: timecb_tick_def Let_def timecb_while_oneshot example_fires)
  show "timecb_tick 0xFFFFFFFF 0x90001 (example_timecb 1 0 0, [(7, 0x90001, 42)]) =
     (example_timecb 1 1 0, [(7, 0x90001, 42)])"
    by (simp add: timecb_tick_def Let_def timecb_while_positive)
  show "timecb_tick 1 0x90001 (example_timecb 1 1 0, [(7, 0x90001, 42)]) =
     (example_timecb 1 0 0, [(7, 0x90001, 42), (7, 0x90001, 42)])"
    by (simp add: timecb_tick_def Let_def timecb_while_oneshot example_fires)
qed

lemma example_timer_lookup:
  "OS_ObjectIdGetById OS_LOCK_MODE_GLOBAL OS_OBJECT_TYPE_OS_TIMEBASE 0x80001
     (OS_global_timebase_table (example_timer_world r b wt it)) =
   (OS_SUCCESS, Suc 0, OS_global_timebase_table (example_timer_world r b wt it))"
  by (simp add: example_timer_world_def example_eval OS_OBJECT_TYPE_OS_TIMEBASE_def mod_two_slots)

lemma example_timer_thread:
  "OS_TimeBase_CallbackThread (\<lambda>ms p. p) ticks 0x80001 (example_timer_world r b wt it) =
     CallbackThread_loop (\<lambda>ms p. p) 0x80001 (Suc 0) ticks 0 (example_timer_world r b wt it, [])"
  by (simp add: OS_TimeBase_CallbackThread_def example_timer_lookup)

lemma example_wrapped_freerun: "(4294967306 :: uint32) = 10"
  by simp

lemma example_timer_runs:
  "OS_TimeBase_CallbackThread (\<lambda>ms p. p) [5000] 0x80001 (example_timer_world 0 0 1000 1000) =
     Some (example_timer_world 5000 1 1000 1000,
           [(7, 0x90001, 42), (7, 0x90001, 42), (7, 0x90001, 42)])"
  "OS_TimeBase_CallbackThread (\<lambda>ms p. p) [10, 0xFFFFFFFF, 1] 0x80001 (example_timer_world 0 0 5 0) =
     Some (example_timer_world 10 1 0 0, [(7, 0x90001, 42), (7, 0x90001, 42)])"
  by (simp_all add: example_timer_thread example_timer_tick[OF example_timecb_ticks(1)]
      example_timer_tick[OF example_timecb_ticks(2)] example_timer_tick[OF example_timecb_ticks(3)]
      example_timer_tick[OF example_timecb_ticks(4)] example_wrapped_freerun)







section \<open>Validation of virtual paths\<close>

lemma strrchr_None: "strrchr s c = None \<longleftrightarrow> c \<notin> set s"
  by (induction s) (auto split: option.splits)

lemma strrchr_Some:
  "strrchr s c = Some i \<Longrightarrow> i < length s \<and> s ! i = c \<and> c \<notin> set (drop (Suc i) s)"
proof (induction s arbitrary: i)
  case Nil
  then show ?case by simp
next
  case (Cons x xs)
  show ?case
  proof (cases "strrchr xs c")
    case None
    then have "c \<notin> set xs" by (simp add: strrchr_None)
    then show ?thesis using Cons.prems by (simp add: None split: if_splits)
  next
    case (Some j)
    then show ?thesis using Cons.prems Cons.IH[OF Some] by auto
  qed
qed

lemma OS_ObjectIdGetBySearch_GLOBAL:
  "OS_ObjectIdGetBySearch OS_LOCK_MODE_GLOBAL idtype MatchFunc tbl =
     (case OS_ObjectIdSearch idtype MatchFunc tbl of
        None \<Rightarrow> (OS_ERR_NAME_NOT_FOUND, 0, tbl)
      | Some i \<Rightarrow> (OS_SUCCESS, i, tbl))"
  by (simp add: OS_ObjectIdGetBySearch_def OS_ObjectIdConvertLock_def split: option.splits)

lemma OS_TranslatePath_unfold:
  "OS_TranslatePath cfg (Some vp) (Some lp) w =
     (if OS_MAX_PATH_LEN cfg \<le> length vp then (OS_FS_ERR_PATH_TOO_LONG, Some lp, w)
      else (case strrchr vp CHR ''/'' of
             None \<Rightarrow> (OS_FS_ERR_PATH_INVALID, Some lp, w)
           | Some slash \<Rightarrow>
               if OS_MAX_FILE_NAME cfg \<le> length vp - Suc slash
               then (OS_FS_ERR_NAME_TOO_LONG, Some lp, w)
               else if hd vp \<noteq> CHR ''/'' then (OS_FS_ERR_PATH_INVALID, Some lp, w)
               else (case OS_ObjectIdSearch OS_OBJECT_TYPE_OS_FILESYS
                           (OS_FileSys_FindVirtMountPoint (OS_filesys_table w) vp)
                           (OS_global_filesys_table w) of
                      None \<Rightarrow> (OS_FS_ERR_PATH_INVALID, Some lp, w)
                    | Some global \<Rightarrow>
                        (let local = OS_filesys_table w !
                               snd (OS_ObjectIdToArrayIndex OS_OBJECT_TYPE_OS_FILESYS
                                      (active_id (OS_global_filesys_table w ! global))
                                      (length (OS_global_filesys_table w)));
                             sl = length (system_mountpt local);
                             vb = length (virtual_mountpt local);
                             lp1 = (if sl < OS_MAX_LOCAL_PATH_LEN cfg
                                    then memcpy_at lp 0 (system_mountpt local) else lp)
                         in if filesys_flags local AND OS_FILESYS_FLAG_IS_MOUNTED_SYSTEM = 0
                            then (OS_ERR_INCORRECT_OBJ_STATE, Some lp, w)
                            else if length vp < vb then (OS_FS_ERR_PATH_INVALID, Some lp1, w)
                            else if sl + (length vp - vb) < OS_MAX_LOCAL_PATH_LEN cfg
                            then (OS_SUCCESS,
                                  Some (memcpy_at
                                          (memcpy_at lp1 sl (take (length vp - vb) (drop vb vp)))
                                          (sl + (length vp - vb)) [CHR 0x00]), w)
                            else (OS_FS_ERR_PATH_TOO_LONG, Some lp1, w)))))"
proof (cases "strrchr vp CHR ''/''")
  case None
  then show ?thesis by (simp add: OS_TranslatePath_def Let_def)
next
  case (Some slash)
  then have "vp \<noteq> []" by auto
  then have hd: "(case vp of [] \<Rightarrow> True | c # _ \<Rightarrow> c \<noteq> CHR ''/'') = (hd vp \<noteq> CHR ''/'')"
    by (cases vp) auto
  show ?thesis
    by (simp add: OS_TranslatePath_def Let_def OS_ObjectIdGetBySearch_GLOBAL hd Some
             split: option.splits)
qed

lemma example_config_limits:
  "OS_MAX_PATH_LEN example_config = 64" "OS_MAX_FILE_NAME example_config = 20"
  "OS_MAX_LOCAL_PATH_LEN example_config = 128"
  by (simp_all add: example_config_def)

lemma example_strrchr:
  "strrchr ''/cf/'' CHR ''/'' = Some 3"
  "strrchr ''/cf/a'' CHR ''/'' = Some 3"
  "strrchr ''cf/a'' CHR ''/'' = Some 2"
  "strrchr ''/xx/a'' CHR ''/'' = Some 3"
  "strrchr ''a/bbbbbbbbbbbbbbbbbbbb'' CHR ''/'' = Some 1"
  "strrchr ''/cf/bbbbbbbbbbbbbbbbbbbb'' CHR ''/'' = Some 3"
  by simp_all

lemma example_mounted_search:
  "OS_ObjectIdSearch OS_OBJECT_TYPE_OS_FILESYS
     (OS_FileSys_FindVirtMountPoint (OS_filesys_table example_mounted_world) ''/cf/'')
     (OS_global_filesys_table example_mounted_world) = Some 1"
  "OS_ObjectIdSearch OS_OBJECT_TYPE_OS_FILESYS
     (OS_FileSys_FindVirtMountPoint (OS_filesys_table example_mounted_world) ''/cf/a'')
     (OS_global_filesys_table example_mounted_world) = Some 1"
  "OS_ObjectIdSearch OS_OBJECT_TYPE_OS_FILESYS
     (OS_FileSys_FindVirtMountPoint (OS_filesys_table example_mounted_world) ''/xx/a'')
     (OS_global_filesys_table example_mounted_world) = None"
  by (simp_all add: example_mounted_world_def filesys_eval upt_rec)

lemma example_mounted_local:
  "OS_filesys_table example_mounted_world !
     snd (OS_ObjectIdToArrayIndex OS_OBJECT_TYPE_OS_FILESYS
            (active_id (OS_global_filesys_table example_mounted_world ! Suc 0))
            (length (OS_global_filesys_table example_mounted_world))) =
   \<lparr> device_name = ''ram0'', volume_name = ''RAM0'', system_mountpt = ''/ram0'',
     virtual_mountpt = ''/cf'', filesys_flags = 0x31 \<rparr>"
  by (simp add: example_mounted_world_def filesys_eval)

lemma example_translate:
  "OS_TranslatePath example_config (Some ''/cf/'') (Some (replicate 128 CHR ''x''))
     example_mounted_world =
     (OS_SUCCESS, Some (''/ram0/'' @ CHR 0x00 # replicate 121 CHR ''x''), example_mounted_world)"
  "OS_TranslatePath example_config (Some ''/cf/a'') (Some (replicate 128 CHR ''x''))
     example_mounted_world =
     (OS_SUCCESS, Some (''/ram0/a'' @ CHR 0x00 # replicate 120 CHR ''x''), example_mounted_world)"
  by (simp_all add: OS_TranslatePath_unfold example_strrchr example_mounted_search
        example_mounted_local Let_def example_config_def memcpy_at_def
        OS_FILESYS_FLAG_IS_MOUNTED_SYSTEM_def)


text \<open>
  Claim C2, as amended.  For non-null arguments and a virtual path shorter than
  \<open>OS_MAX_PATH_LEN\<close>, \<open>OS_TranslatePath\<close> validates in this order.  A path
  without any \<open>/\<close> fails with \<open>OS_FS_ERR_PATH_INVALID\<close>.  Otherwise, when the
  part after the last \<open>/\<close> has \<open>OS_MAX_FILE_NAME\<close> characters or more, the call
  fails with \<open>OS_FS_ERR_NAME_TOO_LONG\<close>, whatever the first character is.  Otherwise
  a path that does not start with \<open>/\<close> fails with \<open>OS_FS_ERR_PATH_INVALID\<close>, and
  so does a path whose beginning matches no virtually mounted file system.  In each of
  these failures the output buffer and the state are untouched; the state is untouched by
  every call.  There is no check that the part after the last \<open>/\<close> is non-empty:
  a call succeeds only for a path that starts with \<open>/\<close>, has a last component
  shorter than \<open>OS_MAX_FILE_NAME\<close> (possibly empty) and lies under a mounted file
  system.
\<close>

theorem OS_TranslatePath_validation:
  assumes "length vp < OS_MAX_PATH_LEN cfg"
  shows "(CHR ''/'' \<notin> set vp \<longrightarrow>
            OS_TranslatePath cfg (Some vp) (Some lp) w = (OS_FS_ERR_PATH_INVALID, Some lp, w)) \<and>
         (\<forall>slash. strrchr vp CHR ''/'' = Some slash \<longrightarrow>
            (OS_MAX_FILE_NAME cfg \<le> length (drop (Suc slash) vp) \<longrightarrow>
               OS_TranslatePath cfg (Some vp) (Some lp) w = (OS_FS_ERR_NAME_TOO_LONG, Some lp, w)) \<and>
            (length (drop (Suc slash) vp) < OS_MAX_FILE_NAME cfg \<and> hd vp \<noteq> CHR ''/'' \<longrightarrow>
               OS_TranslatePath cfg (Some vp) (Some lp) w = (OS_FS_ERR_PATH_INVALID, Some lp, w)) \<and>
            (length (drop (Suc slash) vp) < OS_MAX_FILE_NAME cfg \<and> hd vp = CHR ''/'' \<and>
             OS_ObjectIdSearch OS_OBJECT_TYPE_OS_FILESYS
               (OS_FileSys_FindVirtMountPoint (OS_filesys_table w) vp)
               (OS_global_filesys_table w) = None \<longrightarrow>
               OS_TranslatePath cfg (Some vp) (Some lp) w = (OS_FS_ERR_PATH_INVALID, Some lp, w))) \<and>
         (fst (OS_TranslatePath cfg (Some vp) (Some lp) w) = OS_SUCCESS \<longrightarrow>
            hd vp = CHR ''/'' \<and>
            (\<exists>slash. strrchr vp CHR ''/'' = Some slash \<and>
                     length (drop (Suc slash) vp) < OS_MAX_FILE_NAME cfg) \<and>
            OS_ObjectIdSearch OS_OBJECT_TYPE_OS_FILESYS
               (OS_FileSys_FindVirtMountPoint (OS_filesys_table w) vp)
               (OS_global_filesys_table w) \<noteq> None) \<and>
         snd (snd (OS_TranslatePath cfg (Some vp) (Some lp) w)) = w"
  using assms
  by (auto simp add: OS_TranslatePath_unfold strrchr_None[symmetric] Let_def
           split: option.splits)


theorem OS_TranslatePath_validation_witness:
  "OS_TranslatePath example_config (Some ''cf'') (Some (replicate 128 CHR ''x''))
     example_mounted_world =
     (OS_FS_ERR_PATH_INVALID, Some (replicate 128 CHR ''x''), example_mounted_world) \<and>
   OS_TranslatePath example_config (Some ''cf/a'') (Some (replicate 128 CHR ''x''))
     example_mounted_world =
     (OS_FS_ERR_PATH_INVALID, Some (replicate 128 CHR ''x''), example_mounted_world) \<and>
   OS_TranslatePath example_config (Some ''/cf/bbbbbbbbbbbbbbbbbbbb'')
     (Some (replicate 128 CHR ''x'')) example_mounted_world =
     (OS_FS_ERR_NAME_TOO_LONG, Some (replicate 128 CHR ''x''), example_mounted_world) \<and>
   OS_TranslatePath example_config (Some ''/xx/a'') (Some (replicate 128 CHR ''x''))
     example_mounted_world =
     (OS_FS_ERR_PATH_INVALID, Some (replicate 128 CHR ''x''), example_mounted_world) \<and>
   fst (OS_TranslatePath example_config (Some ''/cf/a'') (Some (replicate 128 CHR ''x''))
     example_mounted_world) = OS_SUCCESS \<and>
   hd ''/cf/a'' = CHR ''/'' \<and> strrchr ''/cf/a'' CHR ''/'' = Some 3 \<and>
   OS_ObjectIdSearch OS_OBJECT_TYPE_OS_FILESYS
     (OS_FileSys_FindVirtMountPoint (OS_filesys_table example_mounted_world) ''/cf/a'')
     (OS_global_filesys_table example_mounted_world) = Some 1"
  using OS_TranslatePath_validation[where vp = "''cf''" and cfg = example_config
          and lp = "replicate 128 CHR ''x''" and w = example_mounted_world]
        OS_TranslatePath_validation[where vp = "''cf/a''" and cfg = example_config
          and lp = "replicate 128 CHR ''x''" and w = example_mounted_world]
        OS_TranslatePath_validation[where vp = "''/cf/bbbbbbbbbbbbbbbbbbbb''" and cfg = example_config
          and lp = "replicate 128 CHR ''x''" and w = example_mounted_world]
        OS_TranslatePath_validation[where vp = "''/xx/a''" and cfg = example_config
          and lp = "replicate 128 CHR ''x''" and w = example_mounted_world]
        OS_TranslatePath_validation[where vp = "''/cf/a''" and cfg = example_config
          and lp = "replicate 128 CHR ''x''" and w = example_mounted_world]
  by (simp add: example_strrchr example_mounted_search example_config_limits example_translate)

text \<open>
  Claim C2 as stated fails: with \<open>/cf\<close> mounted on \<open>/ram0\<close>, the path
  \<open>/cf/\<close>, which has nothing after its last \<open>/\<close>, is translated successfully
  to \<open>/ram0/\<close> instead of being rejected with \<open>OS_FS_ERR_PATH_INVALID\<close>; and a
  path that does not start with \<open>/\<close> but has a last component of
  \<open>OS_MAX_FILE_NAME\<close> characters fails with \<open>OS_FS_ERR_NAME_TOO_LONG\<close>, not
  with \<open>OS_FS_ERR_PATH_INVALID\<close>.
\<close>

theorem OS_TranslatePath_accepts_empty_filename:
  "fst (OS_TranslatePath example_config (Some ''/cf/'') (Some (replicate 128 CHR ''x''))
          example_mounted_world) = OS_SUCCESS \<and>
   map_option c_string
     (fst (snd (OS_TranslatePath example_config (Some ''/cf/'') (Some (replicate 128 CHR ''x''))
                  example_mounted_world))) = Some ''/ram0/'' \<and>
   fst (OS_TranslatePath example_config (Some ''a/bbbbbbbbbbbbbbbbbbbb'')
          (Some (replicate 128 CHR ''x'')) example_mounted_world) = OS_FS_ERR_NAME_TOO_LONG"
  by (simp add: example_translate c_string_def)
    (simp add: OS_TranslatePath_unfold example_strrchr example_config_limits)

section \<open>Mounting and unmounting\<close>

lemma OS_mount_unfold:
  assumes "length dev < OS_FS_DEV_NAME_LEN cfg" and "length mp < OS_MAX_PATH_LEN cfg"
  shows "OS_mount cfg Impl (Some dev) (Some mp) w =
     (let G = OS_ObjectIdGetByName OS_LOCK_MODE_EXCLUSIVE OS_OBJECT_TYPE_OS_FILESYS dev
                (OS_global_filesys_table w);
          tbl = snd (snd G);
          w1 = w\<lparr>OS_global_filesys_table := tbl\<rparr>;
          local_id = snd (OS_ObjectIdToArrayIndex OS_OBJECT_TYPE_OS_FILESYS
                            (active_id (tbl ! fst (snd G))) (length tbl));
          local = OS_filesys_table w ! local_id
      in if fst G \<noteq> OS_SUCCESS then (OS_ERR_NAME_NOT_FOUND, w1)
         else if filesys_flags local AND NOT OS_FILESYS_FLAG_IS_FIXED \<noteq> OS_FILESYS_FLAG_IS_READY
         then (OS_ERR_NAME_NOT_FOUND, w1)
         else if system_mountpt local = [] then (OS_ERR_NAME_NOT_FOUND, w1)
         else if fst (Impl local_id w1) \<noteq> OS_SUCCESS
         then (OS_ERR_NAME_NOT_FOUND, w1\<lparr>platform := snd (Impl local_id w1)\<rparr>)
         else (OS_SUCCESS,
               w1\<lparr>platform := snd (Impl local_id w1),
                  OS_filesys_table := (OS_filesys_table w)
                    [local_id := local
                       \<lparr>virtual_mountpt := mp,
                        filesys_flags := filesys_flags local
                           OR (OS_FILESYS_FLAG_IS_MOUNTED_SYSTEM
                               OR OS_FILESYS_FLAG_IS_MOUNTED_VIRTUAL)\<rparr>]\<rparr>))"
  using assms
  by (simp add: OS_mount_def Let_def split_beta not_le)


lemma OS_unmount_unfold:
  assumes "length mp < OS_MAX_PATH_LEN cfg"
  shows "OS_unmount cfg Impl (Some mp) w =
     (let G = OS_ObjectIdGetBySearch OS_LOCK_MODE_EXCLUSIVE OS_OBJECT_TYPE_OS_FILESYS
                (OS_FileSys_FindVirtMountPoint (OS_filesys_table w) mp)
                (OS_global_filesys_table w);
          tbl = snd (snd G);
          w1 = w\<lparr>OS_global_filesys_table := tbl\<rparr>;
          local_id = snd (OS_ObjectIdToArrayIndex OS_OBJECT_TYPE_OS_FILESYS
                            (active_id (tbl ! fst (snd G))) (length tbl));
          local = OS_filesys_table w ! local_id
      in if fst G \<noteq> OS_SUCCESS then (OS_ERR_NAME_NOT_FOUND, w1)
         else if filesys_flags local AND NOT OS_FILESYS_FLAG_IS_FIXED \<noteq>
                 (OS_FILESYS_FLAG_IS_READY OR OS_FILESYS_FLAG_IS_MOUNTED_SYSTEM
                  OR OS_FILESYS_FLAG_IS_MOUNTED_VIRTUAL)
         then (OS_ERR_NAME_NOT_FOUND, w1)
         else if fst (Impl local_id w1) \<noteq> OS_SUCCESS
         then (OS_ERR_NAME_NOT_FOUND, w1\<lparr>platform := snd (Impl local_id w1)\<rparr>)
         else (OS_SUCCESS,
               w1\<lparr>platform := snd (Impl local_id w1),
                  OS_filesys_table := (OS_filesys_table w)
                    [local_id := local
                       \<lparr>filesys_flags := filesys_flags local
                           AND NOT (OS_FILESYS_FLAG_IS_MOUNTED_SYSTEM
                                    OR OS_FILESYS_FLAG_IS_MOUNTED_VIRTUAL)\<rparr>]\<rparr>))"
  using assms
  by (simp add: OS_unmount_def Let_def split_beta not_le)

lemma flags_or_absorb: "((a :: uint32) OR b) AND b = b"
  by (rule bit_word_eqI) (auto simp add: bit_simps)

lemma example_mount_results:
  "OS_mount example_config example_Volume_Impl (Some ''ram0'') (Some ''/cf'') example_filesys_world =
     (OS_SUCCESS, example_mounted_world)"
  "OS_mount example_config example_Volume_Impl (Some ''disk9'') (Some ''/cf'') example_filesys_world =
     (OS_ERR_NAME_NOT_FOUND, example_filesys_world)"
  "OS_mount example_config example_Volume_Impl (Some ''ram0'') (Some ''/cf2'') example_mounted_world =
     (OS_ERR_NAME_NOT_FOUND, example_mounted_world)"
  by (simp_all add: OS_mount_unfold Let_def example_filesys_world_def example_mounted_world_def
      filesys_eval)

lemma example_unmount_results:
  "OS_unmount example_config example_Volume_Impl (Some ''/cf'') example_filesys_world =
     (OS_ERR_NAME_NOT_FOUND, example_filesys_world)"
  "OS_unmount example_config example_Volume_Impl (Some ''/cf'') example_mounted_world =
     (OS_SUCCESS,
      example_filesys_world
        \<lparr>platform := 2,
         OS_filesys_table := [zero_filesys_record,
                              \<lparr> device_name = ''ram0'', volume_name = ''RAM0'',
                                system_mountpt = ''/ram0'', virtual_mountpt = ''/cf'',
                                filesys_flags = 0x1 \<rparr>]\<rparr>)"
  by (simp_all add: OS_unmount_unfold Let_def example_filesys_world_def example_mounted_world_def
      filesys_eval)


lemma example_filesys_hyps:
  "length ''ram0'' < OS_FS_DEV_NAME_LEN example_config"
  "length ''/cf'' < OS_MAX_PATH_LEN example_config"
  "length (OS_filesys_table example_filesys_world) =
     length (OS_global_filesys_table example_filesys_world)"
  by (simp_all add: example_config_def example_filesys_world_def empty_world_def)

text \<open>
  Claim C3.  For a call of \<open>OS_mount\<close> that passes the pointer and length checks
  (the two tables of the file system type having the same number of slots):
  the call succeeds exactly when a device of that name is found and can be locked, the
  flags of its record without the \<open>FIXED\<close> bit are exactly \<open>READY\<close>, its system
  mount point is not empty and the adapter's mount succeeds.  Every other outcome is
  reported as \<open>OS_ERR_NAME_NOT_FOUND\<close>, whatever the inner status was, and leaves the
  file system table as it was; with no device of that name the state is untouched.  On
  success the record of the device has the given virtual mount point and its flags are
  the old ones with \<open>MOUNTED_SYSTEM\<close> and \<open>MOUNTED_VIRTUAL\<close> set.  Likewise
  \<open>OS_unmount\<close>, past its checks, succeeds exactly when the search by virtual mount
  point, the test of the flags and the adapter's unmount all succeed, and reports
  \<open>OS_ERR_NAME_NOT_FOUND\<close> otherwise.
\<close>

theorem OS_mount_unmount_status:
  assumes "length dev < OS_FS_DEV_NAME_LEN cfg" and "length mp < OS_MAX_PATH_LEN cfg"
      and "length (OS_filesys_table w) = length (OS_global_filesys_table w)"
  shows "(let G = OS_ObjectIdGetByName OS_LOCK_MODE_EXCLUSIVE OS_OBJECT_TYPE_OS_FILESYS dev
                   (OS_global_filesys_table w);
             local_id = snd (OS_ObjectIdToArrayIndex OS_OBJECT_TYPE_OS_FILESYS
                               (active_id (snd (snd G) ! fst (snd G))) (length (snd (snd G))));
             local = OS_filesys_table w ! local_id;
             R = OS_mount cfg MountVolume_Impl (Some dev) (Some mp) w;
             mounted = OS_FILESYS_FLAG_IS_MOUNTED_SYSTEM OR OS_FILESYS_FLAG_IS_MOUNTED_VIRTUAL
         in (fst R = OS_SUCCESS \<longleftrightarrow>
               fst G = OS_SUCCESS \<and>
               filesys_flags local AND NOT OS_FILESYS_FLAG_IS_FIXED = OS_FILESYS_FLAG_IS_READY \<and>
               system_mountpt local \<noteq> [] \<and>
               fst (MountVolume_Impl local_id w) = OS_SUCCESS) \<and>
            (fst R \<noteq> OS_SUCCESS \<longrightarrow>
               fst R = OS_ERR_NAME_NOT_FOUND \<and> OS_filesys_table (snd R) = OS_filesys_table w) \<and>
            (OS_ObjectIdSearch OS_OBJECT_TYPE_OS_FILESYS (OS_ObjectNameMatch dev)
               (OS_global_filesys_table w) = None \<longrightarrow> R = (OS_ERR_NAME_NOT_FOUND, w)) \<and>
            (fst R = OS_SUCCESS \<longrightarrow>
               local_id < length (OS_filesys_table w) \<and>
               virtual_mountpt (OS_filesys_table (snd R) ! local_id) = mp \<and>
               filesys_flags (OS_filesys_table (snd R) ! local_id) = filesys_flags local OR mounted \<and>
               filesys_flags (OS_filesys_table (snd R) ! local_id) AND mounted = mounted)) \<and>
        (let G = OS_ObjectIdGetBySearch OS_LOCK_MODE_EXCLUSIVE OS_OBJECT_TYPE_OS_FILESYS
                   (OS_FileSys_FindVirtMountPoint (OS_filesys_table w) mp)
                   (OS_global_filesys_table w);
             local_id = snd (OS_ObjectIdToArrayIndex OS_OBJECT_TYPE_OS_FILESYS
                               (active_id (snd (snd G) ! fst (snd G))) (length (snd (snd G))));
             local = OS_filesys_table w ! local_id;
             R = OS_unmount cfg UnmountVolume_Impl (Some mp) w
         in (fst R = OS_SUCCESS \<longleftrightarrow>
               fst G = OS_SUCCESS \<and>
               filesys_flags local AND NOT OS_FILESYS_FLAG_IS_FIXED =
                 (OS_FILESYS_FLAG_IS_READY OR OS_FILESYS_FLAG_IS_MOUNTED_SYSTEM
                  OR OS_FILESYS_FLAG_IS_MOUNTED_VIRTUAL) \<and>
               fst (UnmountVolume_Impl local_id w) = OS_SUCCESS) \<and>
            (fst R \<noteq> OS_SUCCESS \<longrightarrow>
               fst R = OS_ERR_NAME_NOT_FOUND \<and> OS_filesys_table (snd R) = OS_filesys_table w))"
proof (rule conjI)
  define G where "G = OS_ObjectIdGetByName OS_LOCK_MODE_EXCLUSIVE OS_OBJECT_TYPE_OS_FILESYS dev
                   (OS_global_filesys_table w)"
  define local_id where "local_id = snd (OS_ObjectIdToArrayIndex OS_OBJECT_TYPE_OS_FILESYS
                               (active_id (snd (snd G) ! fst (snd G))) (length (snd (snd G))))"
  define w1 where "w1 = w\<lparr>OS_global_filesys_table := snd (snd G)\<rparr>"
  have ok: "fst G = OS_SUCCESS \<Longrightarrow> w1 = w \<and> local_id < length (OS_filesys_table w)"
  proof -
    assume s: "fst G = OS_SUCCESS"
    note f = OS_ObjectIdGetBySearch_EXCLUSIVE_ok[OF s[unfolded G_def OS_ObjectIdGetByName_def],
        folded OS_ObjectIdGetByName_def, folded G_def]
    have t: "snd (snd G) = OS_global_filesys_table w" using f by simp
    have "0 < length (OS_global_filesys_table w)" using f by auto
    then have "local_id < length (OS_global_filesys_table w)"
      using OS_ObjectIdToArrayIndex_active[of OS_OBJECT_TYPE_OS_FILESYS
          "OS_global_filesys_table w ! fst (snd G)" "length (OS_global_filesys_table w)"] f t
      by (simp add: local_id_def)
    then show ?thesis using t assms(3) by (simp add: w1_def)
  qed
  have ft: "OS_filesys_table w1 = OS_filesys_table w" by (simp add: w1_def)
  have none: "OS_ObjectIdSearch OS_OBJECT_TYPE_OS_FILESYS (OS_ObjectNameMatch dev)
               (OS_global_filesys_table w) = None \<Longrightarrow>
              fst G \<noteq> OS_SUCCESS \<and> w1 = w"
    using OS_ObjectIdSearch_None_GetBySearch[of OS_OBJECT_TYPE_OS_FILESYS "OS_ObjectNameMatch dev"
        "OS_global_filesys_table w" OS_LOCK_MODE_EXCLUSIVE]
    by (simp add: G_def w1_def OS_ObjectIdGetByName_def)
  show "let G = OS_ObjectIdGetByName OS_LOCK_MODE_EXCLUSIVE OS_OBJECT_TYPE_OS_FILESYS dev
                   (OS_global_filesys_table w);
             local_id = snd (OS_ObjectIdToArrayIndex OS_OBJECT_TYPE_OS_FILESYS
                               (active_id (snd (snd G) ! fst (snd G))) (length (snd (snd G))));
             local = OS_filesys_table w ! local_id;
             R = OS_mount cfg MountVolume_Impl (Some dev) (Some mp) w;
             mounted = OS_FILESYS_FLAG_IS_MOUNTED_SYSTEM OR OS_FILESYS_FLAG_IS_MOUNTED_VIRTUAL
         in (fst R = OS_SUCCESS \<longleftrightarrow>
               fst G = OS_SUCCESS \<and>
               filesys_flags local AND NOT OS_FILESYS_FLAG_IS_FIXED = OS_FILESYS_FLAG_IS_READY \<and>
               system_mountpt local \<noteq> [] \<and>
               fst (MountVolume_Impl local_id w) = OS_SUCCESS) \<and>
            (fst R \<noteq> OS_SUCCESS \<longrightarrow>
               fst R = OS_ERR_NAME_NOT_FOUND \<and> OS_filesys_table (snd R) = OS_filesys_table w) \<and>
            (OS_ObjectIdSearch OS_OBJECT_TYPE_OS_FILESYS (OS_ObjectNameMatch dev)
               (OS_global_filesys_table w) = None \<longrightarrow> R = (OS_ERR_NAME_NOT_FOUND, w)) \<and>
            (fst R = OS_SUCCESS \<longrightarrow>
               local_id < length (OS_filesys_table w) \<and>
               virtual_mountpt (OS_filesys_table (snd R) ! local_id) = mp \<and>
               filesys_flags (OS_filesys_table (snd R) ! local_id) = filesys_flags local OR mounted \<and>
               filesys_flags (OS_filesys_table (snd R) ! local_id) AND mounted = mounted)"
    unfolding OS_mount_unfold[OF assms(1,2)] Let_def
    unfolding G_def[symmetric] 
    unfolding local_id_def[symmetric] w1_def[symmetric]
    using ok none ft
    by (auto simp add: flags_or_absorb)
next
  show "let G = OS_ObjectIdGetBySearch OS_LOCK_MODE_EXCLUSIVE OS_OBJECT_TYPE_OS_FILESYS
                   (OS_FileSys_FindVirtMountPoint (OS_filesys_table w) mp)
                   (OS_global_filesys_table w);
             local_id = snd (OS_ObjectIdToArrayIndex OS_OBJECT_TYPE_OS_FILESYS
                               (active_id (snd (snd G) ! fst (snd G))) (length (snd (snd G))));
             local = OS_filesys_table w ! local_id;
             R = OS_unmount cfg UnmountVolume_Impl (Some mp) w
         in (fst R = OS_SUCCESS \<longleftrightarrow>
               fst G = OS_SUCCESS \<and>
               filesys_flags local AND NOT OS_FILESYS_FLAG_IS_FIXED =
                 (OS_FILESYS_FLAG_IS_READY OR OS_FILESYS_FLAG_IS_MOUNTED_SYSTEM
                  OR OS_FILESYS_FLAG_IS_MOUNTED_VIRTUAL) \<and>
               fst (UnmountVolume_Impl local_id w) = OS_SUCCESS) \<and>
            (fst R \<noteq> OS_SUCCESS \<longrightarrow>
               fst R = OS_ERR_NAME_NOT_FOUND \<and> OS_filesys_table (snd R) = OS_filesys_table w)"
  proof -
    define G' where "G' = OS_ObjectIdGetBySearch OS_LOCK_MODE_EXCLUSIVE OS_OBJECT_TYPE_OS_FILESYS
                   (OS_FileSys_FindVirtMountPoint (OS_filesys_table w) mp)
                   (OS_global_filesys_table w)"
    define local_id' where "local_id' = snd (OS_ObjectIdToArrayIndex OS_OBJECT_TYPE_OS_FILESYS
                               (active_id (snd (snd G') ! fst (snd G'))) (length (snd (snd G'))))"
    define w1' where "w1' = w\<lparr>OS_global_filesys_table := snd (snd G')\<rparr>"
    have ft': "OS_filesys_table w1' = OS_filesys_table w" by (simp add: w1'_def)
    have ok': "fst G' = OS_SUCCESS \<Longrightarrow> w1' = w"
    proof -
      assume s: "fst G' = OS_SUCCESS"
      note f = OS_ObjectIdGetBySearch_EXCLUSIVE_ok[OF s[unfolded G'_def], folded G'_def]
      then show ?thesis by (simp add: w1'_def)
    qed
    show ?thesis
      unfolding OS_unmount_unfold[OF assms(2)] Let_def
      unfolding G'_def[symmetric]
      unfolding local_id'_def[symmetric] w1'_def[symmetric]
      using ok' ft'
      by auto
  qed
qed


theorem OS_mount_unmount_status_witness:
  "length ''ram0'' < OS_FS_DEV_NAME_LEN example_config \<and>
   length ''/cf'' < OS_MAX_PATH_LEN example_config \<and>
   length (OS_filesys_table example_filesys_world) =
     length (OS_global_filesys_table example_filesys_world) \<and>
   OS_mount example_config example_Volume_Impl (Some ''ram0'') (Some ''/cf'') example_filesys_world =
     (OS_SUCCESS, example_mounted_world) \<and>
   OS_mount example_config example_Volume_Impl (Some ''disk9'') (Some ''/cf'') example_filesys_world =
     (OS_ERR_NAME_NOT_FOUND, example_filesys_world) \<and>
   OS_mount example_config example_Volume_Impl (Some ''ram0'') (Some ''/cf2'') example_mounted_world =
     (OS_ERR_NAME_NOT_FOUND, example_mounted_world) \<and>
   fst (OS_unmount example_config example_Volume_Impl (Some ''/cf'') example_mounted_world) =
     OS_SUCCESS \<and>
   OS_unmount example_config example_Volume_Impl (Some ''/cf'') example_filesys_world =
     (OS_ERR_NAME_NOT_FOUND, example_filesys_world)"
  using OS_mount_unmount_status[OF example_filesys_hyps, of example_Volume_Impl example_Volume_Impl]
    example_filesys_hyps
  by (simp add: example_mount_results example_unmount_results)

section \<open>Receiving from a queue into a buffer that is too small\<close>

lemma example_queue_lookup:
  "OS_ObjectIdGetById OS_LOCK_MODE_NONE OS_OBJECT_TYPE_OS_QUEUE 0x20001
     (OS_global_queue_table (example_queue_world msgs)) =
   (OS_SUCCESS, 1, OS_global_queue_table (example_queue_world msgs))"
  by (simp add: example_queue_world_def empty_world_def OS_ObjectIdGetById_def
      OS_ObjectIdToArrayIndex_def OS_ObjectIdToType_Impl_def OS_ObjectIdToSerialNumber_Impl_def
      OS_OBJECT_TYPE_SHIFT_def OS_OBJECT_INDEX_MASK_def OS_OBJECT_TYPE_OS_QUEUE_def
      OS_ObjectIdConvertLock_def example_common_def)

text \<open>
  Claim C4.  When \<open>OS_QueueGet\<close> is called with non-null \<open>data\<close> and
  \<open>size_copied\<close> on a queue handle that the lookup accepts, and the buffer size is
  strictly smaller than the \<open>max_size\<close> of the queue, it returns
  \<open>OS_QUEUE_INVALID_SIZE\<close> and stores 0 through \<open>size_copied\<close>.  The buffer and the
  whole global state, the platform's queues included, are as before, whatever the
  adapter's get operation would have done: it is not invoked and no message is consumed.
\<close>

theorem OS_QueueGet_buffer_too_small:
  assumes "fst (OS_ObjectIdGetById OS_LOCK_MODE_NONE OS_OBJECT_TYPE_OS_QUEUE queue_id
                  (OS_global_queue_table w)) = OS_SUCCESS"
      and "size' < max_size (OS_queue_table w !
                  fst (snd (OS_ObjectIdGetById OS_LOCK_MODE_NONE OS_OBJECT_TYPE_OS_QUEUE queue_id
                              (OS_global_queue_table w))))"
  shows "OS_QueueGet QueueGet_Impl queue_id (Some buf) size' (Some sc) timeout w =
           (OS_QUEUE_INVALID_SIZE, Some buf, Some 0, w)"
proof -
  obtain rc local_id tbl where
    g: "OS_ObjectIdGetById OS_LOCK_MODE_NONE OS_OBJECT_TYPE_OS_QUEUE queue_id
          (OS_global_queue_table w) = (rc, local_id, tbl)"
    by (cases "OS_ObjectIdGetById OS_LOCK_MODE_NONE OS_OBJECT_TYPE_OS_QUEUE queue_id
          (OS_global_queue_table w)") auto
  have t: "tbl = OS_global_queue_table w"
    using OS_ObjectIdGetById_table_NONE[of OS_OBJECT_TYPE_OS_QUEUE queue_id "OS_global_queue_table w"] g
    by simp
  show ?thesis
    using assms g t by (simp add: OS_QueueGet_def)
qed

theorem OS_QueueGet_buffer_too_small_witness:
  "let w = example_queue_world [[0x11, 0x12, 0x13, 0x14, 0x15, 0x16, 0x17, 0x18]]
   in fst (OS_ObjectIdGetById OS_LOCK_MODE_NONE OS_OBJECT_TYPE_OS_QUEUE 0x20001
             (OS_global_queue_table w)) = OS_SUCCESS \<and>
      (4 :: uint32) < max_size (OS_queue_table w ! 1) \<and>
      OS_QueueGet example_QueueGet_Impl 0x20001 (Some [0, 0, 0, 0]) 4 (Some 99) 0 w =
        (OS_QUEUE_INVALID_SIZE, Some [0, 0, 0, 0], Some 0, w) \<and>
      OS_QueueGet example_QueueGet_Impl 0x20001 (Some [0, 0, 0, 0, 0, 0, 0, 0]) 8 (Some 99) 0 w =
        (OS_SUCCESS, Some [0x11, 0x12, 0x13, 0x14, 0x15, 0x16, 0x17, 0x18], Some 8,
         example_queue_world [])"
  using OS_QueueGet_buffer_too_small[of "0x20001"
      "example_queue_world [[0x11, 0x12, 0x13, 0x14, 0x15, 0x16, 0x17, 0x18]]" 4
      example_QueueGet_Impl "[0, 0, 0, 0]" 99 0]
  by (simp add: example_queue_lookup Let_def OS_QueueGet_def example_QueueGet_Impl_def)
     (simp add: example_queue_world_def empty_world_def)

section \<open>Conversion of milliseconds to ticks\<close>

lemma uint_num_of_ticks:
  assumes "0 \<le> sint (TicksPerSecond g)"
  shows "uint (num_of_ticks g ms) = (uint ms * sint (TicksPerSecond g) + 999) div 1000"
proof -
  let ?t = "sint (TicksPerSecond g)"
  have m: "uint ms < 2 ^ 32" using uint_lt2p[of ms] by simp
  have t: "?t < 2 ^ 31" using sint_lt[of "TicksPerSecond g"] by simp
  have "uint ms * ?t \<le> (2 ^ 32 - 1) * (2 ^ 31 - 1)"
    using m t assms by (intro mult_mono) simp_all
  then have b: "uint ms * ?t + 999 < 2 ^ 64" by simp
  have nn: "0 \<le> uint ms * ?t + 999" using assms by simp
  have "uint ((ucast ms :: uint64) * (scast (TicksPerSecond g) :: uint64) + 999) = uint ms * ?t + 999"
    using b nn
    by (simp add: uint_word_ariths uint_ucast_32_64 uint_scast_32_64[OF assms] mod_add_left_eq)
  then show ?thesis
    by (simp add: num_of_ticks_def uint_div)
qed

lemma OS_Milli2Ticks_cases:
  assumes "0 \<le> sint (TicksPerSecond g)"
  shows "OS_Milli2Ticks g ms =
     (if (uint ms * sint (TicksPerSecond g) + 999) div 1000 \<le> INT_MAX
      then (OS_SUCCESS, word_of_int ((uint ms * sint (TicksPerSecond g) + 999) div 1000))
      else (OS_ERROR, 0))"
  by (simp add: OS_Milli2Ticks_def Let_def word_le_def uint_num_of_ticks[OF assms, symmetric] INT_MAX_def)

text \<open>
  Claim C5, as amended.  For a non-negative \<open>TicksPerSecond\<close>, \<open>OS_Milli2Ticks\<close>
  computes \<open>n = (ms * TicksPerSecond + 999) div 1000\<close> exactly, which is the ceiling of
  \<open>ms * TicksPerSecond / 1000\<close>.  When \<open>n\<close> does not exceed \<open>INT_MAX\<close> the call
  succeeds, stores \<open>n\<close>, and \<open>OS_BinSemTimedWait_Impl\<close> hands exactly that tick count
  to the platform.  When \<open>n\<close> exceeds \<open>INT_MAX\<close> nothing is capped: the call fails with
  \<open>OS_ERROR\<close> and stores 0, and \<open>OS_BinSemTimedWait_Impl\<close> returns \<open>OS_ERROR\<close>
  without calling the platform.
\<close>

theorem OS_Milli2Ticks_exact_or_error:
  assumes "0 \<le> sint (TicksPerSecond g)"
  shows "let exact = uint ms * sint (TicksPerSecond g);
             n = (exact + 999) div 1000
         in exact \<le> 1000 * n \<and> 1000 * n < exact + 1000 \<and>
            uint (num_of_ticks g ms) = n \<and>
            (n \<le> INT_MAX \<longrightarrow>
               fst (OS_Milli2Ticks g ms) = OS_SUCCESS \<and>
               sint (snd (OS_Milli2Ticks g ms)) = n \<and>
               OS_BinSemTimedWait_Impl GenericSemTake g tbl sem_id ms k =
                 GenericSemTake (tbl ! sem_id) (snd (OS_Milli2Ticks g ms)) k) \<and>
            (INT_MAX < n \<longrightarrow>
               OS_Milli2Ticks g ms = (OS_ERROR, 0) \<and>
               OS_BinSemTimedWait_Impl GenericSemTake g tbl sem_id ms k = (OS_ERROR, k))"
proof -
  have nn: "0 \<le> (uint ms * sint (TicksPerSecond g) + 999) div 1000"
    using assms by (simp add: pos_imp_zdiv_nonneg_iff)
  show ?thesis
    using nn ceil_div_1000[of "uint ms * sint (TicksPerSecond g)"]
    by (simp add: Let_def uint_num_of_ticks[OF assms] OS_Milli2Ticks_cases[OF assms]
        OS_BinSemTimedWait_Impl_def sint_word_of_int_small)
qed

theorem OS_Milli2Ticks_exact_or_error_witness:
  "let g = OS_SharedGlobalVars_init\<lparr>TicksPerSecond := 100\<rparr>
   in 0 \<le> sint (TicksPerSecond g) \<and>
      (uint (25 :: uint32) * sint (TicksPerSecond g) + 999) div 1000 = 3 \<and>
      fst (OS_Milli2Ticks g 25) = OS_SUCCESS \<and>
      sint (snd (OS_Milli2Ticks g 25)) = 3 \<and>
      OS_BinSemTimedWait_Impl (\<lambda>vxid ticks k. (OS_SEM_TIMEOUT, (vxid, ticks) # k)) g [7, 9] 1 25 []
        = (OS_SEM_TIMEOUT, [(9, snd (OS_Milli2Ticks g 25))])"
  using OS_Milli2Ticks_exact_or_error[of "OS_SharedGlobalVars_init\<lparr>TicksPerSecond := 100\<rparr>" 25
      "\<lambda>vxid ticks k. (OS_SEM_TIMEOUT, (vxid, ticks) # k)" "[7, 9]" 1 "[]"]
  by (simp add: Let_def OS_SharedGlobalVars_init_def INT_MAX_def)

text \<open>
  Claim C5 as stated fails: with 1000 ticks per second and \<open>ms = 0xFFFFFFFF\<close> the exact
  tick count exceeds \<open>INT_MAX\<close>, and the value stored is 0 with status \<open>OS_ERROR\<close>,
  not \<open>INT_MAX\<close>; the platform's take is not called at all.
\<close>

theorem OS_Milli2Ticks_not_capped:
  "let g = OS_SharedGlobalVars_init\<lparr>TicksPerSecond := 1000\<rparr>
   in INT_MAX < (uint (0xFFFFFFFF :: uint32) * sint (TicksPerSecond g) + 999) div 1000 \<and>
      OS_Milli2Ticks g 0xFFFFFFFF = (OS_ERROR, 0) \<and>
      sint (snd (OS_Milli2Ticks g 0xFFFFFFFF)) \<noteq> INT_MAX \<and>
      OS_BinSemTimedWait_Impl (\<lambda>vxid ticks k. (OS_SUCCESS, (vxid, ticks) # k)) g [7, 9] 1 0xFFFFFFFF []
        = (OS_ERROR, [])"
  by (simp add: Let_def OS_SharedGlobalVars_init_def INT_MAX_def OS_Milli2Ticks_def num_of_ticks_def
      OS_BinSemTimedWait_Impl_def)

section \<open>Deleting all objects terminates\<close>

lemma DeleteAllObjects_spin_exit:
  "\<not> (ObjectCount > 0 \<and> TryCount < 5) \<Longrightarrow> DeleteAllObjects_spin ObjectCount TryCount = Some ()"
  by (subst DeleteAllObjects_spin.simps) auto

lemma unat_succ_small:
  "unat (t :: uint32) \<le> 4 \<Longrightarrow> unat (t + 1) = unat t + 1"
proof -
  assume "unat t \<le> 4"
  then have "unat t + unat (1 :: uint32) < 2 ^ LENGTH(32)" by simp
  then have "unat (t + 1) = unat t + unat (1 :: uint32)" by (simp only: unat_add_lem)
  then show ?thesis by simp
qed

lemma DeleteAllObjects_loop_first_pass_empty:
  "fst (ForEachObject (OS_CleanUpObject del) (0, w)) = 0 \<Longrightarrow>
   DeleteAllObjects_loop ForEachObject del TaskDelay TryCount w =
     (0, TryCount + 1, snd (ForEachObject (OS_CleanUpObject del) (0, w)))"
  by (subst DeleteAllObjects_loop.simps) (simp add: Let_def split_beta)

lemma DeleteAllObjects_loop_passes:
  assumes "unat TryCount \<le> 4"
  shows "\<exists>n. 1 \<le> n \<and> unat TryCount + n \<le> 5 \<and>
           DeleteAllObjects_loop ForEachObject del TaskDelay TryCount w =
             (fst (DeleteAllObjects_pass ForEachObject del
                     ((DeleteAllObjects_retry ForEachObject del TaskDelay ^^ (n - 1)) w)),
              TryCount + of_nat n,
              snd (DeleteAllObjects_pass ForEachObject del
                     ((DeleteAllObjects_retry ForEachObject del TaskDelay ^^ (n - 1)) w))) \<and>
           (\<forall>k<n - 1. fst (DeleteAllObjects_pass ForEachObject del
                             ((DeleteAllObjects_retry ForEachObject del TaskDelay ^^ k) w)) \<noteq> 0) \<and>
           (fst (DeleteAllObjects_pass ForEachObject del
                   ((DeleteAllObjects_retry ForEachObject del TaskDelay ^^ (n - 1)) w)) = 0 \<or>
            unat TryCount + n = 5)"
  using assms
proof (induction ForEachObject del TaskDelay TryCount w rule: DeleteAllObjects_loop.induct)
  case (1 ForEachObject del TaskDelay TryCount w)
  let ?P = "DeleteAllObjects_pass ForEachObject del"
  let ?R = "DeleteAllObjects_retry ForEachObject del TaskDelay"
  note unf = DeleteAllObjects_loop.simps[of ForEachObject del TaskDelay TryCount w]
  obtain oc w1 where p: "ForEachObject (OS_CleanUpObject del) (0, w) = (oc, w1)"
    by (cases "ForEachObject (OS_CleanUpObject del) (0, w)") auto
  have pw: "?P w = (oc, w1)" using p by (simp add: DeleteAllObjects_pass_def)
  have rw: "?R w = TaskDelay 5 w1" using pw by (simp add: DeleteAllObjects_retry_def)
  have s: "unat (TryCount + 1) = unat TryCount + 1"
    using "1.prems" by (rule unat_succ_small)
  show ?case
  proof (cases "oc = 0 \<or> TryCount + 1 > 4")
    case True
    then have r: "DeleteAllObjects_loop ForEachObject del TaskDelay TryCount w = (oc, TryCount + 1, w1)"
      using p by (simp add: unf)
    have "oc \<noteq> 0 \<Longrightarrow> unat TryCount + 1 = 5"
    proof -
      assume "oc \<noteq> 0"
      with True have "TryCount + 1 > 4" by simp
      then have "unat (TryCount + 1) > 4" by (simp add: word_less_nat_alt)
      with s "1.prems" show ?thesis by simp
    qed
    then show ?thesis using r pw "1.prems" by (intro exI[of _ 1]) auto
  next
    case False
    then have le: "unat (TryCount + 1) \<le> 4"
      by (simp add: word_less_nat_alt not_less)
    have nz: "oc \<noteq> 0" using False by simp
    have r: "DeleteAllObjects_loop ForEachObject del TaskDelay TryCount w =
             DeleteAllObjects_loop ForEachObject del TaskDelay (TryCount + 1) (?R w)"
      using False p by (simp add: unf rw)
    from "1.IH"[OF refl p[symmetric] refl False le]
    obtain n where n: "1 \<le> n" "unat (TryCount + 1) + n \<le> 5"
      "DeleteAllObjects_loop ForEachObject del TaskDelay (TryCount + 1) (?R w) =
         (fst (?P ((?R ^^ (n - 1)) (?R w))), TryCount + 1 + of_nat n,
          snd (?P ((?R ^^ (n - 1)) (?R w))))"
      "\<forall>k<n - 1. fst (?P ((?R ^^ k) (?R w))) \<noteq> 0"
      "fst (?P ((?R ^^ (n - 1)) (?R w))) = 0 \<or> unat (TryCount + 1) + n = 5"
      unfolding rw by blast
    have sw: "\<And>k. (?R ^^ k) (?R w) = (?R ^^ Suc k) w"
      by (simp add: funpow_swap1)
    have n1: "Suc (n - 1) = n" using n(1) by simp
    have a: "\<forall>k<n. fst (?P ((?R ^^ k) w)) \<noteq> 0"
    proof (intro allI impI)
      fix k assume k: "k < n"
      show "fst (?P ((?R ^^ k) w)) \<noteq> 0"
      proof (cases k)
        case 0
        then show ?thesis using pw nz by simp
      next
        case (Suc j)
        then have "j < n - 1" using k by simp
        then have "fst (?P ((?R ^^ j) (?R w))) \<noteq> 0" using n(4) by blast
        then show ?thesis unfolding sw Suc .
      qed
    qed
    show ?thesis
      apply (rule exI[of _ "Suc n"])
      unfolding r n(3) sw n1
      using n(1,2,5) a s unfolding sw n1
      by (simp add: add.assoc add.commute)
  qed
qed


lemma OS_CleanUpObject_counts:
  "fst (OS_CleanUpObject del object_id (c, w)) = c + 1"
  by (simp add: OS_CleanUpObject_def)

lemma unat_of_nat_small: "n \<le> 5 \<Longrightarrow> unat (of_nat n :: uint32) = n"
  by (simp add: unat_of_nat)

lemma example_CleanUpObject:
  "OS_CleanUpObject example_delete_env object_id (c, w) = (c + 1, w)"
  by (simp add: OS_CleanUpObject_def example_delete_env_def Let_def)

lemma example_pass:
  "example_ForEachObject (OS_CleanUpObject example_delete_env) (0, empty_world n) =
     (2, empty_world (n + 1))"
  by (simp add: example_ForEachObject_def example_CleanUpObject empty_world_def)

lemma example_loop_steps:
  "DeleteAllObjects_loop example_ForEachObject example_delete_env (\<lambda>ms w. w) 0 (empty_world n) =
   DeleteAllObjects_loop example_ForEachObject example_delete_env (\<lambda>ms w. w) 1 (empty_world (n + 1))"
  "DeleteAllObjects_loop example_ForEachObject example_delete_env (\<lambda>ms w. w) 1 (empty_world n) =
   DeleteAllObjects_loop example_ForEachObject example_delete_env (\<lambda>ms w. w) 2 (empty_world (n + 1))"
  "DeleteAllObjects_loop example_ForEachObject example_delete_env (\<lambda>ms w. w) 2 (empty_world n) =
   DeleteAllObjects_loop example_ForEachObject example_delete_env (\<lambda>ms w. w) 3 (empty_world (n + 1))"
  "DeleteAllObjects_loop example_ForEachObject example_delete_env (\<lambda>ms w. w) 3 (empty_world n) =
   DeleteAllObjects_loop example_ForEachObject example_delete_env (\<lambda>ms w. w) 4 (empty_world (n + 1))"
  "DeleteAllObjects_loop example_ForEachObject example_delete_env (\<lambda>ms w. w) 4 (empty_world n) =
   (2, 5, empty_world (n + 1))"
  by (subst DeleteAllObjects_loop.simps, simp add: example_pass Let_def)+

lemma example_loop:
  "DeleteAllObjects_loop example_ForEachObject example_delete_env (\<lambda>ms w. w) 0 (empty_world 0) =
     (2, 5, empty_world 5)"
  by (simp add: example_loop_steps eval_nat_numeral)

lemma example_loop_empty:
  "DeleteAllObjects_loop (\<lambda>callback st. st) example_delete_env (\<lambda>ms w. w) 0 (empty_world 0) =
     (0, 1, empty_world 0)"
  by (subst DeleteAllObjects_loop.simps) simp

lemma example_pass':
  "DeleteAllObjects_pass example_ForEachObject example_delete_env (empty_world n) =
     (2, empty_world (n + 1))"
  by (simp add: DeleteAllObjects_pass_def example_pass)

lemma example_retry:
  "DeleteAllObjects_retry example_ForEachObject example_delete_env (\<lambda>ms w. w) (empty_world n) =
     empty_world (n + 1)"
  by (simp add: DeleteAllObjects_retry_def example_pass')

lemma example_retries:
  "(DeleteAllObjects_retry example_ForEachObject example_delete_env (\<lambda>ms w. w) ^^ k) (empty_world n) =
     empty_world (n + k)"
  by (induction k) (simp_all add: example_retry)

text \<open>
  Claim C6.  \<open>OS_DeleteAllObjects\<close> always returns, provided each for-each pass and
  each delay does.  Its main loop makes exactly \<open>n\<close> for-each passes for some
  \<open>n\<close> between 1 and 5: the count and the state it leaves are those of pass number
  \<open>n\<close>, started in the state that \<open>n - 1\<close> passes, each followed by a delay
  of 5 ms, lead to, and \<open>TryCount\<close> is \<open>n\<close>.  Every pass before the last
  visited at least one object, and the last one visited none unless it is the fifth: the
  loop stops as soon as a pass has visited no object (after the first pass if that one
  finds none).  The count is of visits: the callback adds one for every object it is
  called on, whatever its delete call does.  When the main loop leaves, either
  \<open>ObjectCount\<close> is 0 or \<open>TryCount\<close> is 5, so the condition of the trailing loop
  \<open>while (ObjectCount > 0 && TryCount < 5);\<close> is false and that loop is never
  entered.
\<close>

theorem OS_DeleteAllObjects_terminates:
  "\<exists>n ObjectCount TryCount w1.
     1 \<le> n \<and> n \<le> 5 \<and> unat TryCount = n \<and>
     DeleteAllObjects_loop ForEachObject del TaskDelay 0 w = (ObjectCount, TryCount, w1) \<and>
     (ObjectCount, w1) =
       DeleteAllObjects_pass ForEachObject del
         ((DeleteAllObjects_retry ForEachObject del TaskDelay ^^ (n - 1)) w) \<and>
     (\<forall>k<n - 1. fst (DeleteAllObjects_pass ForEachObject del
                       ((DeleteAllObjects_retry ForEachObject del TaskDelay ^^ k) w)) \<noteq> 0) \<and>
     (ObjectCount = 0 \<or> TryCount = 5) \<and>
     \<not> (ObjectCount > 0 \<and> TryCount < 5) \<and>
     DeleteAllObjects_spin ObjectCount TryCount = Some () \<and>
     OS_DeleteAllObjects ForEachObject del TaskDelay w = Some w1 \<and>
     (fst (ForEachObject (OS_CleanUpObject del) (0, w)) = 0 \<longrightarrow>
        n = 1 \<and> ObjectCount = 0 \<and> w1 = snd (ForEachObject (OS_CleanUpObject del) (0, w))) \<and>
     (\<forall>t w'. fst (ForEachObject (OS_CleanUpObject del) (0, w')) = 0 \<longrightarrow>
        DeleteAllObjects_loop ForEachObject del TaskDelay t w' =
          (0, t + 1, snd (ForEachObject (OS_CleanUpObject del) (0, w')))) \<and>
     (\<forall>object_id c w'. fst (OS_CleanUpObject del object_id (c, w')) = c + 1)"
proof -
  let ?P = "DeleteAllObjects_pass ForEachObject del"
  let ?R = "DeleteAllObjects_retry ForEachObject del TaskDelay"
  obtain n where n: "1 \<le> n" "n \<le> 5"
    and r: "DeleteAllObjects_loop ForEachObject del TaskDelay 0 w =
              (fst (?P ((?R ^^ (n - 1)) w)), of_nat n, snd (?P ((?R ^^ (n - 1)) w)))"
    and a: "\<forall>k<n - 1. fst (?P ((?R ^^ k) w)) \<noteq> 0"
    and z: "fst (?P ((?R ^^ (n - 1)) w)) = 0 \<or> n = 5"
    using DeleteAllObjects_loop_passes[of 0 ForEachObject del TaskDelay w] by auto
  define oc where "oc = fst (?P ((?R ^^ (n - 1)) w))"
  define w1 where "w1 = snd (?P ((?R ^^ (n - 1)) w))"
  define tc :: uint32 where "tc = of_nat n"
  have u: "unat tc = n" unfolding tc_def using n(2) by (rule unat_of_nat_small)
  have r': "DeleteAllObjects_loop ForEachObject del TaskDelay 0 w = (oc, tc, w1)"
    using r by (simp add: oc_def w1_def tc_def)
  have pr: "(oc, w1) = ?P ((?R ^^ (n - 1)) w)" by (simp add: oc_def w1_def)
  have z': "oc = 0 \<or> tc = 5"
  proof (cases "oc = 0")
    case True then show ?thesis by simp
  next
    case False
    then have "n = 5" using z by (simp add: oc_def)
    then show ?thesis by (simp add: tc_def)
  qed
  then have ns: "\<not> (oc > 0 \<and> tc < 5)" by auto
  then have sp: "DeleteAllObjects_spin oc tc = Some ()" by (rule DeleteAllObjects_spin_exit)
  have d: "OS_DeleteAllObjects ForEachObject del TaskDelay w = Some w1"
    using r' sp by (simp add: OS_DeleteAllObjects_def)
  have e: "fst (ForEachObject (OS_CleanUpObject del) (0, w)) = 0 \<longrightarrow>
             n = 1 \<and> oc = 0 \<and> w1 = snd (ForEachObject (OS_CleanUpObject del) (0, w))"
  proof
    assume e0: "fst (ForEachObject (OS_CleanUpObject del) (0, w)) = 0"
    have "DeleteAllObjects_loop ForEachObject del TaskDelay 0 w =
            (0, 0 + 1, snd (ForEachObject (OS_CleanUpObject del) (0, w)))"
      using e0 by (rule DeleteAllObjects_loop_first_pass_empty)
    then have "oc = 0" "tc = 1" "w1 = snd (ForEachObject (OS_CleanUpObject del) (0, w))"
      using r' by simp_all
    moreover have "n = 1" using u \<open>tc = 1\<close> by simp
    ultimately show "n = 1 \<and> oc = 0 \<and> w1 = snd (ForEachObject (OS_CleanUpObject del) (0, w))"
      by simp
  qed
  have f: "\<forall>t w'. fst (ForEachObject (OS_CleanUpObject del) (0, w')) = 0 \<longrightarrow>
        DeleteAllObjects_loop ForEachObject del TaskDelay t w' =
          (0, t + 1, snd (ForEachObject (OS_CleanUpObject del) (0, w')))"
    by (simp add: DeleteAllObjects_loop_first_pass_empty)
  have g: "\<forall>object_id c w'. fst (OS_CleanUpObject del object_id (c, w')) = c + 1"
    by (simp add: OS_CleanUpObject_counts)
  show ?thesis
    apply (rule exI[of _ n], rule exI[of _ oc], rule exI[of _ tc], rule exI[of _ w1])
    using n u r' pr a z' ns sp d e f g by blast
qed

theorem OS_DeleteAllObjects_terminates_witness:
  "DeleteAllObjects_loop example_ForEachObject example_delete_env (\<lambda>ms w. w) 0 (empty_world 0) =
     (2, 5, empty_world 5) \<and>
   (2, empty_world 5) =
     DeleteAllObjects_pass example_ForEachObject example_delete_env
       ((DeleteAllObjects_retry example_ForEachObject example_delete_env (\<lambda>ms w. w) ^^ 4)
          (empty_world 0)) \<and>
   DeleteAllObjects_spin 2 5 = Some () \<and>
   OS_DeleteAllObjects example_ForEachObject example_delete_env (\<lambda>ms w. w) (empty_world 0) =
     Some (empty_world 5) \<and>
   fst ((\<lambda>callback st. st) (OS_CleanUpObject example_delete_env) (0, empty_world 0)) = 0 \<and>
   DeleteAllObjects_loop (\<lambda>callback st. st) example_delete_env (\<lambda>ms w. w) 0 (empty_world 0) =
     (0, 1, empty_world 0) \<and>
   OS_DeleteAllObjects (\<lambda>callback st. st) example_delete_env (\<lambda>ms w. w) (empty_world 0) =
     Some (empty_world 0)"
  using OS_DeleteAllObjects_terminates[of example_ForEachObject example_delete_env "\<lambda>ms w. w"
          "empty_world 0"]
        OS_DeleteAllObjects_terminates[of "\<lambda>callback st. st" example_delete_env "\<lambda>ms w. w"
          "empty_world 0"]
  by (simp add: example_loop example_loop_empty example_retries example_pass')

section \<open>Initialisation is rejected the second time\<close>

lemma keeps_Initialized_snd:
  "keeps_Initialized f \<Longrightarrow>
   Initialized (OS_SharedGlobalVars (snd (f w))) = Initialized (OS_SharedGlobalVars w)"
  by (simp add: keeps_Initialized_def)

lemma keeps_Initialized_wrappers:
  "keeps_Initialized OS_QueueAPI_Init" "keeps_Initialized OS_BinSemAPI_Init"
  "keeps_Initialized OS_TimeBaseAPI_Init" "keeps_Initialized OS_FileSysAPI_Init"
  by (simp_all add: keeps_Initialized_def OS_QueueAPI_Init_def OS_BinSemAPI_Init_def
      OS_TimeBaseAPI_Init_def OS_FileSysAPI_Init_def)

lemma API_Init_switch_keeps:
  assumes "env_keeps_Initialized env"
  shows "Initialized (OS_SharedGlobalVars (snd (API_Init_switch env idtype st))) =
         Initialized (OS_SharedGlobalVars (snd st))"
proof -
  have k: "keeps_Initialized (OS_TaskAPI_Init env)" "keeps_Initialized (OS_CountSemAPI_Init env)"
    "keeps_Initialized (OS_MutexAPI_Init env)" "keeps_Initialized (OS_ModuleAPI_Init env)"
    "keeps_Initialized (OS_TimerCbAPI_Init env)" "keeps_Initialized (OS_FileAPI_Init env)"
    "keeps_Initialized (OS_DirAPI_Init env)" "keeps_Initialized (OS_ConsoleAPI_Init env)"
    using assms by (simp_all add: env_keeps_Initialized_def)
  show ?thesis
    by (cases st)
       (simp add: API_Init_switch_def k[THEN keeps_Initialized_snd]
          keeps_Initialized_wrappers[THEN keeps_Initialized_snd])
qed

lemma API_Init_loop_keeps:
  assumes env: "env_keeps_Initialized env"
  shows "Initialized (OS_SharedGlobalVars (snd (API_Init_loop env idtype st))) =
         Initialized (OS_SharedGlobalVars (snd st))"
  using env
proof (induction env idtype st rule: API_Init_loop.induct)
  case (1 env idtype return_code w)
  note unf = API_Init_loop.simps[of env idtype return_code w]
  have ki: "keeps_Initialized (OS_API_Impl_Init env idtype)"
    using "1.prems" by (simp add: env_keeps_Initialized_def)
  show ?case
  proof (cases "idtype < OS_OBJECT_TYPE_USER")
    case False
    then show ?thesis by (simp add: unf)
  next
    case lt: True
    obtain rc1 w1 where i1: "OS_API_Impl_Init env idtype w = (rc1, w1)"
      by (cases "OS_API_Impl_Init env idtype w") auto
    have k1: "Initialized (OS_SharedGlobalVars w1) = Initialized (OS_SharedGlobalVars w)"
      using keeps_Initialized_snd[OF ki, of w] i1 by simp
    show ?thesis
    proof (cases "rc1 = OS_SUCCESS")
      case False
      then show ?thesis using lt i1 k1 by (simp add: unf)
    next
      case ok1: True
      obtain rc2 w2 where i2: "API_Init_switch env idtype (rc1, w1) = (rc2, w2)"
        by (cases "API_Init_switch env idtype (rc1, w1)") auto
      have k2: "Initialized (OS_SharedGlobalVars w2) = Initialized (OS_SharedGlobalVars w1)"
        using API_Init_switch_keeps[OF "1.prems", of idtype "(rc1, w1)"] i2 by simp
      show ?thesis
      proof (cases "rc2 = OS_SUCCESS")
        case False
        then show ?thesis using lt i1 i2 ok1 k1 k2 by (simp add: unf)
      next
        case ok2: True
        have "Initialized (OS_SharedGlobalVars (snd (API_Init_loop env (idtype + 1) (rc2, w2)))) =
              Initialized (OS_SharedGlobalVars w2)"
          using "1.IH"[OF lt i1[symmetric] refl _ i2[symmetric] refl _ "1.prems"] ok1 ok2 by simp
        then show ?thesis using lt i1 i2 ok1 ok2 k1 k2 by (simp add: unf)
      qed
    qed
  qed
qed

lemma keeps_Initialized_cond:
  "keeps_Initialized f \<Longrightarrow>
   Initialized (OS_SharedGlobalVars (snd (if c then f (snd p) else p))) =
   Initialized (OS_SharedGlobalVars (snd p))"
  by (simp add: keeps_Initialized_def)

lemma OS_API_Init_unfold:
  "OS_API_Init env w =
     (if Initialized (OS_SharedGlobalVars w) then (OS_ERROR, w)
      else if fst (OS_ObjectIdInit env
                     (w\<lparr>OS_SharedGlobalVars := (OS_SharedGlobalVars w)\<lparr>Initialized := True\<rparr>\<rparr>))
              \<noteq> OS_SUCCESS
      then OS_ObjectIdInit env
             (w\<lparr>OS_SharedGlobalVars := (OS_SharedGlobalVars w)\<lparr>Initialized := True\<rparr>\<rparr>)
      else
        (let L = API_Init_loop env 0
                   (OS_ObjectIdInit env
                      (w\<lparr>OS_SharedGlobalVars := (OS_SharedGlobalVars w)\<lparr>Initialized := True\<rparr>\<rparr>));
             N = (if fst L = OS_SUCCESS then OS_NetworkAPI_Init env (snd L) else L);
             K = (if fst N = OS_SUCCESS then OS_SocketAPI_Init env (snd N) else N)
         in (if fst K = OS_SUCCESS \<and>
                (MicroSecPerTick (OS_SharedGlobalVars (snd K)) = 0 \<or>
                 TicksPerSecond (OS_SharedGlobalVars (snd K)) = 0)
             then OS_ERROR else fst K, snd K)))"
  unfolding OS_API_Init_def Let_def split_beta
  by (simp cong: if_cong)

lemma OS_API_Init_sets_Initialized:
  assumes env: "env_keeps_Initialized env" and fresh: "\<not> Initialized (OS_SharedGlobalVars w)"
  shows "Initialized (OS_SharedGlobalVars (snd (OS_API_Init env w)))"
proof -
  define I where "I = OS_ObjectIdInit env
     (w\<lparr>OS_SharedGlobalVars := (OS_SharedGlobalVars w)\<lparr>Initialized := True\<rparr>\<rparr>)"
  define L where "L = API_Init_loop env 0 I"
  define N where "N = (if fst L = OS_SUCCESS then OS_NetworkAPI_Init env (snd L) else L)"
  define K where "K = (if fst N = OS_SUCCESS then OS_SocketAPI_Init env (snd N) else N)"
  have k: "keeps_Initialized (OS_ObjectIdInit env)" "keeps_Initialized (OS_NetworkAPI_Init env)"
    "keeps_Initialized (OS_SocketAPI_Init env)"
    using env by (simp_all add: env_keeps_Initialized_def)
  have i: "Initialized (OS_SharedGlobalVars (snd I))"
    unfolding I_def using k(1) by (simp add: keeps_Initialized_def)
  have l: "Initialized (OS_SharedGlobalVars (snd L))"
    unfolding L_def using API_Init_loop_keeps[OF env, of 0 I] i by simp
  have n: "Initialized (OS_SharedGlobalVars (snd N))"
    unfolding N_def using keeps_Initialized_cond[OF k(2), of "fst L = OS_SUCCESS" L] l
    by (simp only:)
  have kk: "Initialized (OS_SharedGlobalVars (snd K))"
    unfolding K_def using keeps_Initialized_cond[OF k(3), of "fst N = OS_SUCCESS" N] n
    by (simp only:)
  have u: "OS_API_Init env w =
     (if fst I \<noteq> OS_SUCCESS then I
      else (if fst K = OS_SUCCESS \<and>
                (MicroSecPerTick (OS_SharedGlobalVars (snd K)) = 0 \<or>
                 TicksPerSecond (OS_SharedGlobalVars (snd K)) = 0)
             then OS_ERROR else fst K, snd K))"
    using fresh unfolding OS_API_Init_unfold[of env w] Let_def I_def L_def N_def K_def
    by (simp only: if_False)
  show ?thesis
  proof (cases "fst I = OS_SUCCESS")
    case False
    then show ?thesis using i by (simp only: u if_True not_False_eq_True)
  next
    case True
    then have "snd (OS_API_Init env w) = snd K"
      by (simp add: u)
    then show ?thesis using kk by (simp only:)
  qed
qed

lemma OS_API_Init_already:
  "Initialized (OS_SharedGlobalVars w) \<Longrightarrow> OS_API_Init env w = (OS_ERROR, w)"
  by (simp add: OS_API_Init_def)

lemma example_init_env_keeps: "env_keeps_Initialized example_init_env"
  by (simp add: env_keeps_Initialized_def keeps_Initialized_def example_init_env_def)

lemma example_init_eval:
  "fst (OS_API_Init example_init_env (empty_world 0)) = OS_SUCCESS"
  "platform (snd (OS_API_Init example_init_env (empty_world 0))) = 16"
  by (simp_all add: OS_API_Init_def API_Init_loop.simps API_Init_switch_def example_init_env_def
      empty_world_def OS_SharedGlobalVars_init_def OS_OBJECT_TYPE_USER_def
      OS_QueueAPI_Init_def OS_BinSemAPI_Init_def OS_TimeBaseAPI_Init_def OS_FileSysAPI_Init_def
      OS_OBJECT_TYPE_OS_TASK_def OS_OBJECT_TYPE_OS_QUEUE_def OS_OBJECT_TYPE_OS_BINSEM_def
      OS_OBJECT_TYPE_OS_COUNTSEM_def OS_OBJECT_TYPE_OS_MUTEX_def OS_OBJECT_TYPE_OS_MODULE_def
      OS_OBJECT_TYPE_OS_TIMEBASE_def OS_OBJECT_TYPE_OS_TIMECB_def OS_OBJECT_TYPE_OS_STREAM_def
      OS_OBJECT_TYPE_OS_DIR_def OS_OBJECT_TYPE_OS_FILESYS_def OS_OBJECT_TYPE_OS_CONSOLE_def)
lemma empty_world_fresh: "\<not> Initialized (OS_SharedGlobalVars (empty_world p))"
  by (simp add: empty_world_def OS_SharedGlobalVars_init_def)

text \<open>
  Claim C7.  If the \<open>Initialized\<close> flag is already set, \<open>OS_API_Init\<close> returns
  \<open>OS_ERROR\<close> and the global state is exactly as before: no routine of the identifier
  manager, of the platform adapter or of the shared-layer modules has run.  On a state
  where the flag is clear the call sets it (the routines it calls do not write the flag),
  so that a second call is rejected with \<open>OS_ERROR\<close> and changes nothing.
\<close>

theorem OS_API_Init_rejects_second_call:
  "(Initialized (OS_SharedGlobalVars w) \<longrightarrow> OS_API_Init env w = (OS_ERROR, w)) \<and>
   (\<not> Initialized (OS_SharedGlobalVars w) \<and> env_keeps_Initialized env \<longrightarrow>
      Initialized (OS_SharedGlobalVars (snd (OS_API_Init env w))) \<and>
      OS_API_Init env (snd (OS_API_Init env w)) = (OS_ERROR, snd (OS_API_Init env w)))"
proof (intro conjI impI)
  assume "Initialized (OS_SharedGlobalVars w)"
  then show "OS_API_Init env w = (OS_ERROR, w)" by (rule OS_API_Init_already)
next
  assume a: "\<not> Initialized (OS_SharedGlobalVars w) \<and> env_keeps_Initialized env"
  then show "Initialized (OS_SharedGlobalVars (snd (OS_API_Init env w)))"
    using OS_API_Init_sets_Initialized[of env w] by blast
  then show "OS_API_Init env (snd (OS_API_Init env w)) = (OS_ERROR, snd (OS_API_Init env w))"
    by (rule OS_API_Init_already)
qed

theorem OS_API_Init_rejects_second_call_witness:
  "\<not> Initialized (OS_SharedGlobalVars (empty_world 0)) \<and>
   env_keeps_Initialized example_init_env \<and>
   fst (OS_API_Init example_init_env (empty_world 0)) = OS_SUCCESS \<and>
   platform (snd (OS_API_Init example_init_env (empty_world 0))) = 16 \<and>
   Initialized (OS_SharedGlobalVars (snd (OS_API_Init example_init_env (empty_world 0)))) \<and>
   OS_API_Init example_init_env (snd (OS_API_Init example_init_env (empty_world 0))) =
     (OS_ERROR, snd (OS_API_Init example_init_env (empty_world 0)))"
  using OS_API_Init_rejects_second_call[of "empty_world 0" example_init_env]
  by (simp add: example_init_env_keeps example_init_eval empty_world_fresh)

section \<open>The free-running counter of a time base\<close>

lemma timecb_ring_walk_keeps_timebase:
  assumes "timecb_ring_walk tick_time timer_id curr_cb_local_id st = Some st'"
  shows "OS_timebase_table (fst st') = OS_timebase_table (fst st) \<and>
         OS_global_timebase_table (fst st') = OS_global_timebase_table (fst st)"
proof (rule timecb_ring_walk.raw_induct
         [where P = "\<lambda>tick_time timer_id curr_cb_local_id st st'.
                       OS_timebase_table (fst st') = OS_timebase_table (fst st) \<and>
                       OS_global_timebase_table (fst st') = OS_global_timebase_table (fst st)",
          OF _ assms], goal_cases)
  case (1 walk tick_time timer_id curr_cb_local_id st st')
  let ?i = "unat curr_cb_local_id"
  let ?r = "timecb_tick tick_time (active_id (OS_global_timecb_table (fst st) ! ?i))
              (OS_timecb_table (fst st) ! ?i, snd st)"
  let ?w' = "(fst st)\<lparr>OS_timecb_table := (OS_timecb_table (fst st))[?i := fst ?r]\<rparr>"
  from 1(2) have rng: "?i < length (OS_timecb_table (fst st)) \<and>
                       ?i < length (OS_global_timecb_table (fst st))"
    by (auto simp add: Let_def split: if_splits)
  show ?case
  proof (cases "next_ref (fst ?r) \<noteq> timer_id")
    case True
    with 1(2) rng have "walk tick_time timer_id (next_ref (fst ?r)) (?w', snd ?r) = Some st'"
      by (simp add: Let_def split_beta)
    from 1(1)[OF this] show ?thesis by simp
  next
    case False
    with 1(2) rng have "st' = (?w', snd ?r)" by (simp add: Let_def split_beta)
    then show ?thesis by simp
  qed
qed

lemma OS_TimeBase_tick_freerun:
  assumes "OS_TimeBase_tick timebase_id local_id tick_time st = Some (b, w', calls')"
  shows "OS_global_timebase_table w' = OS_global_timebase_table (fst st) \<and>
         (if OS_ObjectIdEqual timebase_id (active_id (OS_global_timebase_table (fst st) ! local_id))
          then b \<and> OS_timebase_table w' =
                 (OS_timebase_table (fst st))
                   [local_id := (OS_timebase_table (fst st) ! local_id)
                      \<lparr>freerun_time := freerun_time (OS_timebase_table (fst st) ! local_id) + tick_time\<rparr>]
          else \<not> b \<and> w' = fst st)"
proof (cases "OS_ObjectIdEqual timebase_id (active_id (OS_global_timebase_table (fst st) ! local_id))")
  case False
  then show ?thesis using assms by (auto simp add: OS_TimeBase_tick_def split_beta)
next
  case True
  show ?thesis
    using assms True
    by (auto simp add: OS_TimeBase_tick_def split_beta Let_def tick_freerun_def
             split: if_splits option.splits
             dest!: timecb_ring_walk_keeps_timebase)
qed


lemma CallbackThread_loop_freerun:
  assumes "CallbackThread_loop TaskDelay_Impl timebase_id local_id ticks spin_cycles st = Some st'"
      and "OS_ObjectIdEqual timebase_id (active_id (OS_global_timebase_table (fst st) ! local_id))"
  shows "OS_global_timebase_table (fst st') = OS_global_timebase_table (fst st) \<and>
         OS_timebase_table (fst st') =
           (OS_timebase_table (fst st))
             [local_id := (OS_timebase_table (fst st) ! local_id)
                \<lparr>freerun_time := freerun_time (OS_timebase_table (fst st) ! local_id) + sum_list ticks\<rparr>]"
  using assms
proof (induction ticks arbitrary: spin_cycles st)
  case Nil
  then show ?case by simp
next
  case (Cons tick_time ticks)
  define st1 where "st1 =
     (if tick_time \<noteq> 0 then st
      else if spin_cycles < OS_TIMEBASE_SPIN_LIMIT then st
      else ((fst st)\<lparr>platform := TaskDelay_Impl 10 (platform (fst st))\<rparr>, snd st))"
  define sp where "sp =
     (if tick_time \<noteq> 0 then 0
      else if spin_cycles < OS_TIMEBASE_SPIN_LIMIT then spin_cycles + 1
      else (if spin_cycles = OS_TIMEBASE_SPIN_LIMIT then spin_cycles + 1 else spin_cycles))"
  have g1: "OS_global_timebase_table (fst st1) = OS_global_timebase_table (fst st)"
    and t1: "OS_timebase_table (fst st1) = OS_timebase_table (fst st)"
    by (simp_all add: st1_def)
  have unf: "CallbackThread_loop TaskDelay_Impl timebase_id local_id (tick_time # ticks) spin_cycles st =
     (case OS_TimeBase_tick timebase_id local_id tick_time st1 of
        None \<Rightarrow> None
      | Some (False, st2) \<Rightarrow> Some st2
      | Some (True, st2) \<Rightarrow> CallbackThread_loop TaskDelay_Impl timebase_id local_id ticks sp st2)"
    unfolding st1_def sp_def by simp
  obtain b w2 c2 where tk: "OS_TimeBase_tick timebase_id local_id tick_time st1 = Some (b, w2, c2)"
    using Cons.prems(1) unfolding unf by (auto split: option.splits)
  have eq: "OS_ObjectIdEqual timebase_id (active_id (OS_global_timebase_table (fst st1) ! local_id))"
    using Cons.prems(2) g1 by simp
  from OS_TimeBase_tick_freerun[OF tk] eq
  have b: "b" and g2: "OS_global_timebase_table w2 = OS_global_timebase_table (fst st)"
    and t2: "OS_timebase_table w2 =
             (OS_timebase_table (fst st))
               [local_id := (OS_timebase_table (fst st) ! local_id)
                  \<lparr>freerun_time := freerun_time (OS_timebase_table (fst st) ! local_id) + tick_time\<rparr>]"
    by (simp_all add: g1 t1)
  have rest: "CallbackThread_loop TaskDelay_Impl timebase_id local_id ticks sp (w2, c2) = Some st'"
    using Cons.prems(1) tk b unfolding unf by simp
  have eq2: "OS_ObjectIdEqual timebase_id (active_id (OS_global_timebase_table (fst (w2, c2)) ! local_id))"
    using Cons.prems(2) g2 by simp
  from Cons.IH[OF rest eq2]
  have r: "OS_global_timebase_table (fst st') = OS_global_timebase_table w2"
    "OS_timebase_table (fst st') =
       (OS_timebase_table w2)
         [local_id := (OS_timebase_table w2 ! local_id)
            \<lparr>freerun_time := freerun_time (OS_timebase_table w2 ! local_id) + sum_list ticks\<rparr>]"
    by simp_all
  show ?case
  proof (cases "local_id < length (OS_timebase_table (fst st))")
    case True
    then show ?thesis using r g2 by (simp add: t2 add.assoc)
  next
    case False
    then have "length (OS_timebase_table (fst st)) \<le> local_id" by simp
    then show ?thesis using r g2 by (simp add: t2 list_update_beyond)
  qed
qed

lemma unat_sum_list_mod:
  "unat (r + sum_list ticks :: uint32) = (unat r + sum_list (map unat ticks)) mod 2 ^ 32"
proof (induction ticks arbitrary: r)
  case Nil
  have "unat r < 2 ^ LENGTH(32)" by (rule unsigned_less)
  then show ?case by simp
next
  case (Cons t ticks)
  have "unat (r + (t + sum_list ticks)) = unat ((r + t) + sum_list ticks)"
    by (simp add: add.assoc)
  also have "\<dots> = (unat (r + t) + sum_list (map unat ticks)) mod 2 ^ 32" by (rule Cons.IH)
  also have "unat (r + t) = (unat r + unat t) mod 2 ^ 32" by (simp add: unat_word_ariths)
  also have "((unat r + unat t) mod 2 ^ 32 + sum_list (map unat ticks)) mod 2 ^ 32 =
             (unat r + unat t + sum_list (map unat ticks)) mod 2 ^ 32"
    by (rule mod_add_left_eq)
  finally show ?case by (simp add: add.assoc)
qed


lemma CallbackThread_loop_prefix:
  assumes "CallbackThread_loop TaskDelay_Impl timebase_id local_id (xs @ ys) spin_cycles st = Some st'"
      and "OS_ObjectIdEqual timebase_id (active_id (OS_global_timebase_table (fst st) ! local_id))"
  shows "\<exists>st1. CallbackThread_loop TaskDelay_Impl timebase_id local_id xs spin_cycles st = Some st1"
  using assms
proof (induction xs arbitrary: spin_cycles st)
  case Nil
  show ?case by simp
next
  case (Cons tick_time ticks)
  define st1 where "st1 =
     (if tick_time \<noteq> 0 then st
      else if spin_cycles < OS_TIMEBASE_SPIN_LIMIT then st
      else ((fst st)\<lparr>platform := TaskDelay_Impl 10 (platform (fst st))\<rparr>, snd st))"
  define sp where "sp =
     (if tick_time \<noteq> 0 then 0
      else if spin_cycles < OS_TIMEBASE_SPIN_LIMIT then spin_cycles + 1
      else (if spin_cycles = OS_TIMEBASE_SPIN_LIMIT then spin_cycles + 1 else spin_cycles))"
  have g1: "OS_global_timebase_table (fst st1) = OS_global_timebase_table (fst st)"
    by (simp add: st1_def)
  have unf: "\<And>zs. CallbackThread_loop TaskDelay_Impl timebase_id local_id (tick_time # zs) spin_cycles st =
     (case OS_TimeBase_tick timebase_id local_id tick_time st1 of
        None \<Rightarrow> None
      | Some (False, st2) \<Rightarrow> Some st2
      | Some (True, st2) \<Rightarrow> CallbackThread_loop TaskDelay_Impl timebase_id local_id zs sp st2)"
    unfolding st1_def sp_def by simp
  have p: "CallbackThread_loop TaskDelay_Impl timebase_id local_id (tick_time # (ticks @ ys)) spin_cycles st
             = Some st'"
    using Cons.prems(1) by simp
  obtain b w2 c2 where tk: "OS_TimeBase_tick timebase_id local_id tick_time st1 = Some (b, w2, c2)"
    using p unfolding unf by (auto split: option.splits)
  have eq: "OS_ObjectIdEqual timebase_id (active_id (OS_global_timebase_table (fst st1) ! local_id))"
    using Cons.prems(2) g1 by simp
  from OS_TimeBase_tick_freerun[OF tk] eq
  have b: "b" and g2: "OS_global_timebase_table w2 = OS_global_timebase_table (fst st)"
    by (simp_all add: g1)
  have rest: "CallbackThread_loop TaskDelay_Impl timebase_id local_id (ticks @ ys) sp (w2, c2) = Some st'"
    using p tk b unfolding unf by simp
  have eq2: "OS_ObjectIdEqual timebase_id (active_id (OS_global_timebase_table (fst (w2, c2)) ! local_id))"
    using Cons.prems(2) g2 by simp
  from Cons.IH[OF rest eq2] obtain st3 where
    "CallbackThread_loop TaskDelay_Impl timebase_id local_id ticks sp (w2, c2) = Some st3" by blast
  then show ?case using tk b by (simp only: unf) simp
qed

lemma sum_list_take_mono:
  "m \<le> n \<Longrightarrow> sum_list (take m (xs :: nat list)) \<le> sum_list (take n xs)"
proof -
  assume mn: "m \<le> n"
  have "take (m + (n - m)) xs = take m xs @ take (n - m) (drop m xs)" by (rule take_add)
  then have "take n xs = take m xs @ take (n - m) (drop m xs)" using mn by simp
  then show ?thesis by simp
qed

lemma example_timebase_tick:
  "OS_TimeBase_tick 0x80001 (Suc 0) t (example_timebase_at r, c) =
     Some (True, example_timebase_at (r + t), c)"
  by (simp add: OS_TimeBase_tick_def example_timebase_at_def example_timebase_world_def
      example_eval tick_freerun_def OS_ObjectIdEqual_def OS_OBJECT_TYPE_OS_TIMECB_def
      zero_timebase_record_def Let_def)

lemma example_timebase_platform:
  "(example_timebase_at r)\<lparr>platform := platform (example_timebase_at r)\<rparr> = example_timebase_at r"
  by simp

lemma example_timebase_loop:
  "CallbackThread_loop (\<lambda>ms p. p) 0x80001 (Suc 0) ticks spin_cycles (example_timebase_at r, []) =
     Some (example_timebase_at (r + sum_list ticks), [])"
proof (induction ticks arbitrary: spin_cycles r)
  case Nil
  show ?case by simp
next
  case (Cons t ticks)
  show ?case
    by (simp add: example_timebase_tick Cons.IH add.assoc)
qed

lemma example_timebase_thread:
  "OS_TimeBase_CallbackThread (\<lambda>ms p. p) ticks 0x80001 (example_timebase_at r) =
     Some (example_timebase_at (r + sum_list ticks), [])"
proof -
  have "OS_ObjectIdGetById OS_LOCK_MODE_GLOBAL OS_OBJECT_TYPE_OS_TIMEBASE 0x80001
          (OS_global_timebase_table (example_timebase_at r)) =
        (OS_SUCCESS, Suc 0, OS_global_timebase_table (example_timebase_at r))"
    by (simp add: example_timebase_at_def example_timebase_world_def example_eval
        OS_OBJECT_TYPE_OS_TIMEBASE_def mod_two_slots)
  then show ?thesis
    by (simp add: OS_TimeBase_CallbackThread_def example_timebase_loop)
qed

lemma example_timebase_freerun:
  "OS_TimeBaseGetFreeRun 0x80001 v (example_timebase_at r) = (OS_SUCCESS, r, example_timebase_at r)"
proof -
  have "OS_ObjectIdGetById OS_LOCK_MODE_NONE OS_OBJECT_TYPE_OS_TIMEBASE 0x80001
          (OS_global_timebase_table (example_timebase_at r)) =
        (OS_SUCCESS, Suc 0, OS_global_timebase_table (example_timebase_at r))"
    by (simp add: example_timebase_at_def example_timebase_world_def example_eval
        OS_OBJECT_TYPE_OS_TIMEBASE_def mod_two_slots)
  then show ?thesis
    by (simp add: OS_TimeBaseGetFreeRun_def) (simp add: example_timebase_at_def)
qed

lemma example_timebase_lengths:
  "length (OS_timebase_table (example_timebase_at r)) =
   length (OS_global_timebase_table (example_timebase_at r))"
  by (simp add: example_timebase_at_def example_timebase_world_def)

lemma example_wrapped_sum: "(4294967297 :: uint32) = 1"
  by simp

lemma example_timer_freerun:
  "OS_TimeBaseGetFreeRun 0x80001 v (example_timer_world r b wt it) =
     (OS_SUCCESS, r, example_timer_world r b wt it)"
proof -
  have "OS_ObjectIdGetById OS_LOCK_MODE_NONE OS_OBJECT_TYPE_OS_TIMEBASE 0x80001
          (OS_global_timebase_table (example_timer_world r b wt it)) =
        (OS_SUCCESS, Suc 0, OS_global_timebase_table (example_timer_world r b wt it))"
    by (simp add: example_timer_world_def example_eval OS_OBJECT_TYPE_OS_TIMEBASE_def mod_two_slots)
  then show ?thesis
    by (simp add: OS_TimeBaseGetFreeRun_def) (simp add: example_timer_world_def)
qed

lemma example_timer_lengths:
  "length (OS_timebase_table (example_timer_world r b wt it)) =
   length (OS_global_timebase_table (example_timer_world r b wt it))"
  by (simp add: example_timer_world_def)

text \<open>
  Claim C8, as amended.  Let the servicing thread of a live time base process the tick
  values \<open>ticks\<close> that its sync function returns, one after the other, and return
  from each of them.  Then after every number \<open>n\<close> of processed ticks the value that
  \<open>OS_TimeBaseGetFreeRun\<close> reads back is the value \<open>r0\<close> it read before the first
  of them plus the sum of the first \<open>n\<close> tick values in 32-bit unsigned arithmetic,
  that is, modulo \<open>2^32\<close>.  As long as \<open>r0\<close> plus the sum of all tick values stays below \<open>2^32\<close>,
  the value read back is that exact sum and it never decreases from one processed tick to
  a later one.
\<close>

theorem freerun_time_is_wrapping_sum:
  assumes "OS_TimeBase_CallbackThread TaskDelay_Impl ticks timebase_id w = Some (w', calls)"
      and "length (OS_timebase_table w) = length (OS_global_timebase_table w)"
      and "OS_TimeBaseGetFreeRun timebase_id v w = (OS_SUCCESS, r0, w)"
  shows "(\<forall>n\<le>length ticks. \<exists>wn cn.
            OS_TimeBase_CallbackThread TaskDelay_Impl (take n ticks) timebase_id w = Some (wn, cn) \<and>
            OS_TimeBaseGetFreeRun timebase_id v wn = (OS_SUCCESS, r0 + sum_list (take n ticks), wn) \<and>
            unat (r0 + sum_list (take n ticks)) =
              (unat r0 + sum_list (map unat (take n ticks))) mod 2 ^ 32) \<and>
         OS_TimeBaseGetFreeRun timebase_id v w' = (OS_SUCCESS, r0 + sum_list ticks, w') \<and>
         (unat r0 + sum_list (map unat ticks) < 2 ^ 32 \<longrightarrow>
            (\<forall>n\<le>length ticks.
               unat (r0 + sum_list (take n ticks)) = unat r0 + sum_list (map unat (take n ticks))) \<and>
            (\<forall>m n. m \<le> n \<and> n \<le> length ticks \<longrightarrow>
               r0 + sum_list (take m ticks) \<le> r0 + sum_list (take n ticks)))"
proof -
  let ?G = "OS_global_timebase_table w"
  let ?l = "snd (OS_ObjectIdToArrayIndex OS_OBJECT_TYPE_OS_TIMEBASE timebase_id (length ?G))"
  have look: "OS_ObjectIdGetById OS_LOCK_MODE_NONE OS_OBJECT_TYPE_OS_TIMEBASE timebase_id ?G =
                (OS_SUCCESS, ?l, ?G)"
    using assms(3)
    by (auto simp add: OS_TimeBaseGetFreeRun_def OS_ObjectIdGetById_NONE_iff split_beta Let_def
             split: if_splits)
  have r0: "r0 = freerun_time (OS_timebase_table w ! ?l)"
    using assms(3) by (simp add: OS_TimeBaseGetFreeRun_def look)
  from OS_ObjectIdGetById_ok[OF look]
  have rng: "?l < length ?G" and act: "active_id (?G ! ?l) = timebase_id" by simp_all
  have wid: "w\<lparr>OS_global_timebase_table := ?G\<rparr> = w" by simp
  have thr: "\<And>zs. OS_TimeBase_CallbackThread TaskDelay_Impl zs timebase_id w =
                CallbackThread_loop TaskDelay_Impl timebase_id ?l zs 0 (w, [])"
    by (simp add: OS_TimeBase_CallbackThread_def OS_ObjectIdGetById_GLOBAL_iff look)
  have eq: "OS_ObjectIdEqual timebase_id (active_id (OS_global_timebase_table (fst (w, [])) ! ?l))"
    using act by (simp add: OS_ObjectIdEqual_def)
  have after: "\<And>zs wz cz. CallbackThread_loop TaskDelay_Impl timebase_id ?l zs 0 (w, []) = Some (wz, cz)
                 \<Longrightarrow> OS_TimeBaseGetFreeRun timebase_id v wz = (OS_SUCCESS, r0 + sum_list zs, wz)"
  proof -
    fix zs wz cz
    assume l: "CallbackThread_loop TaskDelay_Impl timebase_id ?l zs 0 (w, []) = Some (wz, cz)"
    from CallbackThread_loop_freerun[OF l eq]
    have g: "OS_global_timebase_table wz = ?G"
      and t: "OS_timebase_table wz =
                (OS_timebase_table w)[?l := (OS_timebase_table w ! ?l)\<lparr>freerun_time := r0 + sum_list zs\<rparr>]"
      by (simp_all add: r0)
    have "wz\<lparr>OS_global_timebase_table := ?G\<rparr> = wz" by (simp add: g[symmetric])
    then show "OS_TimeBaseGetFreeRun timebase_id v wz = (OS_SUCCESS, r0 + sum_list zs, wz)"
      using rng assms(2) by (simp add: OS_TimeBaseGetFreeRun_def g look t)
  qed
  have pre: "\<forall>n\<le>length ticks. \<exists>wn cn.
            OS_TimeBase_CallbackThread TaskDelay_Impl (take n ticks) timebase_id w = Some (wn, cn) \<and>
            OS_TimeBaseGetFreeRun timebase_id v wn = (OS_SUCCESS, r0 + sum_list (take n ticks), wn) \<and>
            unat (r0 + sum_list (take n ticks)) =
              (unat r0 + sum_list (map unat (take n ticks))) mod 2 ^ 32"
  proof (intro allI impI)
    fix n assume "n \<le> length ticks"
    have "CallbackThread_loop TaskDelay_Impl timebase_id ?l (take n ticks @ drop n ticks) 0 (w, []) =
            Some (w', calls)"
      using assms(1) by (simp add: thr)
    from CallbackThread_loop_prefix[OF this eq] obtain wn cn where
      l: "CallbackThread_loop TaskDelay_Impl timebase_id ?l (take n ticks) 0 (w, []) = Some (wn, cn)"
      by (cases rule: prod.exhaust) auto
    show "\<exists>wn cn.
            OS_TimeBase_CallbackThread TaskDelay_Impl (take n ticks) timebase_id w = Some (wn, cn) \<and>
            OS_TimeBaseGetFreeRun timebase_id v wn = (OS_SUCCESS, r0 + sum_list (take n ticks), wn) \<and>
            unat (r0 + sum_list (take n ticks)) =
              (unat r0 + sum_list (map unat (take n ticks))) mod 2 ^ 32"
      using l after[OF l] unat_sum_list_mod[of r0 "take n ticks"] by (simp add: thr)
  qed
  have fin: "OS_TimeBaseGetFreeRun timebase_id v w' = (OS_SUCCESS, r0 + sum_list ticks, w')"
    using assms(1) after[of ticks w' calls] by (simp add: thr)
  have nowrap: "unat r0 + sum_list (map unat ticks) < 2 ^ 32 \<longrightarrow>
            (\<forall>n\<le>length ticks.
               unat (r0 + sum_list (take n ticks)) = unat r0 + sum_list (map unat (take n ticks))) \<and>
            (\<forall>m n. m \<le> n \<and> n \<le> length ticks \<longrightarrow>
               r0 + sum_list (take m ticks) \<le> r0 + sum_list (take n ticks))"
  proof
    assume nw: "unat r0 + sum_list (map unat ticks) < 2 ^ 32"
    have le: "\<And>n. sum_list (map unat (take n ticks)) \<le> sum_list (map unat ticks)"
    proof -
      fix n
      have "sum_list (map unat ticks) =
              sum_list (map unat (take n ticks)) + sum_list (map unat (drop n ticks))"
        by (metis append_take_drop_id map_append sum_list_append)
      then show "sum_list (map unat (take n ticks)) \<le> sum_list (map unat ticks)"
        by simp
    qed
    have ex: "\<And>n. unat (r0 + sum_list (take n ticks)) = unat r0 + sum_list (map unat (take n ticks))"
    proof -
      fix n
      have "unat r0 + sum_list (map unat (take n ticks)) < 2 ^ 32" using le[of n] nw by simp
      then show "unat (r0 + sum_list (take n ticks)) = unat r0 + sum_list (map unat (take n ticks))"
        by (simp add: unat_sum_list_mod)
    qed
    have mono: "\<And>m n. m \<le> n \<Longrightarrow> r0 + sum_list (take m ticks) \<le> r0 + sum_list (take n ticks)"
    proof -
      fix m n :: nat assume "m \<le> n"
      then have "sum_list (take m (map unat ticks)) \<le> sum_list (take n (map unat ticks))"
        by (rule sum_list_take_mono)
      then show "r0 + sum_list (take m ticks) \<le> r0 + sum_list (take n ticks)"
        by (simp add: word_le_nat_alt ex take_map)
    qed
    show "(\<forall>n\<le>length ticks.
               unat (r0 + sum_list (take n ticks)) = unat r0 + sum_list (map unat (take n ticks))) \<and>
            (\<forall>m n. m \<le> n \<and> n \<le> length ticks \<longrightarrow>
               r0 + sum_list (take m ticks) \<le> r0 + sum_list (take n ticks))"
      using ex mono by blast
  qed
  show ?thesis using pre fin nowrap by blast
qed


theorem freerun_time_is_wrapping_sum_witness:
  "OS_TimeBase_CallbackThread (\<lambda>ms p. p) [1000, 0, 2000] 0x80001 (example_timebase_at 5000) =
     Some (example_timebase_at 8000, []) \<and>
   OS_TimeBaseGetFreeRun 0x80001 0 (example_timebase_at 5000) =
     (OS_SUCCESS, 5000, example_timebase_at 5000) \<and>
   OS_TimeBaseGetFreeRun 0x80001 0 (example_timebase_at 8000) =
     (OS_SUCCESS, 5000 + sum_list [1000, 0, 2000], example_timebase_at 8000) \<and>
   unat (5000 :: uint32) + sum_list (map unat [1000, 0, 2000 :: uint32]) < 2 ^ 32 \<and>
   (5000 :: uint32) + sum_list (take 1 [1000, 0, 2000]) \<le> 5000 + sum_list (take 3 [1000, 0, 2000]) \<and>
   OS_TimeBase_CallbackThread (\<lambda>ms p. p) [5000] 0x80001 (example_timer_world 0 0 1000 1000) =
     Some (example_timer_world 5000 1 1000 1000,
           [(7, 0x90001, 42), (7, 0x90001, 42), (7, 0x90001, 42)]) \<and>
   OS_TimeBaseGetFreeRun 0x80001 0 (example_timer_world 0 0 1000 1000) =
     (OS_SUCCESS, 0, example_timer_world 0 0 1000 1000) \<and>
   OS_TimeBaseGetFreeRun 0x80001 0 (example_timer_world 5000 1 1000 1000) =
     (OS_SUCCESS, 0 + sum_list [5000], example_timer_world 5000 1 1000 1000)"
  using freerun_time_is_wrapping_sum[where TaskDelay_Impl = "\<lambda>ms p. p" and ticks = "[1000, 0, 2000]"
          and timebase_id = "0x80001" and w = "example_timebase_at 5000"
          and w' = "example_timebase_at 8000" and calls = "[]" and v = 0 and ?r0.0 = 5000]
        freerun_time_is_wrapping_sum[where TaskDelay_Impl = "\<lambda>ms p. p" and ticks = "[5000]"
          and timebase_id = "0x80001" and w = "example_timer_world 0 0 1000 1000"
          and w' = "example_timer_world 5000 1 1000 1000"
          and calls = "[(7, 0x90001, 42), (7, 0x90001, 42), (7, 0x90001, 42)]" and v = 0 and ?r0.0 = 0]
  by (simp add: example_timebase_thread example_timebase_freerun example_timebase_lengths
      example_timer_runs example_timer_freerun example_timer_lengths)

text \<open>
  Claim C8 as stated fails: the counter is a \<open>uint32\<close> and wraps.  From a count of
  0, a tick of \<open>0xFFFFFFFF\<close> followed by a tick of 2 leaves the counter at 1, which
  is less than it was after the first tick and is not the sum of the two tick values.
\<close>

theorem freerun_time_wraps_around:
  "OS_TimeBase_CallbackThread (\<lambda>ms p. p) [0xFFFFFFFF] 0x80001 (example_timebase_at 0) =
     Some (example_timebase_at 0xFFFFFFFF, []) \<and>
   OS_TimeBase_CallbackThread (\<lambda>ms p. p) [0xFFFFFFFF, 2] 0x80001 (example_timebase_at 0) =
     Some (example_timebase_at 1, []) \<and>
   OS_TimeBaseGetFreeRun 0x80001 0 (example_timebase_at 0xFFFFFFFF) =
     (OS_SUCCESS, 0xFFFFFFFF, example_timebase_at 0xFFFFFFFF) \<and>
   OS_TimeBaseGetFreeRun 0x80001 0 (example_timebase_at 1) =
     (OS_SUCCESS, 1, example_timebase_at 1) \<and>
   (1 :: uint32) < 0xFFFFFFFF \<and>
   unat (1 :: uint32) \<noteq> unat (0xFFFFFFFF :: uint32) + unat (2 :: uint32)"
  by (simp add: example_timebase_thread example_timebase_freerun example_wrapped_sum)

section \<open>The time base API in the context of a time base thread\<close>

text \<open>
  Claim C9, as amended.  When the calling task's handle has the time base type,
  \<open>OS_TimeBaseCreate\<close>, \<open>OS_TimeBaseSet\<close>, \<open>OS_TimeBaseDelete\<close>,
  \<open>OS_TimeBaseGetIdByName\<close> and \<open>OS_TimeBaseGetInfo\<close> fail with
  \<open>OS_ERR_INCORRECT_OBJ_STATE\<close> and leave the global state and the caller's output
  untouched, provided the arguments pass the checks that come first in the code: non-null
  pointers, a name shorter than \<open>OS_MAX_API_NAME\<close> for the creation, and start and
  interval times below 1000000000 for the setting.  \<open>OS_TimeBaseGetFreeRun\<close> is not
  among them: it consults no calling context.
\<close>

theorem timebase_api_rejected_in_timebase_context:
  assumes "OS_ObjectIdToType_Impl self_id = OS_OBJECT_TYPE_OS_TIMEBASE"
  shows "(length name < OS_MAX_API_NAME cfg \<longrightarrow>
            OS_TimeBaseCreate cfg AllocateNew TimeBaseCreate_Impl FinalizeNew self_id
              (Some out_id) (Some name) sync w =
            (OS_ERR_INCORRECT_OBJ_STATE, Some out_id, w)) \<and>
         (start_time < 1000000000 \<and> interval < 1000000000 \<longrightarrow>
            OS_TimeBaseSet TimeBaseSet_Impl self_id timer_id start_time interval w =
            (OS_ERR_INCORRECT_OBJ_STATE, w)) \<and>
         OS_TimeBaseDelete TimeBaseDelete_Impl FinalizeDelete self_id timer_id w =
            (OS_ERR_INCORRECT_OBJ_STATE, w) \<and>
         OS_TimeBaseGetIdByName self_id (Some out_id) (Some name) w =
            (OS_ERR_INCORRECT_OBJ_STATE, Some out_id, w) \<and>
         OS_TimeBaseGetInfo cfg TimeBaseGetInfo_Impl self_id timer_id (Some timebase_prop) w =
            (OS_ERR_INCORRECT_OBJ_STATE, Some timebase_prop, w)"
  using assms
  by (auto simp add: OS_TimeBaseCreate_def OS_TimeBaseSet_def OS_TimeBaseDelete_def
      OS_TimeBaseGetIdByName_def OS_TimeBaseGetInfo_def)

theorem timebase_api_rejected_in_timebase_context_witness:
  "OS_ObjectIdToType_Impl 0x80001 = OS_OBJECT_TYPE_OS_TIMEBASE \<and>
   length ''tb2'' < OS_MAX_API_NAME example_config \<and>
   OS_TimeBaseCreate example_config (\<lambda>t n w. (OS_SUCCESS, 0, w)) (\<lambda>i w. (OS_SUCCESS, platform w))
       (\<lambda>rc i w. (rc, 0x80002, w)) 0x80001 (Some 0) (Some ''tb2'') None example_timebase_world =
     (OS_ERR_INCORRECT_OBJ_STATE, Some 0, example_timebase_world) \<and>
   OS_TimeBaseSet (\<lambda>i s t w. (OS_SUCCESS, platform w)) 0x80001 0x80001 1000 1000
       example_timebase_world =
     (OS_ERR_INCORRECT_OBJ_STATE, example_timebase_world) \<and>
   OS_TimeBaseDelete (\<lambda>i w. (OS_SUCCESS, platform w)) (\<lambda>rc i w. (rc, w)) 0x80001 0x80001
       example_timebase_world =
     (OS_ERR_INCORRECT_OBJ_STATE, example_timebase_world) \<and>
   OS_TimeBaseGetIdByName 0x80001 (Some 0) (Some ''tb2'') example_timebase_world =
     (OS_ERR_INCORRECT_OBJ_STATE, Some 0, example_timebase_world) \<and>
   OS_TimeBaseGetInfo example_config example_TimeBaseGetInfo_Impl 0x80001 0x80001
       (Some stale_timebase_prop) example_timebase_world =
     (OS_ERR_INCORRECT_OBJ_STATE, Some stale_timebase_prop, example_timebase_world)"
  using timebase_api_rejected_in_timebase_context[where self_id = "0x80001" and name = "''tb2''"
      and cfg = example_config and AllocateNew = "\<lambda>t n w. (OS_SUCCESS, 0, w)"
      and TimeBaseCreate_Impl = "\<lambda>i w. (OS_SUCCESS, platform w)"
      and FinalizeNew = "\<lambda>rc i w. (rc, 0x80002, w)" and out_id = 0 and sync = None
      and w = example_timebase_world and start_time = 1000 and interval = 1000
      and TimeBaseSet_Impl = "\<lambda>i s t w. (OS_SUCCESS, platform w)" and timer_id = "0x80001"
      and TimeBaseDelete_Impl = "\<lambda>i w. (OS_SUCCESS, platform w)"
      and FinalizeDelete = "\<lambda>rc i w. (rc, w)"
      and TimeBaseGetInfo_Impl = example_TimeBaseGetInfo_Impl
      and timebase_prop = stale_timebase_prop]
  by (simp add: example_contexts example_config_def)

text \<open>
  Claim C9 as stated fails.  In the context of a time base thread (calling task
  \<open>0x80001\<close>) \<open>OS_TimeBaseGetFreeRun\<close> succeeds on a live time base, and the
  argument checks of \<open>OS_TimeBaseCreate\<close> and \<open>OS_TimeBaseSet\<close> answer before the
  context check does.
\<close>

theorem timebase_api_context_check_counterexample:
  "OS_ObjectIdToType_Impl 0x80001 = OS_OBJECT_TYPE_OS_TIMEBASE \<and>
   OS_TimeBaseGetFreeRun 0x80001 0 example_timebase_world =
     (OS_SUCCESS, 5000, example_timebase_world) \<and>
   OS_TimeBaseCreate example_config (\<lambda>t n w. (OS_SUCCESS, 0, w)) (\<lambda>i w. (OS_SUCCESS, platform w))
       (\<lambda>rc i w. (rc, 0x80002, w)) 0x80001 (Some 0) None None example_timebase_world =
     (OS_INVALID_POINTER, Some 0, example_timebase_world) \<and>
   OS_TimeBaseSet (\<lambda>i s t w. (OS_SUCCESS, platform w)) 0x80001 0x80001 1000000000 1000
       example_timebase_world =
     (OS_TIMER_ERR_INVALID_ARGS, example_timebase_world)"
  by (simp add: example_contexts OS_TimeBaseGetFreeRun_def OS_TimeBaseCreate_def OS_TimeBaseSet_def
      example_eval example_timebase_world_def OS_OBJECT_TYPE_OS_TIMEBASE_def
      zero_timebase_record_def flip: numeral_2_eq_2)

section \<open>The output structure of the GetInfo calls\<close>

lemma stale_handle_lookups:
  "fst (OS_ObjectIdGetById OS_LOCK_MODE_GLOBAL OS_OBJECT_TYPE_OS_QUEUE 0x20001
          (OS_global_queue_table example_timebase_world)) = OS_ERR_INVALID_ID"
  "fst (OS_ObjectIdGetById OS_LOCK_MODE_GLOBAL OS_OBJECT_TYPE_OS_BINSEM 0x20001
          (OS_global_bin_sem_table example_timebase_world)) = OS_ERR_INVALID_ID"
  "fst (OS_ObjectIdGetById OS_LOCK_MODE_GLOBAL OS_OBJECT_TYPE_OS_TIMEBASE 0x80003
          (OS_global_timebase_table example_timebase_world)) = OS_ERR_INVALID_ID"
  by (simp_all add: example_eval example_timebase_world_def
      OS_OBJECT_TYPE_OS_QUEUE_def OS_OBJECT_TYPE_OS_BINSEM_def OS_OBJECT_TYPE_OS_TIMEBASE_def
      flip: numeral_2_eq_2)

text \<open>
  Claim C10, as amended.  \<open>OS_QueueGetInfo\<close>, \<open>OS_BinSemGetInfo\<close> and
  \<open>OS_TimeBaseGetInfo\<close>, called with a non-null output pointer, clear the output
  structure before they look the handle up: whenever the lookup fails (which it does with
  \<open>OS_ERR_INVALID_ID\<close>), the caller's structure is entirely zero and the global state
  is unchanged.  \<open>OS_TimeBaseGetInfo\<close> has one more error return, which comes before
  the structure is cleared: called from a task whose handle has the time base type, it
  returns \<open>OS_ERR_INCORRECT_OBJ_STATE\<close> and leaves the caller's structure as it was.
\<close>

theorem GetInfo_output_after_failed_lookup:
  "(fst (OS_ObjectIdGetById OS_LOCK_MODE_GLOBAL OS_OBJECT_TYPE_OS_QUEUE queue_id
           (OS_global_queue_table w)) \<noteq> OS_SUCCESS \<longrightarrow>
      OS_QueueGetInfo cfg queue_id (Some queue_prop) w =
        (OS_ERR_INVALID_ID, Some zero_queue_prop, w)) \<and>
   (fst (OS_ObjectIdGetById OS_LOCK_MODE_GLOBAL OS_OBJECT_TYPE_OS_BINSEM sem_id
           (OS_global_bin_sem_table w)) \<noteq> OS_SUCCESS \<longrightarrow>
      OS_BinSemGetInfo cfg BinSemGetInfo_Impl sem_id (Some bin_prop) w =
        (OS_ERR_INVALID_ID, Some zero_bin_sem_prop, w)) \<and>
   (OS_ObjectIdToType_Impl self_id \<noteq> OS_OBJECT_TYPE_OS_TIMEBASE \<and>
    fst (OS_ObjectIdGetById OS_LOCK_MODE_GLOBAL OS_OBJECT_TYPE_OS_TIMEBASE timebase_id
           (OS_global_timebase_table w)) \<noteq> OS_SUCCESS \<longrightarrow>
      OS_TimeBaseGetInfo cfg TimeBaseGetInfo_Impl self_id timebase_id (Some timebase_prop) w =
        (OS_ERR_INVALID_ID, Some zero_timebase_prop, w)) \<and>
   (OS_ObjectIdToType_Impl self_id = OS_OBJECT_TYPE_OS_TIMEBASE \<longrightarrow>
      OS_TimeBaseGetInfo cfg TimeBaseGetInfo_Impl self_id timebase_id (Some timebase_prop) w =
        (OS_ERR_INCORRECT_OBJ_STATE, Some timebase_prop, w))"
proof (intro conjI impI)
  assume "fst (OS_ObjectIdGetById OS_LOCK_MODE_GLOBAL OS_OBJECT_TYPE_OS_QUEUE queue_id
                 (OS_global_queue_table w)) \<noteq> OS_SUCCESS"
  then show "OS_QueueGetInfo cfg queue_id (Some queue_prop) w =
               (OS_ERR_INVALID_ID, Some zero_queue_prop, w)"
    by (cases rule: OS_ObjectIdGetById_GLOBAL_cases
          [of OS_OBJECT_TYPE_OS_QUEUE queue_id "OS_global_queue_table w"])
       (simp_all add: OS_QueueGetInfo_def)
next
  assume "fst (OS_ObjectIdGetById OS_LOCK_MODE_GLOBAL OS_OBJECT_TYPE_OS_BINSEM sem_id
                 (OS_global_bin_sem_table w)) \<noteq> OS_SUCCESS"
  then show "OS_BinSemGetInfo cfg BinSemGetInfo_Impl sem_id (Some bin_prop) w =
               (OS_ERR_INVALID_ID, Some zero_bin_sem_prop, w)"
    by (cases rule: OS_ObjectIdGetById_GLOBAL_cases
          [of OS_OBJECT_TYPE_OS_BINSEM sem_id "OS_global_bin_sem_table w"])
       (simp_all add: OS_BinSemGetInfo_def)
next
  assume "OS_ObjectIdToType_Impl self_id \<noteq> OS_OBJECT_TYPE_OS_TIMEBASE \<and>
          fst (OS_ObjectIdGetById OS_LOCK_MODE_GLOBAL OS_OBJECT_TYPE_OS_TIMEBASE timebase_id
                 (OS_global_timebase_table w)) \<noteq> OS_SUCCESS"
  then show "OS_TimeBaseGetInfo cfg TimeBaseGetInfo_Impl self_id timebase_id (Some timebase_prop) w =
               (OS_ERR_INVALID_ID, Some zero_timebase_prop, w)"
    by (cases rule: OS_ObjectIdGetById_GLOBAL_cases
          [of OS_OBJECT_TYPE_OS_TIMEBASE timebase_id "OS_global_timebase_table w"])
       (simp_all add: OS_TimeBaseGetInfo_def)
next
  assume "OS_ObjectIdToType_Impl self_id = OS_OBJECT_TYPE_OS_TIMEBASE"
  then show "OS_TimeBaseGetInfo cfg TimeBaseGetInfo_Impl self_id timebase_id (Some timebase_prop) w =
               (OS_ERR_INCORRECT_OBJ_STATE, Some timebase_prop, w)"
    by (simp add: OS_TimeBaseGetInfo_def)
qed

theorem GetInfo_output_after_failed_lookup_witness:
  "OS_QueueGetInfo example_config 0x20001 (Some \<lparr>queue_prop_name = ''old'', queue_prop_creator = 7\<rparr>)
       example_timebase_world =
     (OS_ERR_INVALID_ID, Some zero_queue_prop, example_timebase_world) \<and>
   OS_BinSemGetInfo example_config OS_BinSemGetInfo_Impl_vxworks 0x20001
       (Some \<lparr>bin_prop_name = ''old'', bin_prop_creator = 7, bin_prop_value = 1\<rparr>)
       example_timebase_world =
     (OS_ERR_INVALID_ID, Some zero_bin_sem_prop, example_timebase_world) \<and>
   OS_TimeBaseGetInfo example_config example_TimeBaseGetInfo_Impl 0x10001 0x80003
       (Some stale_timebase_prop) example_timebase_world =
     (OS_ERR_INVALID_ID, Some zero_timebase_prop, example_timebase_world) \<and>
   OS_TimeBaseGetInfo example_config example_TimeBaseGetInfo_Impl 0x80001 0x80001
       (Some stale_timebase_prop) example_timebase_world =
     (OS_ERR_INCORRECT_OBJ_STATE, Some stale_timebase_prop, example_timebase_world)"
  using GetInfo_output_after_failed_lookup[where queue_id = "0x20001" and w = example_timebase_world
          and cfg = example_config
          and queue_prop = "\<lparr>queue_prop_name = ''old'', queue_prop_creator = 7\<rparr>"
          and sem_id = "0x20001" and BinSemGetInfo_Impl = OS_BinSemGetInfo_Impl_vxworks
          and bin_prop = "\<lparr>bin_prop_name = ''old'', bin_prop_creator = 7, bin_prop_value = 1\<rparr>"
          and self_id = "0x10001" and timebase_id = "0x80003"
          and TimeBaseGetInfo_Impl = example_TimeBaseGetInfo_Impl
          and timebase_prop = stale_timebase_prop]
        GetInfo_output_after_failed_lookup[where queue_id = "0x20001" and w = example_timebase_world
          and cfg = example_config
          and queue_prop = "\<lparr>queue_prop_name = ''old'', queue_prop_creator = 7\<rparr>"
          and sem_id = "0x20001" and BinSemGetInfo_Impl = OS_BinSemGetInfo_Impl_vxworks
          and bin_prop = "\<lparr>bin_prop_name = ''old'', bin_prop_creator = 7, bin_prop_value = 1\<rparr>"
          and self_id = "0x80001" and timebase_id = "0x80001"
          and TimeBaseGetInfo_Impl = example_TimeBaseGetInfo_Impl
          and timebase_prop = stale_timebase_prop]
  by (simp add: stale_handle_lookups example_contexts)

text \<open>
  Claim C10 as stated fails: \<open>OS_TimeBaseGetInfo\<close> called from the time base context
  returns an error and the caller's structure still holds its stale contents.
\<close>

theorem GetInfo_stale_output_counterexample:
  "OS_TimeBaseGetInfo example_config example_TimeBaseGetInfo_Impl 0x80001 0x80001
       (Some stale_timebase_prop) example_timebase_world =
     (OS_ERR_INCORRECT_OBJ_STATE, Some stale_timebase_prop, example_timebase_world) \<and>
   stale_timebase_prop \<noteq> zero_timebase_prop"
  by (simp add: OS_TimeBaseGetInfo_def example_contexts stale_timebase_prop_def
      zero_timebase_prop_def)


end
